theory Spec2Isabelle
  imports Main "HOL-Library.AList" "HOL-Library.Char_ord" "HOL-Library.List_Lexorder"
begin

section \<open>Python strings\<close>

text \<open>
  Python \<open>str\<close> values are modelled as \<^typ>\<open>string\<close>: a \<^typ>\<open>char\<close> is a code point
  from U+0000 to U+00FF. The functions below are the string methods the two source
  files call, with the behaviour Python gives them on these code points.
\<close>

text \<open>\<open>p in s\<close> for strings: \<open>p\<close> occurs as a contiguous piece of \<open>s\<close>.\<close>

fun startswith :: "string \<Rightarrow> string \<Rightarrow> bool" where
  "startswith s [] = True"
| "startswith [] (p # ps) = False"
| "startswith (c # cs) (p # ps) = (c = p \<and> startswith cs ps)"

fun contains :: "string \<Rightarrow> string \<Rightarrow> bool" where
  "contains p [] = (p = [])"
| "contains p (c # cs) = (startswith (c # cs) p \<or> contains p cs)"

text \<open>
  \<open>s.lower()\<close>: the upper-case letters below U+0100 are \<open>A\<close> to \<open>Z\<close>, U+00C0 to U+00D6 and
  U+00D8 to U+00DE; each has its lower-case letter 32 places further on.
\<close>

definition upper_letters :: string where
  "upper_letters =
     ''ABCDEFGHIJKLMNOPQRSTUVWXYZ'' @
       [CHR 0xC0, CHR 0xC1, CHR 0xC2, CHR 0xC3, CHR 0xC4, CHR 0xC5, CHR 0xC6, CHR 0xC7, CHR 0xC8, CHR 0xC9,
        CHR 0xCA, CHR 0xCB, CHR 0xCC, CHR 0xCD, CHR 0xCE, CHR 0xCF, CHR 0xD0, CHR 0xD1, CHR 0xD2, CHR 0xD3,
        CHR 0xD4, CHR 0xD5, CHR 0xD6, CHR 0xD8, CHR 0xD9, CHR 0xDA, CHR 0xDB, CHR 0xDC, CHR 0xDD, CHR 0xDE]"

definition lower_letters :: string where
  "lower_letters =
     ''abcdefghijklmnopqrstuvwxyz'' @
       [CHR 0xE0, CHR 0xE1, CHR 0xE2, CHR 0xE3, CHR 0xE4, CHR 0xE5, CHR 0xE6, CHR 0xE7, CHR 0xE8, CHR 0xE9,
        CHR 0xEA, CHR 0xEB, CHR 0xEC, CHR 0xED, CHR 0xEE, CHR 0xEF, CHR 0xF0, CHR 0xF1, CHR 0xF2, CHR 0xF3,
        CHR 0xF4, CHR 0xF5, CHR 0xF6, CHR 0xF8, CHR 0xF9, CHR 0xFA, CHR 0xFB, CHR 0xFC, CHR 0xFD, CHR 0xFE]"

definition lower_char :: "char \<Rightarrow> char" where
  "lower_char c =
     (case map_of (zip upper_letters lower_letters) c of None \<Rightarrow> c | Some l \<Rightarrow> l)"

definition lower :: "string \<Rightarrow> string" where
  "lower s = map lower_char s"

text \<open>
  \<open>c.isspace()\<close>: below U+0100 the white space of Python is the space, U+0009 to U+000D,
  U+001C to U+001F, U+0085 (next line) and U+00A0 (no-break space). \<open>s.strip()\<close> removes
  these characters at both ends.
\<close>

definition isspace :: "char \<Rightarrow> bool" where
  "isspace c = (c \<in> set [CHR '' '', CHR 0x09, CHR 0x0A, CHR 0x0B, CHR 0x0C, CHR 0x0D,
                          CHR 0x1C, CHR 0x1D, CHR 0x1E, CHR 0x1F, CHR 0x85, CHR 0xA0])"

definition strip :: "string \<Rightarrow> string" where
  "strip s = rev (dropWhile isspace (rev (dropWhile isspace s)))"

text \<open>\<open>s.split(sep)\<close> for a one-character separator: never an empty list.\<close>

fun split :: "char \<Rightarrow> string \<Rightarrow> string list" where
  "split sep [] = [[]]"
| "split sep (c # cs) =
     (if c = sep then [] # split sep cs
      else (case split sep cs of [] \<Rightarrow> [[c]] | w # ws \<Rightarrow> (c # w) # ws))"

text \<open>\<open>sep.join(xs)\<close>.\<close>

fun join :: "string \<Rightarrow> string list \<Rightarrow> string" where
  "join sep [] = []"
| "join sep [x] = x"
| "join sep (x # y # ys) = x @ sep @ join sep (y # ys)"

text \<open>
  \<open>s.replace(old, new)\<close> replaces the occurrences of \<open>old\<close> from left to right, without
  overlap; \<open>s.replace(old, new, 1)\<close> replaces the first one only. Both callers pass a
  non-empty \<open>old\<close>; an empty one leaves the string as it is here.
\<close>

fun py_replace :: "string \<Rightarrow> string \<Rightarrow> string \<Rightarrow> string" where
  "py_replace old new [] = []"
| "py_replace old new (c # cs) =
     (if old \<noteq> [] \<and> startswith (c # cs) old
      then new @ py_replace old new (drop (length old) (c # cs))
      else c # py_replace old new cs)"

fun py_replace1 :: "string \<Rightarrow> string \<Rightarrow> string \<Rightarrow> string" where
  "py_replace1 old new [] = []"
| "py_replace1 old new (c # cs) =
     (if old \<noteq> [] \<and> startswith (c # cs) old
      then new @ drop (length old) (c # cs)
      else c # py_replace1 old new cs)"

text \<open>\<open>str(n)\<close> for an integer.\<close>

fun str_nat :: "nat \<Rightarrow> string" where
  "str_nat n =
     (if n < 10 then [''0123456789'' ! n]
      else str_nat (n div 10) @ [''0123456789'' ! (n mod 10)])"

declare str_nat.simps [simp del]

definition str_int :: "int \<Rightarrow> string" where
  "str_int i = (if i < 0 then CHR ''-'' # str_nat (nat (- i)) else str_nat (nat i))"

text \<open>\<open>a or b\<close> on strings that may be absent: the first non-empty one.\<close>

definition truthy :: "string option \<Rightarrow> bool" where
  "truthy s = (case s of None \<Rightarrow> False | Some v \<Rightarrow> v \<noteq> [])"

section \<open>Data model\<close>

text \<open>
  A machine of the fleet snapshot is a JSON object. A key the code reads with
  \<open>machine[...]\<close> is a plain field; a key read with \<open>.get\<close> is optional, \<open>None\<close> standing
  for the absent key. \<open>pool_name\<close> is \<open>machine.get('pool', {}).get('name')\<close>; \<open>tag_names\<close>
  and \<open>memory\<close> hold the defaults \<open>[]\<close> and \<open>0\<close> of their \<open>.get\<close> when the key is absent.
\<close>

record machine =
  system_id :: string
  hostname :: "string option"
  fqdn :: "string option"
  status_name :: string
  pool_name :: "string option"
  tag_names :: "string list"
  architecture :: "string option"
  cpu_count :: "nat option"
  memory :: nat

text \<open>\<open>MachineProvisionRequest\<close>.\<close>

record request =
  req_machines :: "string list option"
  req_distro_series :: "string option"
  req_user_data :: "string option"
  req_tags :: "string list option"
  req_pool :: "string option"
  req_count :: "int option"
  req_auto_select :: "bool option"
  req_tag_match_mode :: "string option"

text \<open>The \<open>config\<close> dictionary stored in a job.\<close>

record job_config =
  distro_series :: string
  user_data :: "string option"
  tags :: "string list option"
  pool :: "string option"
  count :: "int option"
  auto_select :: "bool option"
  tag_match_mode :: "string option"

text \<open>One element of \<open>available_machines\<close> in the insufficient-resources error.\<close>

record candidate =
  cand_system_id :: string
  cand_hostname :: string
  cand_tags :: "string list"
  cand_pool :: string

text \<open>The \<open>detail\<close> payloads of the HTTP errors raised by the selection code.\<close>

datatype detail =
    Message string
  | TagsRequired
  | CountRequired
  | MachinesRequired
  | CannotResolve "string list" "string list" "string list"
  | ResolveFailed string
  | NotEnoughResources int nat "string list" string string "candidate list"
  | AutoSelectFailed string

datatype exn = HTTPException nat detail | Exception string

record resource_validation =
  rv_requested_count :: int
  rv_available_count :: nat
  rv_selected_machines :: nat
  rv_tags :: "string list"
  rv_tag_match_mode :: string
  rv_pool :: "string option"

text \<open>One entry of \<open>job['results']\<close>; the keys a branch does not write are \<open>None\<close>.\<close>

record result_entry =
  machine_id :: string
  res_hostname :: string
  res_status :: string
  reason :: "string option"
  res_distro_series :: "string option"
  os_type :: "string option"
  deployed_at :: "string option"
  maas_result :: "string option"
  res_error :: "string option"

record job =
  job_id :: string
  status :: string
  created_at :: string
  updated_at :: string
  completed_at :: "string option"
  machines :: "(string \<times> string) list"
  total_machines :: nat
  successful_deployments :: nat
  failed_deployments :: nat
  results :: "result_entry list"
  job_resource_validation :: "resource_validation option"
  config :: job_config
  job_error :: "string option"

text \<open>The module-level state of \<open>app.py\<close>.\<close>

record app =
  maas_config :: "(string \<rightharpoonup> string) option"
  user_config :: "(string \<rightharpoonup> string) option"
  provisioning_jobs :: "(string \<times> job) list"
  job_id_counter :: nat

section \<open>Selection: \<open>resolve_machine_identifiers\<close>\<close>

text \<open>
  The first loop fills the two dictionaries; \<open>machine['hostname']\<close> raises \<open>KeyError\<close> on a
  machine without that key. A dictionary is an association list in insertion order
  (\<^const>\<open>AList.update\<close> overwrites in place, as a Python \<open>dict\<close> does).
\<close>

fun lookup_maps ::
  "machine list \<Rightarrow> (string \<times> string) list \<times> (string \<times> string) list \<Rightarrow>
   exn + (string \<times> string) list \<times> (string \<times> string) list" where
  "lookup_maps [] (hostname_to_id, id_to_hostname) = Inr (hostname_to_id, id_to_hostname)"
| "lookup_maps (m # ms) (hostname_to_id, id_to_hostname) =
     (case hostname m of
        None \<Rightarrow> Inl (Exception (CHR 0x27 # ''hostname'' @ [CHR 0x27]))
      | Some h \<Rightarrow>
          lookup_maps ms (AList.update h (system_id m) hostname_to_id,
                          AList.update (system_id m) h id_to_hostname))"

text \<open>The second loop: identifier first, hostname second, unresolved otherwise.\<close>

fun resolve_loop ::
  "(string \<times> string) list \<Rightarrow> (string \<times> string) list \<Rightarrow> string list \<Rightarrow>
   string list \<times> string list \<Rightarrow> string list \<times> string list" where
  "resolve_loop hostname_to_id id_to_hostname [] (resolved_ids, unresolved) =
     (resolved_ids, unresolved)"
| "resolve_loop hostname_to_id id_to_hostname (identifier # rest) (resolved_ids, unresolved) =
     (if identifier \<in> fst ` set id_to_hostname
      then resolve_loop hostname_to_id id_to_hostname rest
             (resolved_ids @ [identifier], unresolved)
      else (case map_of hostname_to_id identifier of
              Some sid \<Rightarrow> resolve_loop hostname_to_id id_to_hostname rest
                            (resolved_ids @ [sid], unresolved)
            | None \<Rightarrow> resolve_loop hostname_to_id id_to_hostname rest
                        (resolved_ids, unresolved @ [identifier])))"

text \<open>
  The body of the \<open>try\<close>; the argument \<open>fetched\<close> is what \<open>maas_api('machines/')\<close> returned
  or raised.
\<close>

definition resolve_body :: "exn + machine list \<Rightarrow> string list \<Rightarrow> exn + string list" where
  "resolve_body fetched identifiers =
     (case fetched of
        Inl e \<Rightarrow> Inl e
      | Inr all_machines \<Rightarrow>
          (case lookup_maps all_machines ([], []) of
             Inl e \<Rightarrow> Inl e
           | Inr (hostname_to_id, id_to_hostname) \<Rightarrow>
               (case resolve_loop hostname_to_id id_to_hostname identifiers ([], []) of
                  (resolved_ids, unresolved) \<Rightarrow>
                    if unresolved \<noteq> []
                    then Inl (HTTPException 400
                           (CannotResolve unresolved
                              (sort (map fst hostname_to_id))
                              (sort (map fst id_to_hostname))))
                    else Inr resolved_ids)))"

text \<open>The two \<open>except\<close> clauses: an HTTP error passes, anything else becomes a 500.\<close>

definition resolve_machine_identifiers ::
  "exn + machine list \<Rightarrow> string list \<Rightarrow> exn + string list" where
  "resolve_machine_identifiers fetched identifiers =
     (case resolve_body fetched identifiers of
        Inl (HTTPException code d) \<Rightarrow> Inl (HTTPException code d)
      | Inl (Exception msg) \<Rightarrow> Inl (HTTPException 500 (ResolveFailed msg))
      | Inr resolved_ids \<Rightarrow> Inr resolved_ids)"

section \<open>Selection: \<open>provision_machines\<close>\<close>

text \<open>\<open>x or d\<close> on an optional string: \<open>d\<close> when \<open>x\<close> is absent or empty.\<close>

definition or_else :: "string option \<Rightarrow> string \<Rightarrow> string" where
  "or_else x d = (case x of None \<Rightarrow> d | Some v \<Rightarrow> if v = [] then d else v)"

text \<open>\<open>configured_pools\<close>: the \<open>POOLS\<close> entry of \<open>maas.conf\<close>, or \<open>['default']\<close>.\<close>

definition configured_pools :: "app \<Rightarrow> string list" where
  "configured_pools a =
     (case maas_config a of
        None \<Rightarrow> [''default'']
      | Some cfg \<Rightarrow>
          (case cfg ''POOLS'' of
             None \<Rightarrow> [''default'']
           | Some v \<Rightarrow> if v = [] then [''default''] else map strip (split CHR '','' v)))"

text \<open>\<open>machine.get('pool', {}).get('name', 'default')\<close>.\<close>

definition machine_pool :: "machine \<Rightarrow> string" where
  "machine_pool m = (case pool_name m of None \<Rightarrow> ''default'' | Some p \<Rightarrow> p)"

text \<open>\<open>request.tags and len(request.tags) > 0\<close> and \<open>not request.machines\<close>.\<close>

definition tags_given :: "request \<Rightarrow> bool" where
  "tags_given r = (case req_tags r of None \<Rightarrow> False | Some ts \<Rightarrow> ts \<noteq> [])"

definition no_machines :: "request \<Rightarrow> bool" where
  "no_machines r = (case req_machines r of None \<Rightarrow> True | Some ms \<Rightarrow> ms = [])"

definition auto_mode :: "request \<Rightarrow> bool" where
  "auto_mode r = (req_auto_select r = Some True \<or> (tags_given r \<and> no_machines r))"

text \<open>The input validation at the head of \<open>provision_machines\<close>.\<close>

definition validate_request :: "request \<Rightarrow> exn option" where
  "validate_request r =
     (if auto_mode r then
        (if \<not> tags_given r then Some (HTTPException 400 TagsRequired)
         else (case req_count r of
                 None \<Rightarrow> Some (HTTPException 400 CountRequired)
               | Some c \<Rightarrow> if c = 0 \<or> c < 1 then Some (HTTPException 400 CountRequired)
                           else None))
      else (if no_machines r then Some (HTTPException 400 MachinesRequired) else None))"

text \<open>
  The tag filter of the selection loop: \<open>any(tag in machine_tags for tag in request.tags)\<close>
  in mode \<open>'any'\<close>, \<open>all(...)\<close> in every other mode.
\<close>

definition tag_match :: "string \<Rightarrow> string list \<Rightarrow> machine \<Rightarrow> bool" where
  "tag_match match_mode tgs m =
     (if match_mode = ''any'' then list_ex (\<lambda>tag. tag \<in> set (tag_names m)) tgs
      else list_all (\<lambda>tag. tag \<in> set (tag_names m)) tgs)"

definition tagged_machines :: "string \<Rightarrow> string list \<Rightarrow> machine list \<Rightarrow> machine list" where
  "tagged_machines match_mode tgs available =
     filter (tag_match match_mode tgs) available"

text \<open>\<open>xs[:n]\<close>.\<close>

definition slice_to :: "int \<Rightarrow> 'a list \<Rightarrow> 'a list" where
  "slice_to n xs = (if 0 \<le> n then take (nat n) xs else take (length xs - nat (- n)) xs)"

definition candidate_of :: "machine \<Rightarrow> candidate" where
  "candidate_of m =
     \<lparr>cand_system_id = system_id m,
      cand_hostname = (case hostname m of None \<Rightarrow> system_id m | Some h \<Rightarrow> h),
      cand_tags = tag_names m,
      cand_pool = machine_pool m\<rparr>"

definition match_mode_of :: "request \<Rightarrow> string" where
  "match_mode_of r = or_else (req_tag_match_mode r) ''all''"

definition pool_filtered_machines :: "app \<Rightarrow> machine list \<Rightarrow> machine list" where
  "pool_filtered_machines a all_machines =
     filter (\<lambda>machine. machine_pool machine \<in> set (configured_pools a)) all_machines"

definition available_machines :: "app \<Rightarrow> request \<Rightarrow> machine list \<Rightarrow> machine list" where
  "available_machines a r all_machines =
     (if truthy (req_pool r)
      then filter (\<lambda>m. Some (machine_pool m) = req_pool r) (pool_filtered_machines a all_machines)
      else pool_filtered_machines a all_machines)"

definition ready_machines ::
  "app \<Rightarrow> request \<Rightarrow> string list \<Rightarrow> machine list \<Rightarrow> machine list" where
  "ready_machines a r tgs all_machines =
     filter (\<lambda>m. status_name m = ''Ready'')
       (tagged_machines (match_mode_of r) tgs (available_machines a r all_machines))"

definition insufficient_message :: "int \<Rightarrow> string list \<Rightarrow> string option \<Rightarrow> nat \<Rightarrow> string" where
  "insufficient_message c tgs p available_count =
     ''Requested '' @ str_int c @ '' machines with tags ['' @ join '', '' tgs @ '']'' @
     (if truthy p then '' in pool '' @ [CHR 0x27] @ or_else p [] @ [CHR 0x27] else []) @
     '', but only '' @ str_nat available_count @ '' ready machines available''"

text \<open>
  The \<open>try\<close> body of the automatic selection. Iterating over absent tags or comparing
  with an absent count raises \<open>TypeError\<close>.
\<close>

definition auto_select_body ::
  "app \<Rightarrow> exn + machine list \<Rightarrow> request \<Rightarrow> exn + string list \<times> resource_validation" where
  "auto_select_body a fetched r =
     (case fetched of
        Inl e \<Rightarrow> Inl e
      | Inr all_machines \<Rightarrow>
          (case req_tags r of
             None \<Rightarrow> Inl (Exception ''TypeError'')
           | Some tgs \<Rightarrow>
               (case req_count r of
                  None \<Rightarrow> Inl (Exception ''TypeError'')
                | Some c \<Rightarrow>
                    (let ready = ready_machines a r tgs all_machines in
                     if int (length ready) < c
                     then Inl (HTTPException 409
                            (NotEnoughResources c (length ready) tgs
                               (or_else (req_pool r) ''any configured pool'')
                               (insufficient_message c tgs (req_pool r) (length ready))
                               (map candidate_of ready)))
                     else (let selected = map system_id (slice_to c ready) in
                           Inr (selected,
                                \<lparr>rv_requested_count = c,
                                 rv_available_count = length ready,
                                 rv_selected_machines = length selected,
                                 rv_tags = tgs,
                                 rv_tag_match_mode = match_mode_of r,
                                 rv_pool = req_pool r\<rparr>))))))"

definition auto_select ::
  "app \<Rightarrow> exn + machine list \<Rightarrow> request \<Rightarrow> exn + string list \<times> resource_validation" where
  "auto_select a fetched r =
     (case auto_select_body a fetched r of
        Inl (HTTPException code d) \<Rightarrow> Inl (HTTPException code d)
      | Inl (Exception msg) \<Rightarrow> Inl (HTTPException 500 (AutoSelectFailed msg))
      | Inr v \<Rightarrow> Inr v)"

record response =
  resp_job_id :: string
  resp_status :: string
  resp_message :: string
  machines_to_deploy :: nat
  auto_selection :: "resource_validation option"
  selected_machines :: "string list option"

text \<open>The background task handed to \<open>add_task\<close>: job id, targets, configuration.\<close>

type_synonym task = "string \<times> string list \<times> job_config"

definition new_job ::
  "string \<Rightarrow> (nat \<Rightarrow> string) \<Rightarrow> resource_validation option \<Rightarrow> request \<Rightarrow> job" where
  "new_job jid now rv r =
     \<lparr>job_id = jid, status = ''pending'', created_at = now 0, updated_at = now 1,
      completed_at = None, machines = [], total_machines = 0,
      successful_deployments = 0, failed_deployments = 0, results = [],
      job_resource_validation = rv,
      config = \<lparr>distro_series = or_else (req_distro_series r) ''jammy'',
                user_data = req_user_data r, tags = req_tags r, pool = req_pool r,
                count = req_count r, auto_select = req_auto_select r,
                tag_match_mode = req_tag_match_mode r\<rparr>,
      job_error = None\<rparr>"

text \<open>
  \<open>provision_machines\<close>: \<open>fetched\<close> is the outcome of the one \<open>maas_api('machines/')\<close> call
  the request makes, \<open>t\<close> is \<open>int(time.time())\<close> and \<open>now\<close> gives the successive values of
  \<open>datetime.now().isoformat()\<close>. The result pairs what the handler returns or raises
  with the module state it leaves.
\<close>

definition select_targets ::
  "app \<Rightarrow> exn + machine list \<Rightarrow> request \<Rightarrow> exn + string list \<times> resource_validation option" where
  "select_targets a fetched r =
     (if \<not> auto_mode r
      then (case req_machines r of
              None \<Rightarrow> Inl (HTTPException 500 (ResolveFailed ''TypeError''))
            | Some ms \<Rightarrow>
                (case resolve_machine_identifiers fetched ms of
                   Inl e \<Rightarrow> Inl e
                 | Inr ids \<Rightarrow> Inr (ids, None)))
      else (case auto_select a fetched r of
              Inl e \<Rightarrow> Inl e
            | Inr (ids, rv) \<Rightarrow> Inr (ids, Some rv)))"

definition provision_body ::
  "app \<Rightarrow> exn + machine list \<Rightarrow> nat \<Rightarrow> (nat \<Rightarrow> string) \<Rightarrow> request \<Rightarrow>
   (exn + response \<times> task) \<times> app" where
  "provision_body a fetched t now r =
     (case validate_request r of
        Some e \<Rightarrow> (Inl e, a)
      | None \<Rightarrow>
          (case select_targets a fetched r of
             Inl e \<Rightarrow> (Inl e, a)
           | Inr (selected, rv) \<Rightarrow>
               (let jid = ''job-'' @ str_nat t @ ''-'' @ str_nat (job_id_counter a);
                    j = new_job jid now rv r
                in (Inr (\<lparr>resp_job_id = jid, resp_status = ''pending'',
                          resp_message = ''Provisioning job started. Use GET /api/provision/{job_id} to track progress.'',
                          machines_to_deploy = length selected,
                          auto_selection = rv,
                          selected_machines = (if rv = None then None else Some selected)\<rparr>,
                         (jid, selected, config j)),
                    a\<lparr>provisioning_jobs := AList.update jid j (provisioning_jobs a),
                      job_id_counter := job_id_counter a + 1\<rparr>))))"

definition provision_machines ::
  "app \<Rightarrow> exn + machine list \<Rightarrow> nat \<Rightarrow> (nat \<Rightarrow> string) \<Rightarrow> request \<Rightarrow>
   (exn + response \<times> task) \<times> app" where
  "provision_machines a fetched t now r =
     (case provision_body a fetched t now r of
        (Inl (HTTPException code d), a') \<Rightarrow> (Inl (HTTPException code d), a')
      | (Inl (Exception msg), a') \<Rightarrow> (Inl (HTTPException 500 (Message msg)), a')
      | (Inr v, a') \<Rightarrow> (Inr v, a'))"

section \<open>Configuration generation: \<open>cloud_init_generator.py\<close>\<close>

text \<open>
  The configuration document is the dictionary \<open>config\<close> / \<open>final_config\<close> of the source,
  with its keys as fields; \<open>users\<close>, \<open>hostname\<close> and \<open>final_message\<close> are \<open>None\<close>
  while the key is absent.
\<close>

record credentials =
  configured :: "bool option"
  username :: "string option"
  password :: "string option"

record user_entry =
  name :: string
  plain_text_passwd :: string
  sudo :: "string + string list"
  shell :: string
  groups :: "string list"
  lock_passwd :: bool
  ssh_authorized_keys :: "string list option"
  system :: "bool option"
  create_user_group :: "bool option"

record file_entry =
  content :: string
  path :: string

record cloud_config =
  packages :: "string list"
  ssh_pwauth :: bool
  disable_root :: bool
  users :: "user_entry list option"
  write_files :: "file_entry list"
  runcmd :: "string list"
  cc_hostname :: "string option"
  final_message :: "string option"

record enhancements =
  enh_packages :: "string list"
  enh_runcmd :: "string list"
  enh_write_files :: "file_entry list"

text \<open>A text block given line by line, each line ended by a newline.\<close>

definition text_lines :: "string list \<Rightarrow> string" where
  "text_lines ls = concat (map (\<lambda>l. l @ [CHR 0x0A]) ls)"

text \<open>\<open>any(x in os_type.lower() for x in ['rocky', 'rhel', 'centos'])\<close>.\<close>

definition is_rocky_os :: "string \<Rightarrow> bool" where
  "is_rocky_os os = list_ex (\<lambda>x. contains x (lower os)) [''rocky'', ''rhel'', ''centos'']"

subsection \<open>\<open>generate_base_cloud_init\<close>\<close>

definition rocky_packages :: "string list" where
  "rocky_packages =
     [''curl'', ''wget'', ''git'', ''htop'', ''vim'', ''net-tools'',
      ''openssh-server'', ''sudo'', ''tar'', ''gzip'', ''lldpd'', ''nvme-cli'',
      ''strace'', ''ltrace'', ''crash'', ''kexec-tools'', ''ibverbs-utils'',
      ''infiniband-diags'', ''screen'', ''tmux'', ''ipmitool'', ''rdma-core'',
      ''wireshark-cli'', ''fio'', ''smartmontools'', ''atop'']"

definition ubuntu_packages :: "string list" where
  "ubuntu_packages =
     [''curl'', ''wget'', ''git'', ''htop'', ''vim'', ''net-tools'',
      ''openssh-server'', ''lldpd'', ''nvme-cli'', ''strace'', ''ltrace'', ''crash'',
      ''kdump-tools'', ''ibverbs-utils'', ''ibutils'', ''infiniband-diags'',
      ''screen'', ''tmux'', ''ipmitool'', ''rdma-core'', ''tshark'', ''termshark'',
      ''fio'', ''smartmontools'', ''iozone3'', ''atop'']"

text \<open>The run commands of the branch with a configured user, Rocky family.\<close>

definition rocky_user_commands :: "string \<Rightarrow> string \<Rightarrow> string list" where
  \<open>rocky_user_commands user passwd =
    [''# CRITICAL: Force '' @ user @ '' user creation immediately (Rocky Linux compatibility)'',
      ''echo "=== EMERGENCY USER CREATION ===" | tee -a /var/log/cloud-init-userdata.log'',
      ''if ! id '' @ user @ '' >/dev/null 2>&1; then'',
      ''  echo "Cloud-init user creation appears to have failed. Creating '' @ user @ '' user manually NOW..." | tee -a /var/log/cloud-init-userdata.log'',
      ''  useradd -m -s /bin/bash '' @ user @ '' 2>&1 | tee -a /var/log/cloud-init-userdata.log || echo "ERROR: useradd failed" | tee -a /var/log/cloud-init-userdata.log'',
      ''  echo "'' @ user @ '':'' @ passwd @ ''" | chpasswd 2>&1 | tee -a /var/log/cloud-init-userdata.log || echo "ERROR: chpasswd failed" | tee -a /var/log/cloud-init-userdata.log'',
      ''  usermod -aG wheel '' @ user @ '' 2>&1 | tee -a /var/log/cloud-init-userdata.log || echo "ERROR: usermod wheel failed" | tee -a /var/log/cloud-init-userdata.log'',
      ''  id '' @ user @ '' 2>&1 | tee -a /var/log/cloud-init-userdata.log'',
      ''  echo "Emergency user creation completed" | tee -a /var/log/cloud-init-userdata.log'',
      ''else'',
      ''  echo "GOOD: '' @ user @ '' user exists, skipping emergency creation" | tee -a /var/log/cloud-init-userdata.log'',
      ''fi'',
      ''systemctl enable sshd 2>&1 | tee -a /var/log/cloud-init-userdata.log'',
      ''systemctl start sshd 2>&1 | tee -a /var/log/cloud-init-userdata.log'',
      ''# Ensure wheel group has sudo privileges for '' @ user @ '' user'',
      ''echo "%wheel ALL=(ALL) NOPASSWD: ALL" | tee /etc/sudoers.d/wheel'',
      ''chmod 0440 /etc/sudoers.d/wheel'',
      ''# Enhanced '' @ user @ '' user creation for Rocky Linux with comprehensive debugging'',
      ''echo "=== User Creation Debug Information ===" | tee -a /var/log/cloud-init-userdata.log'',
      ''echo "OS Type: Rocky/RHEL/CentOS detected" | tee -a /var/log/cloud-init-userdata.log'',
      ''echo "Available groups:" | tee -a /var/log/cloud-init-userdata.log'',
      ''getent group wheel docker 2>&1 | tee -a /var/log/cloud-init-userdata.log'',
      ''echo "Checking if '' @ user @ '' user exists..." | tee -a /var/log/cloud-init-userdata.log'',
      ''if id '' @ user @ '' >/dev/null 2>&1; then echo "GOOD: '' @ user @ '' user already exists from cloud-init" | tee -a /var/log/cloud-init-userdata.log; else echo "WARNING: '' @ user @ '' user not found, creating manually..." | tee -a /var/log/cloud-init-userdata.log; fi'',
      ''if ! id '' @ user @ '' >/dev/null 2>&1; then'',
      ''  echo "Step 1: Creating '' @ user @ '' user with useradd..." | tee -a /var/log/cloud-init-userdata.log'',
      ''  useradd -m -s /bin/bash '' @ user @ '' 2>&1 | tee -a /var/log/cloud-init-userdata.log'',
      ''  echo "Step 2: Setting password for '' @ user @ '' user..." | tee -a /var/log/cloud-init-userdata.log'',
      ''  echo "'' @ user @ '':'' @ passwd @ ''" | chpasswd 2>&1 | tee -a /var/log/cloud-init-userdata.log'',
      ''  echo "Step 3: Adding '' @ user @ '' to wheel group..." | tee -a /var/log/cloud-init-userdata.log'',
      ''  usermod -aG wheel '' @ user @ '' 2>&1 | tee -a /var/log/cloud-init-userdata.log'',
      ''  echo "Step 4: Adding '' @ user @ '' to docker group (if exists)..." | tee -a /var/log/cloud-init-userdata.log'',
      ''  getent group docker >/dev/null && usermod -aG docker '' @ user @ '' 2>&1 | tee -a /var/log/cloud-init-userdata.log || echo "Docker group not found, skipping..." | tee -a /var/log/cloud-init-userdata.log'',
      ''  echo "Manual user creation completed" | tee -a /var/log/cloud-init-userdata.log'',
      ''fi'',
      ''# Final verification of '' @ user @ '' user'',
      ''echo "=== Final User Verification ===" | tee -a /var/log/cloud-init-userdata.log'',
      ''id '' @ user @ '' 2>&1 | tee -a /var/log/cloud-init-userdata.log || echo "ERROR: '' @ user @ '' user still not found!" | tee -a /var/log/cloud-init-userdata.log'',
      ''groups '' @ user @ '' 2>&1 | tee -a /var/log/cloud-init-userdata.log || echo "ERROR: cannot check '' @ user @ '' user groups" | tee -a /var/log/cloud-init-userdata.log'',
      ''getent passwd '' @ user @ '' 2>&1 | tee -a /var/log/cloud-init-userdata.log || echo "ERROR: '' @ user @ '' user not in passwd database" | tee -a /var/log/cloud-init-userdata.log'',
      ''echo "Rocky Linux base configuration completed" | tee -a /var/log/cloud-init-userdata.log'']\<close>

text \<open>The same branch, Ubuntu family.\<close>

definition ubuntu_user_commands :: "string \<Rightarrow> string list" where
  \<open>ubuntu_user_commands user =
    [''systemctl enable ssh 2>&1 | tee -a /var/log/cloud-init-userdata.log'',
      ''systemctl start ssh 2>&1 | tee -a /var/log/cloud-init-userdata.log'',
      ''# Verify '' @ user @ '' user was created with correct groups'',
      ''id '' @ user @ '' 2>&1 | tee -a /var/log/cloud-init-userdata.log || echo "WARNING: '' @ user @ '' user not found" | tee -a /var/log/cloud-init-userdata.log'',
      ''groups '' @ user @ '' 2>&1 | tee -a /var/log/cloud-init-userdata.log || echo "WARNING: cannot check '' @ user @ '' user groups" | tee -a /var/log/cloud-init-userdata.log'',
      ''echo "Ubuntu base configuration completed" | tee -a /var/log/cloud-init-userdata.log'']\<close>

text \<open>The run commands of the branch without a user.\<close>

definition rocky_nouser_commands :: "string list" where
  \<open>rocky_nouser_commands =
    [''systemctl enable sshd 2>&1 | tee -a /var/log/cloud-init-userdata.log'',
      ''systemctl start sshd 2>&1 | tee -a /var/log/cloud-init-userdata.log'',
      ''echo "Rocky Linux base configuration completed (no user configured)" | tee -a /var/log/cloud-init-userdata.log'']\<close>

definition ubuntu_nouser_commands :: "string list" where
  \<open>ubuntu_nouser_commands =
    [''systemctl enable ssh 2>&1 | tee -a /var/log/cloud-init-userdata.log'',
      ''systemctl start ssh 2>&1 | tee -a /var/log/cloud-init-userdata.log'',
      ''echo "Ubuntu base configuration completed (no user configured)" | tee -a /var/log/cloud-init-userdata.log'']\<close>

definition sysctl_content :: string where
  "sysctl_content = text_lines
    [''# installed from platform cloud-init'',
      ''kernel.numa_balancing=0'',
      ''kernel.softlockup_all_cpu_backtrace=1'',
      ''kernel.panic = 300'',
      ''net.ipv4.conf.all.arp_announce = 2'',
      ''net.ipv4.conf.all.arp_filter = 1'',
      ''net.ipv4.conf.all.arp_ignore = 1'',
      ''net.ipv4.conf.default.arp_announce = 2'',
      ''net.ipv4.conf.default.arp_filter = 1'',
      ''net.ipv4.conf.default.arp_ignore = 1'',
      ''net.ipv4.conf.all.ignore_routes_with_linkdown = 1'',
      ''net.ipv4.conf.default.ignore_routes_with_linkdown = 1'']"

definition base_commands :: "bool \<Rightarrow> string list" where
  \<open>base_commands is_rocky =
    [''mkdir -p /var/log'',
      ''touch /var/log/cloud-init-userdata.log /var/log/maas-deployment.log'',
      ''chmod 644 /var/log/cloud-init-userdata.log /var/log/maas-deployment.log'',
      ''echo "=== MAAS Cloud-Init Deployment Started at $(date) ===" | tee -a /var/log/cloud-init-userdata.log'',
      ''echo "MAAS deployment started at $(date)" | tee /var/log/maas-deployment.log'',
      ''echo "Configuring '' @ (if is_rocky then ''Rocky Linux'' else ''Ubuntu'') @ '' system..." | tee -a /var/log/cloud-init-userdata.log'',
      ''# Enable and configure additional system services'',
      ''systemctl enable lldpd 2>&1 | tee -a /var/log/cloud-init-userdata.log || true'',
      ''systemctl start lldpd 2>&1 | tee -a /var/log/cloud-init-userdata.log || true'',
      ''# Configure kdump/kexec if available'',
      (if is_rocky then ''systemctl enable kdump 2>&1 | tee -a /var/log/cloud-init-userdata.log || true'' else ''systemctl enable kdump-tools 2>&1 | tee -a /var/log/cloud-init-userdata.log || true''),
      ''# Enable SMART monitoring'',
      ''systemctl enable smartd 2>&1 | tee -a /var/log/cloud-init-userdata.log || true'',
      ''systemctl start smartd 2>&1 | tee -a /var/log/cloud-init-userdata.log || true'',
      ''# Apply sysctl configuration'',
      ''sysctl -p /etc/sysctl.d/99-weka.conf 2>&1 | tee -a /var/log/cloud-init-userdata.log'',
      ''echo "Weka sysctl configuration applied" | tee -a /var/log/cloud-init-userdata.log'',
      ''echo "Additional system tools configured" | tee -a /var/log/cloud-init-userdata.log'']\<close>

text \<open>
  The two tests on \<open>user_credentials\<close>: the \<open>users\<close> section needs a user name and a
  password, the user-specific run commands need the user name only. A credential
  dictionary without a user name fails both, so the emptiness test of the dictionary
  itself adds nothing to either.
\<close>

definition wants_users_section :: "credentials option \<Rightarrow> bool" where
  "wants_users_section user_credentials =
     (case user_credentials of
        None \<Rightarrow> False
      | Some c \<Rightarrow> configured c \<noteq> Some False \<and> truthy (username c) \<and> truthy (password c))"

definition wants_user_commands :: "credentials option \<Rightarrow> bool" where
  "wants_user_commands user_credentials =
     (case user_credentials of
        None \<Rightarrow> False
      | Some c \<Rightarrow> configured c \<noteq> Some False \<and> truthy (username c))"

text \<open>An absent value formatted into an f-string reads \<open>None\<close>.\<close>

definition fmt :: "string option \<Rightarrow> string" where
  "fmt x = (case x of None \<Rightarrow> ''None'' | Some v \<Rightarrow> v)"

definition user_config_of :: "bool \<Rightarrow> credentials \<Rightarrow> user_entry" where
  "user_config_of is_rocky c =
     \<lparr>name = fmt (username c),
      plain_text_passwd = fmt (password c),
      sudo = (if is_rocky then Inr [''ALL=(ALL) NOPASSWD:ALL''] else Inl ''ALL=(ALL) NOPASSWD:ALL''),
      shell = ''/bin/bash'',
      groups = (if is_rocky then [''wheel'', ''docker''] else [''sudo'', ''docker'']),
      lock_passwd = False,
      ssh_authorized_keys = (if is_rocky then Some [] else None),
      system = (if is_rocky then Some False else None),
      create_user_group = (if is_rocky then Some True else None)\<rparr>"

definition user_specific_commands :: "bool \<Rightarrow> credentials option \<Rightarrow> string list" where
  "user_specific_commands is_rocky user_credentials =
     (case user_credentials of
        None \<Rightarrow> (if is_rocky then rocky_nouser_commands else ubuntu_nouser_commands)
      | Some c \<Rightarrow>
          if wants_user_commands (Some c)
          then (if is_rocky then rocky_user_commands (fmt (username c)) (fmt (password c))
                else ubuntu_user_commands (fmt (username c)))
          else (if is_rocky then rocky_nouser_commands else ubuntu_nouser_commands))"

definition generate_base_cloud_init :: "string \<Rightarrow> credentials option \<Rightarrow> cloud_config" where
  "generate_base_cloud_init os user_credentials =
     (let is_rocky = is_rocky_os os in
      \<lparr>packages = (if is_rocky then rocky_packages else ubuntu_packages),
       ssh_pwauth = True,
       disable_root = False,
       users = (case user_credentials of
                  None \<Rightarrow> None
                | Some c \<Rightarrow> if wants_users_section (Some c)
                            then Some [user_config_of is_rocky c] else None),
       write_files = [\<lparr>content = sysctl_content, path = ''/etc/sysctl.d/99-weka.conf''\<rparr>],
       runcmd = base_commands is_rocky @ user_specific_commands is_rocky user_credentials,
       cc_hostname = None,
       final_message = None\<rparr>)"

subsection \<open>\<open>generate_tag_based_enhancements\<close>\<close>

text \<open>The command lists and files of the tag rules, in the order of the source.\<close>

definition high_cpu_commands :: "string list" where
  \<open>high_cpu_commands =
    [''echo "=== High-CPU Optimizations ===" | tee -a /var/log/cloud-init-userdata.log'',
      ''echo "performance" | tee /sys/devices/system/cpu/cpu*/cpufreq/scaling_governor 2>&1 | tee -a /var/log/cloud-init-userdata.log'',
      ''echo "High-CPU optimizations applied" | tee -a /var/log/cloud-init-userdata.log /var/log/maas-deployment.log'']\<close>

definition high_memory_commands :: "string list" where
  \<open>high_memory_commands =
    [''echo "=== High-Memory Optimizations ===" | tee -a /var/log/cloud-init-userdata.log'',
      ''echo "vm.swappiness=1" >> /etc/sysctl.conf 2>&1 | tee -a /var/log/cloud-init-userdata.log'',
      ''echo "vm.vfs_cache_pressure=50" >> /etc/sysctl.conf 2>&1 | tee -a /var/log/cloud-init-userdata.log'',
      ''echo "High-memory optimizations applied" | tee -a /var/log/cloud-init-userdata.log /var/log/maas-deployment.log'']\<close>

definition bcm57508_commands :: "string list" where
  \<open>bcm57508_commands =
    [''echo "=== Broadcom BCM57508 Configuration ===" | tee -a /var/log/cloud-init-userdata.log'',
      ''modprobe bnxt_en 2>&1 | tee -a /var/log/cloud-init-userdata.log'',
      ''echo "Broadcom BCM57508 network driver loaded" | tee -a /var/log/cloud-init-userdata.log /var/log/maas-deployment.log'']\<close>

definition amd64_commands :: "string list" where
  \<open>amd64_commands =
    [''echo "=== AMD64 Architecture Optimizations ===" | tee -a /var/log/cloud-init-userdata.log'',
      ''echo "AMD64 microcode updates enabled" | tee -a /var/log/cloud-init-userdata.log /var/log/maas-deployment.log'']\<close>

definition virtual_commands :: "string list" where
  \<open>virtual_commands =
    [''echo "=== Virtual Machine Configuration ===" | tee -a /var/log/cloud-init-userdata.log'',
      ''systemctl enable qemu-guest-agent 2>&1 | tee -a /var/log/cloud-init-userdata.log'',
      ''echo "Virtual machine tools configured" | tee -a /var/log/cloud-init-userdata.log /var/log/maas-deployment.log'']\<close>

definition serial_console_commands :: "string list" where
  \<open>serial_console_commands =
    [''echo "=== Serial Console Configuration ===" | tee -a /var/log/cloud-init-userdata.log'',
      ''systemctl enable serial-getty@ttyS0.service 2>&1 | tee -a /var/log/cloud-init-userdata.log'',
      ''systemctl start serial-getty@ttyS0.service 2>&1 | tee -a /var/log/cloud-init-userdata.log'',
      ''echo "Serial console configured" | tee -a /var/log/cloud-init-userdata.log /var/log/maas-deployment.log'']\<close>

definition nvme_commands :: "string list" where
  \<open>nvme_commands =
    [''echo "=== NVME Configuration ===" | tee -a /var/log/cloud-init-userdata.log'',
      ''echo "NVME multipath disabled as configured" | tee -a /var/log/cloud-init-userdata.log /var/log/maas-deployment.log'']\<close>

definition connectx_commands :: "string list" where
  \<open>connectx_commands =
    [''echo "=== ConnectX NIC Driver Loading ===" | tee -a /var/log/cloud-init-userdata.log'',
      ''modprobe mlx5_core 2>&1 | tee -a /var/log/cloud-init-userdata.log || true'',
      ''modprobe mlx5_ib 2>&1 | tee -a /var/log/cloud-init-userdata.log || true'',
      ''echo "ConnectX NIC drivers loaded" | tee -a /var/log/cloud-init-userdata.log /var/log/maas-deployment.log'']\<close>

definition doca_script :: string where
  \<open>doca_script = text_lines
    [''#!/bin/bash'',
      ''set -e'',
      ''echo "Starting DOCA installation" | tee -a /var/log/cloud-init-userdata.log /var/log/maas-deployment.log'',
      ''cd /tmp'',
      [],
      ''# Detect OS'',
      ''echo "=== OS Detection for DOCA ===" | tee -a /var/log/cloud-init-userdata.log /var/log/maas-deployment.log'',
      ''if [ -f /etc/os-release ]; then'',
      ''    source /etc/os-release'',
      ''    OS_NAME=$ID'',
      ''    OS_VERSION=$VERSION_ID'',
      ''    OS_MAJOR_VERSION=${VERSION_ID%%.*}'',
      ''    echo "Detected OS: $OS_NAME $OS_VERSION (Major: $OS_MAJOR_VERSION)" | tee -a /var/log/cloud-init-userdata.log /var/log/maas-deployment.log'',
      ''else'',
      ''    echo "Cannot detect OS, defaulting to Ubuntu 22.04" | tee -a /var/log/cloud-init-userdata.log /var/log/maas-deployment.log'',
      ''    OS_NAME="ubuntu"'',
      ''    OS_VERSION="22.04"'',
      ''    OS_MAJOR_VERSION="22"'',
      ''fi'',
      [],
      ''# Install DOCA based on OS'',
      ''echo "Installing DOCA for $OS_NAME $OS_VERSION..." | tee -a /var/log/cloud-init-userdata.log /var/log/maas-deployment.log'',
      [],
      ''if [[ "$OS_NAME" == "ubuntu" ]]; then'',
      ''    # Ubuntu DOCA installation'',
      ''    echo "Setting up DOCA for Ubuntu..." | tee -a /var/log/cloud-init-userdata.log /var/log/maas-deployment.log'',
      ''    '',
      ''    # Determine repository based on version (use 22.04 repo for 24.04 compatibility)'',
      ''    if [[ "$OS_VERSION" == "20.04" ]]; then'',
      ''        DOCA_REPO_URL="https://linux.mellanox.com/public/repo/doca/3.1.0/ubuntu20.04/x86_64/"'',
      ''    else'',
      ''        # Use 22.04 repo for 22.04, 24.04, and unknown versions'',
      ''        DOCA_REPO_URL="https://linux.mellanox.com/public/repo/doca/3.1.0/ubuntu22.04/x86_64/"'',
      ''    fi'',
      ''    '',
      ''    echo "Using DOCA repository: $DOCA_REPO_URL" | tee -a /var/log/cloud-init-userdata.log /var/log/maas-deployment.log'',
      ''    '',
      ''    # Install DOCA step by step'',
      ''    echo "Step 1: Adding Mellanox GPG key..." | tee -a /var/log/cloud-init-userdata.log /var/log/maas-deployment.log'',
      ''    curl -fsSL https://linux.mellanox.com/public/repo/doca/GPG-KEY-Mellanox.pub | gpg --dearmor > /etc/apt/trusted.gpg.d/GPG-KEY-Mellanox.pub || exit 1'',
      ''    '',
      ''    echo "Step 2: Adding DOCA repository..." | tee -a /var/log/cloud-init-userdata.log /var/log/maas-deployment.log'',
      ''    echo "deb [signed-by=/etc/apt/trusted.gpg.d/GPG-KEY-Mellanox.pub] $DOCA_REPO_URL ./" > /etc/apt/sources.list.d/doca.list || exit 1'',
      ''    '',
      ''    echo "Step 3: Updating package lists..." | tee -a /var/log/cloud-init-userdata.log /var/log/maas-deployment.log'',
      ''    apt-get update 2>&1 | tee -a /var/log/cloud-init-userdata.log || exit 1'',
      ''    '',
      ''    echo "Step 4: Installing doca-all package..." | tee -a /var/log/cloud-init-userdata.log /var/log/maas-deployment.log'',
      ''    apt-get -y install doca-all 2>&1 | tee -a /var/log/cloud-init-userdata.log || exit 1'',
      ''    '',
      ''elif [[ "$OS_NAME" == "rocky" || "$OS_NAME" == "rhel" || "$OS_NAME" == "centos" ]]; then'',
      ''    # Rocky/RHEL DOCA installation'',
      ''    echo "Setting up DOCA for $OS_NAME $OS_MAJOR_VERSION..." | tee -a /var/log/cloud-init-userdata.log /var/log/maas-deployment.log'',
      ''    '',
      ''    # Create DOCA repository configuration'',
      ''    cat > /etc/yum.repos.d/doca.repo << EOF'',
      ''[doca]'',
      ''name=DOCA Online Repo'',
      ''baseurl=https://linux.mellanox.com/public/repo/doca/3.1.0/rhel${OS_MAJOR_VERSION}.0/x86_64/'',
      ''enabled=1'',
      ''gpgcheck=0'',
      ''EOF'',
      ''    '',
      ''    echo "Step 1: Cleaning package cache..." | tee -a /var/log/cloud-init-userdata.log /var/log/maas-deployment.log'',
      ''    dnf clean all 2>&1 | tee -a /var/log/cloud-init-userdata.log || exit 1'',
      ''    '',
      ''    echo "Step 2: Installing doca-ofed package..." | tee -a /var/log/cloud-init-userdata.log /var/log/maas-deployment.log'',
      ''    dnf -y install doca-ofed 2>&1 | tee -a /var/log/cloud-init-userdata.log || exit 1'',
      ''    '',
      ''else'',
      ''    echo "OS $OS_NAME not supported for DOCA installation" | tee -a /var/log/cloud-init-userdata.log /var/log/maas-deployment.log'',
      ''    exit 1'',
      ''fi'',
      [],
      ''echo "DOCA installation completed successfully" | tee -a /var/log/cloud-init-userdata.log /var/log/maas-deployment.log'']\<close>

definition doca_commands :: "string list" where
  \<open>doca_commands =
    [''echo "=== DOCA Installation ===" | tee -a /var/log/cloud-init-userdata.log'',
      ''chmod +x /tmp/install_doca.sh 2>&1 | tee -a /var/log/cloud-init-userdata.log'',
      ''/tmp/install_doca.sh 2>&1 | tee -a /var/log/cloud-init-userdata.log'']\<close>

definition intel_nic_commands :: "string list" where
  \<open>intel_nic_commands =
    [''echo "=== Intel NIC Drivers Installation ===" | tee -a /var/log/cloud-init-userdata.log'',
      ''modprobe e1000e 2>&1 | tee -a /var/log/cloud-init-userdata.log || true'',
      ''modprobe igb 2>&1 | tee -a /var/log/cloud-init-userdata.log || true'',
      ''modprobe ixgbe 2>&1 | tee -a /var/log/cloud-init-userdata.log || true'',
      ''modprobe i40e 2>&1 | tee -a /var/log/cloud-init-userdata.log || true'',
      ''modprobe ice 2>&1 | tee -a /var/log/cloud-init-userdata.log || true'',
      ''echo "Intel NIC drivers loaded" | tee -a /var/log/cloud-init-userdata.log /var/log/maas-deployment.log'']\<close>

definition broadcom_commands :: "string list" where
  \<open>broadcom_commands =
    [''echo "=== Broadcom NIC Drivers Installation ===" | tee -a /var/log/cloud-init-userdata.log'',
      ''modprobe bnxt_en 2>&1 | tee -a /var/log/cloud-init-userdata.log'',
      ''modprobe tg3 2>&1 | tee -a /var/log/cloud-init-userdata.log || true'',
      ''echo "Broadcom NIC drivers loaded" | tee -a /var/log/cloud-init-userdata.log /var/log/maas-deployment.log'']\<close>

text \<open>\<open>extend\<close> and \<open>append\<close> on the three lists of the enhancement dictionary.\<close>

definition add_packages :: "string list \<Rightarrow> enhancements \<Rightarrow> enhancements" where
  "add_packages ps e = e\<lparr>enh_packages := enh_packages e @ ps\<rparr>"

definition add_runcmd :: "string list \<Rightarrow> enhancements \<Rightarrow> enhancements" where
  "add_runcmd cs e = e\<lparr>enh_runcmd := enh_runcmd e @ cs\<rparr>"

definition add_file :: "file_entry \<Rightarrow> enhancements \<Rightarrow> enhancements" where
  "add_file f e = e\<lparr>enh_write_files := enh_write_files e @ [f]\<rparr>"

definition generate_tag_based_enhancements :: "string list \<Rightarrow> string \<Rightarrow> enhancements" where
  "generate_tag_based_enhancements tgs os =
     (let e = \<lparr>enh_packages = [], enh_runcmd = [], enh_write_files = []\<rparr> in
      if tgs = [] then e
      else
       (let is_rocky = is_rocky_os os;
            e = (if ''high-cpu'' \<in> set tgs
                 then add_runcmd high_cpu_commands
                        (add_packages (if is_rocky then [''kernel-tools'']
                                       else [''cpufrequtils'', ''linux-tools-generic'']) e)
                 else e);
            e = (if ''high-memory'' \<in> set tgs then add_runcmd high_memory_commands e else e);
            e = (if ''bcm57508'' \<in> set tgs
                 then add_runcmd bcm57508_commands (add_packages [''ethtool''] e) else e);
            e = (if ''amd64-arch'' \<in> set tgs
                 then add_runcmd amd64_commands (add_packages [''amd64-microcode''] e) else e);
            e = (if ''virtual'' \<in> set tgs
                 then add_runcmd virtual_commands
                        (add_packages [''qemu-guest-agent'', ''open-vm-tools''] e)
                 else e);
            e = (if ''serial_console'' \<in> set tgs \<or> ''needs_serial_console_deploy'' \<in> set tgs
                 then add_runcmd serial_console_commands e else e);
            e = (if ''nvme_core'' \<in> set tgs
                 then add_runcmd nvme_commands
                        (add_file \<lparr>content = ''nvme_core.multipath=N'' @ [CHR 0x0A],
                                   path = ''/etc/modprobe.d/nvme.conf''\<rparr> e)
                 else e);
            e = (if filter (\<lambda>tag. contains ''connectx'' (lower tag) \<or>
                                   contains ''mellanox'' (lower tag)) tgs \<noteq> []
                 then add_runcmd connectx_commands e else e);
            e = (if filter (\<lambda>tag. contains ''doca'' (lower tag)) tgs \<noteq> []
                 then add_runcmd doca_commands
                        (add_file \<lparr>content = doca_script, path = ''/tmp/install_doca.sh''\<rparr>
                           (add_packages
                              (if is_rocky
                               then [''gcc'', ''kernel-devel'', ''kernel-headers'', ''wget'', ''python3-pip'', ''curl'', ''rpm-build'']
                               else [''build-essential'', ''linux-headers-generic'', ''wget'', ''python3-pip'', ''curl'']) e))
                 else e);
            e = (if filter (\<lambda>tag. contains ''intel'' (lower tag) \<and>
                                   (contains ''nic'' (lower tag) \<or>
                                    contains ''ethernet'' (lower tag))) tgs \<noteq> []
                 then add_runcmd intel_nic_commands
                        (add_packages
                           (if is_rocky then [''gcc'', ''kernel-devel'', ''kernel-headers'']
                            else [''build-essential'', ''linux-headers-generic'']) e)
                 else e);
            e = (if ''bcm57508'' \<in> set tgs \<or>
                    list_ex (\<lambda>tag. contains ''broadcom'' (lower tag)) tgs
                 then add_runcmd broadcom_commands
                        (add_packages
                           (if is_rocky then [''ethtool'', ''gcc'', ''kernel-devel'', ''kernel-headers'']
                            else [''ethtool'', ''build-essential'', ''linux-headers-generic'']) e)
                 else e)
        in e))"

subsection \<open>\<open>merge_configurations\<close>\<close>

text \<open>
  The lines of the user snippet that the source keeps: stripped, not empty, starting with
  \<open>'- '\<close>, and holding neither \<open>echo\<close> nor \<open>systemctl\<close>.
\<close>

definition user_lines :: "string \<Rightarrow> string list" where
  "user_lines user_text =
     filter (\<lambda>line. line \<noteq> []) (map strip (split (CHR 0x0A) user_text))"

definition user_commands :: "string \<Rightarrow> string list" where
  "user_commands user_text =
     filter (\<lambda>line. startswith line ''- '' \<and> \<not> contains ''echo'' line \<and>
                     \<not> contains ''systemctl'' line)
       (user_lines user_text)"

text \<open>
  The \<open>for cmd in user_commands\<close> loop is the fold. The \<open>except\<close> branch of the source
  is not modelled: the string operations of the \<open>try\<close> body raise nothing.
\<close>

definition merge_configurations :: "cloud_config \<Rightarrow> enhancements \<Rightarrow> string \<Rightarrow> cloud_config" where
  "merge_configurations base_config enh user_text =
     (let final_config = base_config\<lparr>packages := packages base_config @ enh_packages enh\<rparr>;
          final_config = final_config\<lparr>runcmd := runcmd final_config @ enh_runcmd enh\<rparr>;
          final_config =
            final_config\<lparr>write_files := write_files final_config @ enh_write_files enh\<rparr>
      in if strip user_text \<noteq> [] \<and> user_commands user_text \<noteq> []
         then final_config\<lparr>runcmd :=
                foldl (\<lambda>rc cmd. rc @ [py_replace1 ''- '' [] cmd])
                  (runcmd final_config @ [''# User-provided commands:''])
                  (user_commands user_text)\<rparr>
         else final_config)"

subsection \<open>\<open>generate_machine_cloud_init\<close>\<close>

text \<open>The machine attributes as the f-strings print them.\<close>

definition display_name :: "machine \<Rightarrow> string" where
  "display_name m =
     (if truthy (hostname m) then or_else (hostname m) []
      else if truthy (fqdn m) then or_else (fqdn m) []
      else system_id m)"

definition arch_str :: "machine \<Rightarrow> string" where
  "arch_str m = (case architecture m of None \<Rightarrow> ''unknown'' | Some a \<Rightarrow> a)"

definition cpu_str :: "machine \<Rightarrow> string" where
  "cpu_str m = (case cpu_count m of None \<Rightarrow> ''unknown'' | Some n \<Rightarrow> str_nat n)"

text \<open>\<open>math.ceil(memory / 1024)\<close>, on integers.\<close>

definition memory_gb :: "machine \<Rightarrow> nat" where
  "memory_gb m = (memory m + 1023) div 1024"

definition tags_str :: "string list \<Rightarrow> string" where
  "tags_str tgs = (if tgs \<noteq> [] then join '', '' tgs else ''none'')"

definition machine_specific_cmds :: "machine \<Rightarrow> string list" where
  \<open>machine_specific_cmds machine =
    [''echo "=== Machine-Specific Configuration ===" | tee -a /var/log/cloud-init-userdata.log /var/log/maas-deployment.log'',
      ''echo "Machine-specific deployment for '' @ display_name machine @ ''" | tee -a /var/log/cloud-init-userdata.log /var/log/maas-deployment.log'',
      ''echo "System ID: '' @ system_id machine @ ''" | tee -a /var/log/cloud-init-userdata.log /var/log/maas-deployment.log'',
      ''echo "Architecture: '' @ arch_str machine @ ''" | tee -a /var/log/cloud-init-userdata.log /var/log/maas-deployment.log'',
      ''echo "CPU Cores: '' @ cpu_str machine @ ''" | tee -a /var/log/cloud-init-userdata.log /var/log/maas-deployment.log'',
      ''echo "Memory: '' @ str_nat (memory_gb machine) @ '' GB" | tee -a /var/log/cloud-init-userdata.log /var/log/maas-deployment.log'',
      ''echo "Machine Tags: '' @ tags_str (tag_names machine) @ ''" | tee -a /var/log/cloud-init-userdata.log /var/log/maas-deployment.log'']\<close>

definition yaml_header :: "machine \<Rightarrow> string \<Rightarrow> string" where
  "yaml_header machine now_str =
     ''#cloud-config'' @ [CHR 0x0A] @
     ''# Auto-generated configuration for MAAS deployment'' @ [CHR 0x0A] @
     ''# Machine: '' @ display_name machine @ [CHR 0x0A] @
     ''# System ID: '' @ system_id machine @ [CHR 0x0A] @
     ''# Architecture: '' @ arch_str machine @ [CHR 0x0A] @
     ''# CPU: '' @ cpu_str machine @ '' cores, Memory: '' @ str_nat (memory_gb machine) @ '' GB'' @ [CHR 0x0A] @
     ''# Machine tags: '' @ tags_str (tag_names machine) @ [CHR 0x0A] @
     ''# Generated at: '' @ now_str @ [CHR 0x0A] @
     [CHR 0x0A]"

definition completion_commands :: "string list" where
  \<open>completion_commands =
    [''echo "=== MAAS Cloud-Init Deployment Completed at $(date) ===" | tee -a /var/log/cloud-init-userdata.log /var/log/maas-deployment.log'',
      ''echo "All user-data logs saved to /var/log/cloud-init-userdata.log" | tee -a /var/log/maas-deployment.log'',
      ''echo "Final user verification:" | tee -a /var/log/cloud-init-userdata.log'']\<close>

definition verify_user_command :: "string \<Rightarrow> string" where
  \<open>verify_user_command user =
     ''id '' @ user @ '' | tee -a /var/log/cloud-init-userdata.log || echo "ERROR: '' @ user @ '' user not created!" | tee -a /var/log/cloud-init-userdata.log''\<close>

definition no_user_command :: string where
  \<open>no_user_command =
     ''echo "No user configured for this deployment" | tee -a /var/log/cloud-init-userdata.log''\<close>

text \<open>\<open>machine.get('hostname') or machine.get('fqdn') or f"maas-{machine['system_id'][-8:]}"\<close>.\<close>

definition config_hostname :: "machine \<Rightarrow> string" where
  "config_hostname m =
     (if truthy (hostname m) then or_else (hostname m) []
      else if truthy (fqdn m) then or_else (fqdn m) []
      else ''maas-'' @ drop (length (system_id m) - 8) (system_id m))"

text \<open>The document handed to \<open>yaml.dump\<close>.\<close>

definition final_config_of ::
  "machine \<Rightarrow> string \<Rightarrow> string \<Rightarrow> credentials option \<Rightarrow> cloud_config" where
  "final_config_of machine user_text os user_credentials =
     (let base_config = generate_base_cloud_init os user_credentials;
          enh = generate_tag_based_enhancements (tag_names machine) os;
          final_config = merge_configurations base_config enh user_text;
          final_config =
            final_config\<lparr>runcmd := machine_specific_cmds machine @ runcmd final_config\<rparr>;
          final_config = final_config\<lparr>cc_hostname := Some (config_hostname machine)\<rparr>;
          final_config = final_config\<lparr>runcmd := runcmd final_config @ completion_commands\<rparr>;
          final_config =
            final_config\<lparr>runcmd := runcmd final_config @
              [case users final_config of
                 None \<Rightarrow> no_user_command
               | Some [] \<Rightarrow> no_user_command
               | Some (u # us) \<Rightarrow> verify_user_command (name u)]\<rparr>;
          host = config_hostname machine
      in final_config\<lparr>final_message := Some
           (''MAAS deployment completed successfully for '' @ host @ '' with Weka configurations'')\<rparr>)"

text \<open>
  \<open>yaml.dump\<close> belongs to the PyYAML library and is a parameter \<open>dump\<close> of the model; it
  receives the document as a tree with the keys in insertion order.
\<close>

datatype yaml = YStr string | YBool bool | YSeq "yaml list" | YMap "(string \<times> yaml) list"

definition user_yaml :: "user_entry \<Rightarrow> yaml" where
  "user_yaml u =
     YMap ([(''name'', YStr (name u)),
            (''plain_text_passwd'', YStr (plain_text_passwd u)),
            (''sudo'', (case sudo u of Inl s \<Rightarrow> YStr s | Inr l \<Rightarrow> YSeq (map YStr l))),
            (''shell'', YStr (shell u)),
            (''groups'', YSeq (map YStr (groups u))),
            (''lock_passwd'', YBool (lock_passwd u))] @
           (case ssh_authorized_keys u of
              None \<Rightarrow> [] | Some ks \<Rightarrow> [(''ssh_authorized_keys'', YSeq (map YStr ks))]) @
           (case system u of None \<Rightarrow> [] | Some b \<Rightarrow> [(''system'', YBool b)]) @
           (case create_user_group u of
              None \<Rightarrow> [] | Some b \<Rightarrow> [(''create_user_group'', YBool b)]))"

definition file_yaml :: "file_entry \<Rightarrow> yaml" where
  "file_yaml f = YMap [(''content'', YStr (content f)), (''path'', YStr (path f))]"

definition config_yaml :: "cloud_config \<Rightarrow> yaml" where
  "config_yaml c =
     YMap ([(''packages'', YSeq (map YStr (packages c))),
            (''ssh_pwauth'', YBool (ssh_pwauth c)),
            (''disable_root'', YBool (disable_root c))] @
           (case users c of None \<Rightarrow> [] | Some us \<Rightarrow> [(''users'', YSeq (map user_yaml us))]) @
           [(''write_files'', YSeq (map file_yaml (write_files c))),
            (''runcmd'', YSeq (map YStr (runcmd c)))] @
           (case cc_hostname c of None \<Rightarrow> [] | Some h \<Rightarrow> [(''hostname'', YStr h)]) @
           (case final_message c of None \<Rightarrow> [] | Some t \<Rightarrow> [(''final_message'', YStr t)]))"

record machine_config =
  mc_config :: string
  mc_machine :: machine
  mc_tags :: "string list"
  hasEnhancements :: bool

definition generate_machine_cloud_init ::
  "(yaml \<Rightarrow> string) \<Rightarrow> string \<Rightarrow> machine \<Rightarrow> string \<Rightarrow> string \<Rightarrow> credentials option \<Rightarrow>
   machine_config" where
  "generate_machine_cloud_init dump now_str machine user_text os user_credentials =
     (let enh = generate_tag_based_enhancements (tag_names machine) os in
      \<lparr>mc_config = yaml_header machine now_str @
                    dump (config_yaml (final_config_of machine user_text os user_credentials)),
       mc_machine = machine,
       mc_tags = tag_names machine,
       hasEnhancements =
         (enh_packages enh \<noteq> [] \<or> enh_runcmd enh \<noteq> [] \<or> enh_write_files enh \<noteq> [])\<rparr>)"

definition get_machine_cloud_init ::
  "(yaml \<Rightarrow> string) \<Rightarrow> string \<Rightarrow> machine \<Rightarrow> string \<Rightarrow> string \<Rightarrow> credentials option \<Rightarrow>
   string" where
  "get_machine_cloud_init dump now_str machine user_text os user_credentials =
     mc_config (generate_machine_cloud_init dump now_str machine user_text os user_credentials)"

subsection \<open>\<open>generate_cloud_init\<close>\<close>

record generated =
  gen_config :: string
  displayConfig :: string
  gen_tags :: "string list"
  gen_hasEnhancements :: bool
  machineConfigs :: "machine_config list"

definition hidden_marker :: string where
  "hidden_marker = ''plain_text_passwd: '' @ [CHR 0x27] @ ''[HIDDEN]'' @ [CHR 0x27]"

text \<open>The \<open>display\<close> string of the single-machine branch.\<close>

definition sanitized_yaml_string :: "credentials option \<Rightarrow> string \<Rightarrow> string" where
  "sanitized_yaml_string user_credentials cfg =
     (case user_credentials of
        None \<Rightarrow> cfg
      | Some c \<Rightarrow>
          if truthy (password c)
          then py_replace (''plain_text_passwd: '' @ or_else (password c) []) hidden_marker cfg
          else cfg)"

definition summary_header :: "machine list \<Rightarrow> string list \<Rightarrow> string \<Rightarrow> string" where
  "summary_header selected all_tags now_str =
     ''#cloud-config'' @ [CHR 0x0A] @
     ''# Auto-generated configuration for MAAS deployment'' @ [CHR 0x0A] @
     ''# Multiple machines: '' @ str_nat (length selected) @ '' machines'' @ [CHR 0x0A] @
     ''# Machines: '' @ join '', '' (map display_name selected) @ [CHR 0x0A] @
     ''# All tags: '' @ tags_str all_tags @ [CHR 0x0A] @
     ''# Generated at: '' @ now_str @ [CHR 0x0A] @
     [CHR 0x0A] @
     ''# Note: Each machine will receive individualized configuration'' @ [CHR 0x0A] @
     ''# based on its specific tags and hardware configuration'' @ [CHR 0x0A] @
     [CHR 0x0A]"

definition summary_users :: "credentials \<Rightarrow> string" where
  "summary_users c =
     ''users:'' @ [CHR 0x0A] @
     ''  - name: '' @ (case username c of None \<Rightarrow> ''user'' | Some u \<Rightarrow> u) @ [CHR 0x0A] @
     ''    plain_text_passwd: '' @ [CHR 0x27] @ ''[HIDDEN]'' @ [CHR 0x27] @ [CHR 0x0A] @
     ''    sudo: '' @ [CHR 0x27] @ ''ALL=(ALL) NOPASSWD:ALL'' @ [CHR 0x27] @ [CHR 0x0A] @
     ''    shell: /bin/bash'' @ [CHR 0x0A] @
     ''    groups: [sudo, docker]'' @ [CHR 0x0A] @
     ''    lock_passwd: false'' @ [CHR 0x0A]"

definition summary_footer :: "machine list \<Rightarrow> string" where
  \<open>summary_footer selected =
     [CHR 0x0A] @
     ''# Individual machine configurations will be applied during deployment'' @ [CHR 0x0A] @
     ''# Each machine gets customized packages, drivers, and scripts based on its tags'' @ [CHR 0x0A] @
     [CHR 0x0A] @
     ''final_message: "MAAS deployment completed for '' @ str_nat (length selected) @ '' machines with individualized configurations"'' @ [CHR 0x0A]\<close>

text \<open>
  \<open>set_order\<close> stands for \<open>list(set(...))\<close>: it receives the tags of all machines and
  returns them without repetition, in the iteration order of the Python set. \<open>now\<close>
  gives the successive clock readings of the call.
\<close>

definition generate_cloud_init ::
  "(yaml \<Rightarrow> string) \<Rightarrow> (string list \<Rightarrow> string list) \<Rightarrow> (nat \<Rightarrow> string) \<Rightarrow> machine list \<Rightarrow>
   string \<Rightarrow> string \<Rightarrow> credentials option \<Rightarrow> generated" where
  "generate_cloud_init dump set_order now selected user_text os user_credentials =
     (case selected of
        [machine] \<Rightarrow>
          (let machine_config =
                 generate_machine_cloud_init dump (now 0) machine user_text os user_credentials
           in \<lparr>gen_config = mc_config machine_config,
               displayConfig = sanitized_yaml_string user_credentials (mc_config machine_config),
               gen_tags = mc_tags machine_config,
               gen_hasEnhancements = hasEnhancements machine_config,
               machineConfigs = [machine_config]\<rparr>)
      | _ \<Rightarrow>
          (let machine_configs =
                 map (\<lambda>(i, machine).
                        generate_machine_cloud_init dump (now i) machine user_text os
                          user_credentials)
                     (enumerate 0 selected);
               all_tags = set_order (concat (map tag_names selected));
               summary_config =
                 summary_header selected all_tags (now (length selected)) @
                 (case user_credentials of
                    None \<Rightarrow> ''# No user configuration - machines will use default system access'' @ [CHR 0x0A]
                  | Some c \<Rightarrow>
                      if \<not> (configured c = None \<and> username c = None \<and> password c = None) \<and>
                         configured c \<noteq> Some False
                      then summary_users c
                      else ''# No user configuration - machines will use default system access'' @ [CHR 0x0A]) @
                 summary_footer selected
           in \<lparr>gen_config = summary_config,
               displayConfig = summary_config,
               gen_tags = all_tags,
               gen_hasEnhancements = list_ex hasEnhancements machine_configs,
               machineConfigs = machine_configs\<rparr>))"

section \<open>Job execution: \<open>deploy_machines\<close>\<close>

text \<open>
  The form data of one deploy request, and the outside world of one job run:
  \<open>env_fetch\<close> is what \<open>maas_api('machines/')\<close> returns, or the text of the exception
  it raises; \<open>env_deploy k\<close> is the same for the \<open>k\<close>-th deploy request of the run;
  \<open>env_now k\<close> is the \<open>k\<close>-th reading of the clock; \<open>env_dump\<close> is \<open>yaml.dump\<close>.
\<close>

record deploy_data =
  op :: string
  dd_distro_series :: string
  dd_user_data :: "string option"

record env =
  env_fetch :: "string + machine list"
  env_deploy :: "nat \<Rightarrow> string \<Rightarrow> deploy_data \<Rightarrow> string + string"
  env_now :: "nat \<Rightarrow> string"
  env_dump :: "yaml \<Rightarrow> string"

text \<open>
  The run of one job: the job record, the number of clock readings so far, the deploy
  requests issued, and every value the job record has had, oldest first.
\<close>

record exec =
  ex_job :: job
  ex_clock :: nat
  ex_calls :: "(string \<times> deploy_data) list"
  ex_history :: "job list"

definition mutate :: "(job \<Rightarrow> job) \<Rightarrow> exec \<Rightarrow> exec" where
  "mutate f st = st\<lparr>ex_job := f (ex_job st), ex_history := ex_history st @ [f (ex_job st)]\<rparr>"

definition tick :: "exec \<Rightarrow> exec" where
  "tick st = st\<lparr>ex_clock := ex_clock st + 1\<rparr>"

definition append_result :: "result_entry \<Rightarrow> exec \<Rightarrow> exec" where
  "append_result e st = mutate (\<lambda>j. j\<lparr>results := results j @ [e]\<rparr>) st"

text \<open>The three shapes of result entries written by the job.\<close>

definition skipped_entry :: "machine \<Rightarrow> result_entry" where
  "skipped_entry m =
     \<lparr>machine_id = system_id m,
      res_hostname = (case hostname m of None \<Rightarrow> system_id m | Some h \<Rightarrow> h),
      res_status = ''skipped'',
      reason = Some (''Machine not in Ready state (current: '' @ status_name m @ '')''),
      res_distro_series = None, os_type = None, deployed_at = None, maas_result = None,
      res_error = None\<rparr>"

definition not_found_entry :: "string \<Rightarrow> result_entry" where
  "not_found_entry sid =
     \<lparr>machine_id = sid, res_hostname = sid, res_status = ''failed'',
      reason = Some ''Machine not found'',
      res_distro_series = None, os_type = None, deployed_at = None, maas_result = None,
      res_error = None\<rparr>"

text \<open>\<open>machine.get('hostname', machine.get('fqdn', machine['system_id']))\<close>.\<close>

definition host_or_fqdn :: "machine \<Rightarrow> string" where
  "host_or_fqdn m =
     (case hostname m of
        Some h \<Rightarrow> h
      | None \<Rightarrow> (case fqdn m of Some f \<Rightarrow> f | None \<Rightarrow> system_id m))"

definition deployed_entry :: "machine \<Rightarrow> string \<Rightarrow> string \<Rightarrow> string \<Rightarrow> string \<Rightarrow> result_entry" where
  "deployed_entry m series os at res =
     \<lparr>machine_id = system_id m, res_hostname = host_or_fqdn m, res_status = ''deployed'',
      reason = None, res_distro_series = Some series, os_type = Some os,
      deployed_at = Some at, maas_result = Some res, res_error = None\<rparr>"

definition failed_entry :: "machine \<Rightarrow> string \<Rightarrow> result_entry" where
  "failed_entry m err =
     \<lparr>machine_id = system_id m, res_hostname = host_or_fqdn m, res_status = ''failed'',
      reason = None, res_distro_series = None, os_type = None, deployed_at = None,
      maas_result = None, res_error = Some err\<rparr>"

text \<open>
  The first loop: each identifier is looked up in the snapshot; a machine that is not
  \<open>Ready\<close> is recorded as skipped, an unknown identifier as failed, and the others are
  collected in \<open>target_machines\<close>.
\<close>

fun resolve_targets ::
  "machine list \<Rightarrow> string list \<Rightarrow> exec \<times> machine list \<Rightarrow> exec \<times> machine list" where
  "resolve_targets all_machines [] (st, target_machines) = (st, target_machines)"
| "resolve_targets all_machines (sid # rest) (st, target_machines) =
     (case find (\<lambda>m. system_id m = sid) all_machines of
        Some machine \<Rightarrow>
          if status_name machine \<noteq> ''Ready''
          then resolve_targets all_machines rest
                 (append_result (skipped_entry machine) st, target_machines)
          else resolve_targets all_machines rest (st, target_machines @ [machine])
      | None \<Rightarrow>
          resolve_targets all_machines rest
            (append_result (not_found_entry sid) st, target_machines))"

text \<open>The filters applied to \<open>target_machines\<close> after the first loop.\<close>

definition filter_tags :: "job_config \<Rightarrow> machine list \<Rightarrow> machine list" where
  "filter_tags cfg target_machines =
     (case tags cfg of
        None \<Rightarrow> target_machines
      | Some tgs \<Rightarrow>
          if tgs = [] then target_machines
          else filter (\<lambda>m. list_ex (\<lambda>tag. tag \<in> set (tag_names m)) tgs) target_machines)"

definition filter_pool :: "job_config \<Rightarrow> machine list \<Rightarrow> machine list" where
  "filter_pool cfg target_machines =
     (if truthy (pool cfg)
      then filter (\<lambda>m. Some (machine_pool m) = pool cfg) target_machines
      else target_machines)"

definition limit_count :: "job_config \<Rightarrow> machine list \<Rightarrow> machine list" where
  "limit_count cfg target_machines =
     (case count cfg of
        None \<Rightarrow> target_machines
      | Some c \<Rightarrow> if c \<noteq> 0 \<and> c > 0 then slice_to c target_machines else target_machines)"

definition post_filters :: "job_config \<Rightarrow> machine list \<Rightarrow> machine list" where
  "post_filters cfg target_machines =
     limit_count cfg (filter_pool cfg (filter_tags cfg target_machines))"

text \<open>\<open>'rocky' if any(x in distro_series.lower() for x in [...]) else 'ubuntu'\<close>.\<close>

definition os_type_of :: "string \<Rightarrow> string" where
  "os_type_of series = (if is_rocky_os series then ''rocky'' else ''ubuntu'')"

text \<open>
  One round of the deploy loop. The configuration is rendered only when the job carries
  a non-empty user snippet, and without credentials.
\<close>

definition deploy_one :: "env \<Rightarrow> job_config \<Rightarrow> machine \<Rightarrow> exec \<Rightarrow> exec" where
  "deploy_one e cfg machine st =
     (let series = distro_series cfg;
          os = os_type_of series;
          (machine_user_data, st) =
            (if truthy (user_data cfg)
             then (Some (get_machine_cloud_init (env_dump e) (env_now e (ex_clock st)) machine
                           (or_else (user_data cfg) []) os None),
                   tick st)
             else (user_data cfg, st));
          data = \<lparr>op = ''deploy'', dd_distro_series = series,
                  dd_user_data = (if truthy machine_user_data then machine_user_data else None)\<rparr>;
          outcome = env_deploy e (length (ex_calls st)) (system_id machine) data;
          st = st\<lparr>ex_calls := ex_calls st @ [(system_id machine, data)]\<rparr>
      in case outcome of
           Inr res \<Rightarrow>
             mutate (\<lambda>j. j\<lparr>successful_deployments := successful_deployments j + 1\<rparr>)
               (append_result (deployed_entry machine series os (env_now e (ex_clock st)) res)
                  (tick st))
         | Inl err \<Rightarrow>
             mutate (\<lambda>j. j\<lparr>failed_deployments := failed_deployments j + 1\<rparr>)
               (append_result (failed_entry machine err) st))"

fun deploy_loop :: "env \<Rightarrow> job_config \<Rightarrow> machine list \<Rightarrow> exec \<Rightarrow> exec" where
  "deploy_loop e cfg [] st = st"
| "deploy_loop e cfg (machine # rest) st = deploy_loop e cfg rest (deploy_one e cfg machine st)"

text \<open>The end of the \<open>try\<close> body: the terminal status and the two time stamps.\<close>

definition finish :: "env \<Rightarrow> exec \<Rightarrow> exec" where
  "finish e st =
     (let st = mutate (\<lambda>j. j\<lparr>status := (if failed_deployments j = 0 then ''completed''
                                          else ''completed_with_errors'')\<rparr>) st;
          st = tick (mutate (\<lambda>j. j\<lparr>completed_at := Some (env_now e (ex_clock st))\<rparr>) st)
      in tick (mutate (\<lambda>j. j\<lparr>updated_at := env_now e (ex_clock st)\<rparr>) st))"

text \<open>The outer \<open>except\<close> clause.\<close>

definition abort :: "env \<Rightarrow> string \<Rightarrow> exec \<Rightarrow> exec" where
  "abort e err st =
     (let st = mutate (\<lambda>j. j\<lparr>status := ''failed''\<rparr>) st;
          st = mutate (\<lambda>j. j\<lparr>job_error := Some err\<rparr>) st
      in tick (mutate (\<lambda>j. j\<lparr>updated_at := env_now e (ex_clock st)\<rparr>) st))"

text \<open>The body of \<open>deploy_machines\<close> on the job found in the store.\<close>

definition run_job :: "env \<Rightarrow> string list \<Rightarrow> job_config \<Rightarrow> job \<Rightarrow> exec" where
  "run_job e machine_ids cfg j =
     (let st = \<lparr>ex_job = j, ex_clock = 0, ex_calls = [], ex_history = [j]\<rparr>;
          st = mutate (\<lambda>j. j\<lparr>status := ''running''\<rparr>) st;
          st = tick (mutate (\<lambda>j. j\<lparr>updated_at := env_now e (ex_clock st)\<rparr>) st)
      in case env_fetch e of
           Inl err \<Rightarrow> abort e err st
         | Inr all_machines \<Rightarrow>
             (case resolve_targets all_machines machine_ids (st, []) of
                (st, target_machines) \<Rightarrow>
                  (let target_machines = post_filters cfg target_machines;
                       st = mutate (\<lambda>j. j\<lparr>total_machines := length target_machines\<rparr>) st;
                       st = mutate (\<lambda>j. j\<lparr>machines :=
                              map (\<lambda>m. (system_id m, host_or_fqdn m)) target_machines\<rparr>) st
                   in finish e (deploy_loop e cfg target_machines st))))"

text \<open>
  \<open>deploy_machines\<close>: nothing happens for an unknown job id; otherwise the job record in
  the store ends as the run leaves it.
\<close>

definition deploy_machines ::
  "env \<Rightarrow> app \<Rightarrow> string \<Rightarrow> string list \<Rightarrow> job_config \<Rightarrow> app \<times> exec option" where
  "deploy_machines e a jid machine_ids cfg =
     (case map_of (provisioning_jobs a) jid of
        None \<Rightarrow> (a, None)
      | Some j \<Rightarrow>
          (let st = run_job e machine_ids cfg j
           in (a\<lparr>provisioning_jobs := AList.update jid (ex_job st) (provisioning_jobs a)\<rparr>,
               Some st)))"

section \<open>Specification-side definitions and example inputs\<close>

subsection \<open>Selection\<close>

text \<open>
  What the specification says about one token of an explicit selection: it stands for
  itself when it is the system identifier of a machine of the snapshot, and otherwise
  for the machine carrying it as host name (the last such machine of the snapshot, as
  a later dictionary entry overwrites an earlier one).
\<close>

definition resolve_token :: "machine list \<Rightarrow> string \<Rightarrow> string option" where
  "resolve_token fleet tok =
     (if tok \<in> system_id ` set fleet then Some tok
      else map_option system_id (find (\<lambda>m. hostname m = Some tok) (rev fleet)))"

text \<open>The host name and system identifier of each machine, as the first loop stores them.\<close>

definition host_pairs :: "machine list \<Rightarrow> (string \<times> string) list" where
  "host_pairs ms = map (\<lambda>m. (case hostname m of None \<Rightarrow> [] | Some h \<Rightarrow> h, system_id m)) ms"

text \<open>The test of the second loop on one token, for given dictionaries.\<close>

definition token_lookup ::
  "(string \<times> string) list \<Rightarrow> (string \<times> string) list \<Rightarrow> string \<Rightarrow> string option" where
  "token_lookup h2i i2h t = (if t \<in> fst ` set i2h then Some t else map_of h2i t)"

text \<open>
  The filters of the automatic selection in the words of the specification. The allowed
  pools are the entries of the \<open>POOLS\<close> setting, separated by commas and taken without
  the white space around them, or the one pool \<open>default\<close> when nothing is configured.
\<close>

definition allowed_pools :: "app \<Rightarrow> string set" where
  "allowed_pools a =
     (let setting = (case maas_config a of
                       None \<Rightarrow> []
                     | Some cfg \<Rightarrow> (case cfg ''POOLS'' of None \<Rightarrow> [] | Some v \<Rightarrow> v))
      in if setting = [] then {''default''} else strip ` set (split CHR '','' setting))"

text \<open>The pool a machine belongs to; a machine that names no pool is in \<open>default\<close>.\<close>

definition pool_of :: "machine \<Rightarrow> string" where
  "pool_of m = (case pool_name m of Some p \<Rightarrow> p | None \<Rightarrow> ''default'')"

text \<open>
  The machines an automatic selection may choose: in an allowed pool, in the pool of
  the request when it names one, carrying at least one of the requested tags in mode
  \<open>any\<close> and all of them otherwise, and \<open>Ready\<close>.
\<close>

definition eligible :: "app \<Rightarrow> request \<Rightarrow> string list \<Rightarrow> machine \<Rightarrow> bool" where
  "eligible a r tgs m =
     (pool_of m \<in> allowed_pools a \<and>
      (case req_pool r of None \<Rightarrow> True | Some p \<Rightarrow> p = [] \<or> pool_of m = p) \<and>
      (if req_tag_match_mode r = Some ''any''
       then set tgs \<inter> set (tag_names m) \<noteq> {}
       else set tgs \<subseteq> set (tag_names m)) \<and>
      status_name m = ''Ready'')"

text \<open>
  A request for automatic selection of \<open>c\<close> machines with the tags \<open>tgs\<close>: the
  \<open>auto_select\<close> flag is set or no machine is named, the tag set is not empty and the
  count is at least one.
\<close>

definition auto_selection_request :: "request \<Rightarrow> string list \<Rightarrow> int \<Rightarrow> bool" where
  "auto_selection_request r tgs c =
     (req_tags r = Some tgs \<and> tgs \<noteq> [] \<and> req_count r = Some c \<and> 1 \<le> c \<and>
      (req_auto_select r = Some True \<or> req_machines r = None \<or> req_machines r = Some []))"

text \<open>What the insufficient-resources error shows of a ready candidate.\<close>

definition candidate_view :: "machine \<Rightarrow> candidate" where
  "candidate_view m =
     \<lparr>cand_system_id = system_id m,
      cand_hostname = (case hostname m of Some h \<Rightarrow> h | None \<Rightarrow> system_id m),
      cand_tags = tag_names m,
      cand_pool = pool_of m\<rparr>"

text \<open>Example machines, fleets and requests.\<close>

definition mk_machine :: "string \<Rightarrow> string \<Rightarrow> string \<Rightarrow> string list \<Rightarrow> machine" where
  "mk_machine sid h st tgs =
     \<lparr>system_id = sid, hostname = Some h, fqdn = None, status_name = st, pool_name = None,
      tag_names = tgs, architecture = None, cpu_count = None, memory = 0\<rparr>"

definition two_hosts :: "machine list" where
  "two_hosts = [mk_machine ''def456'' ''host-2'' ''Ready'' [],
                mk_machine ''abc123'' ''host-1'' ''Ready'' []]"

text \<open>A snapshot in which the second machine has no host name.\<close>

definition nameless_fleet :: "machine list" where
  "nameless_fleet =
     [mk_machine ''abc123'' ''host-1'' ''Ready'' [],
      (mk_machine ''def456'' [] ''Deployed'' [])\<lparr>hostname := None\<rparr>]"

definition gpu_fleet :: "machine list" where
  "gpu_fleet = [mk_machine ''m1'' ''gpu-1'' ''Ready'' [''gpu''],
                mk_machine ''m2'' ''cpu-1'' ''Ready'' [''cpu''],
                mk_machine ''m3'' ''gpu-2'' ''Deployed'' [''gpu''],
                mk_machine ''m4'' ''gpu-3'' ''Ready'' [''gpu'', ''nvme'']]"

definition two_tag_request :: request where
  "two_tag_request =
     \<lparr>req_machines = None, req_distro_series = None, req_user_data = None,
      req_tags = Some [''gpu'', ''nvme''], req_pool = None, req_count = Some 1,
      req_auto_select = Some True, req_tag_match_mode = None\<rparr>"

text \<open>
  A module state with the pools \<open>default\<close> and \<open>lab\<close> configured, a snapshot with machines
  in three pools, and a request for \<open>c\<close> machines carrying one of two tags.
\<close>

definition lab_app :: app where
  "lab_app = \<lparr>maas_config = Some [''POOLS'' \<mapsto> ''default, lab''], user_config = None,
               provisioning_jobs = [], job_id_counter = 1\<rparr>"

definition pooled :: "string \<Rightarrow> machine \<Rightarrow> machine" where
  "pooled p m = m\<lparr>pool_name := Some p\<rparr>"

definition lab_fleet :: "machine list" where
  "lab_fleet = [mk_machine ''n1'' ''gpu-1'' ''Ready'' [''gpu''],
                pooled ''lab'' (mk_machine ''n2'' ''disk-1'' ''Ready'' [''nvme'']),
                pooled ''other'' (mk_machine ''n3'' ''gpu-2'' ''Ready'' [''gpu'']),
                pooled ''lab'' (mk_machine ''n4'' ''gpu-3'' ''Deployed'' [''gpu'']),
                pooled ''lab'' (mk_machine ''n5'' ''cpu-1'' ''Ready'' [''cpu'']),
                pooled ''lab'' (mk_machine ''n6'' ''gpu-4'' ''Ready'' [''gpu'', ''nvme''])]"

definition any_tag_request :: "int \<Rightarrow> request" where
  "any_tag_request c =
     \<lparr>req_machines = None, req_distro_series = None, req_user_data = None,
      req_tags = Some [''gpu'', ''nvme''], req_pool = None, req_count = Some c,
      req_auto_select = None, req_tag_match_mode = Some ''any''\<rparr>"

subsection \<open>Job execution\<close>

text \<open>The form data of the deploy request for one machine, read at a given clock index.\<close>

definition deploy_data_of :: "env \<Rightarrow> job_config \<Rightarrow> nat \<Rightarrow> machine \<Rightarrow> deploy_data" where
  "deploy_data_of e cfg clk m =
     \<lparr>op = ''deploy'', dd_distro_series = distro_series cfg,
      dd_user_data =
        (if truthy (user_data cfg)
         then Some (get_machine_cloud_init (env_dump e) (env_now e clk) m
                      (or_else (user_data cfg) []) (os_type_of (distro_series cfg)) None)
         else None)\<rparr>"

definition clock_after_render :: "job_config \<Rightarrow> nat \<Rightarrow> nat" where
  "clock_after_render cfg clk = (if truthy (user_data cfg) then clk + 1 else clk)"

definition count_status :: "string \<Rightarrow> job \<Rightarrow> nat" where
  "count_status s j = length (filter (\<lambda>x. res_status x = s) (results j))"

definition terminal :: "job \<Rightarrow> bool" where
  "terminal j = (status j \<in> {''completed'', ''completed_with_errors'', ''failed''})"

definition counters_ok :: "job \<Rightarrow> bool" where
  "counters_ok j =
     (successful_deployments j + failed_deployments j \<le> total_machines j \<and>
      (terminal j \<longrightarrow>
         successful_deployments j + failed_deployments j = total_machines j \<and>
         count_status ''deployed'' j = successful_deployments j))"

definition not_ready_ids :: "machine list \<Rightarrow> string list \<Rightarrow> string list" where
  "not_ready_ids fleet ids =
     filter (\<lambda>sid. case find (\<lambda>m. system_id m = sid) fleet of
                     None \<Rightarrow> False
                   | Some m \<Rightarrow> status_name m \<noteq> ''Ready'') ids"

definition ready_targets :: "machine list \<Rightarrow> string list \<Rightarrow> machine list" where
  "ready_targets fleet ids =
     List.map_filter
       (\<lambda>sid. case find (\<lambda>m. system_id m = sid) fleet of
                None \<Rightarrow> None
              | Some m \<Rightarrow> if status_name m = ''Ready'' then Some m else None) ids"

definition started :: "env \<Rightarrow> job \<Rightarrow> exec" where
  "started e j =
     tick (mutate (\<lambda>j. j\<lparr>updated_at := env_now e 0\<rparr>)
       (mutate (\<lambda>j. j\<lparr>status := ''running''\<rparr>)
          \<lparr>ex_job = j, ex_clock = 0, ex_calls = [], ex_history = [j]\<rparr>))"

text \<open>The entries written before the deploy loop, one for each identifier that is unknown or not ready.\<close>

definition pre_entries :: "machine list \<Rightarrow> string list \<Rightarrow> result_entry list" where
  "pre_entries fleet ids =
     List.map_filter
       (\<lambda>sid. case find (\<lambda>m. system_id m = sid) fleet of
                None \<Rightarrow> Some (not_found_entry sid)
              | Some m \<Rightarrow> if status_name m \<noteq> ''Ready'' then Some (skipped_entry m) else None)
       ids"

text \<open>
  The deploy loop as the specification describes it: for each target in order, one deploy
  request, and one entry that is \<open>deployed\<close> when the request succeeds and \<open>failed\<close>
  when it raises; \<open>clk\<close> and \<open>k\<close> count the clock readings and the requests made before.
\<close>

fun loop_calls :: "env \<Rightarrow> job_config \<Rightarrow> nat \<Rightarrow> nat \<Rightarrow> machine list \<Rightarrow> (string \<times> deploy_data) list" where
  "loop_calls e cfg clk k [] = []"
| "loop_calls e cfg clk k (m # ms) =
     (system_id m, deploy_data_of e cfg clk m) #
     (case env_deploy e k (system_id m) (deploy_data_of e cfg clk m) of
        Inr res \<Rightarrow> loop_calls e cfg (clock_after_render cfg clk + 1) (k + 1) ms
      | Inl err \<Rightarrow> loop_calls e cfg (clock_after_render cfg clk) (k + 1) ms)"

fun loop_entries :: "env \<Rightarrow> job_config \<Rightarrow> nat \<Rightarrow> nat \<Rightarrow> machine list \<Rightarrow> result_entry list" where
  "loop_entries e cfg clk k [] = []"
| "loop_entries e cfg clk k (m # ms) =
     (case env_deploy e k (system_id m) (deploy_data_of e cfg clk m) of
        Inr res \<Rightarrow>
          deployed_entry m (distro_series cfg) (os_type_of (distro_series cfg))
            (env_now e (clock_after_render cfg clk)) res #
          loop_entries e cfg (clock_after_render cfg clk + 1) (k + 1) ms
      | Inl err \<Rightarrow>
          failed_entry m err # loop_entries e cfg (clock_after_render cfg clk) (k + 1) ms)"

fun loop_clock :: "env \<Rightarrow> job_config \<Rightarrow> nat \<Rightarrow> nat \<Rightarrow> machine list \<Rightarrow> nat" where
  "loop_clock e cfg clk k [] = clk"
| "loop_clock e cfg clk k (m # ms) =
     (case env_deploy e k (system_id m) (deploy_data_of e cfg clk m) of
        Inr res \<Rightarrow> loop_clock e cfg (clock_after_render cfg clk + 1) (k + 1) ms
      | Inl err \<Rightarrow> loop_clock e cfg (clock_after_render cfg clk) (k + 1) ms)"

definition count_entries :: "string \<Rightarrow> result_entry list \<Rightarrow> nat" where
  "count_entries s xs = length (filter (\<lambda>x. res_status x = s) xs)"

text \<open>A manual request for the given machines, with optional tags and user snippet.\<close>

definition manual_request :: "string list \<Rightarrow> string list option \<Rightarrow> string option \<Rightarrow> request" where
  "manual_request ids tgs snippet =
     \<lparr>req_machines = Some ids, req_distro_series = Some ''jammy'', req_user_data = snippet,
      req_tags = tgs, req_pool = None, req_count = None, req_auto_select = Some False,
      req_tag_match_mode = Some ''all''\<rparr>"

definition fresh_job :: "request \<Rightarrow> job" where
  "fresh_job r = new_job ''job-0-1'' (\<lambda>k. ''t'') None r"

text \<open>An outside world in which the snapshot is \<open>fleet\<close> and every deploy request succeeds.\<close>

definition calm_env :: "machine list \<Rightarrow> env" where
  "calm_env fleet =
     \<lparr>env_fetch = Inr fleet, env_deploy = (\<lambda>k sid d. Inr ''ok''),
      env_now = (\<lambda>k. ''t''), env_dump = (\<lambda>y. ''doc'')\<rparr>"

definition skipped_run :: exec where
  "skipped_run =
     run_job (calm_env gpu_fleet) [''m3'']
       (config (fresh_job (manual_request [''m3''] None None)))
       (fresh_job (manual_request [''m3''] None None))"

definition mixed_run :: exec where
  "mixed_run =
     run_job (calm_env gpu_fleet) [''m1'', ''m3'']
       (config (fresh_job (manual_request [''m1'', ''m3''] None None)))
       (fresh_job (manual_request [''m1'', ''m3''] None None))"

definition ghost_run :: exec where
  "ghost_run =
     run_job (calm_env gpu_fleet) [''ghost'']
       (config (fresh_job (manual_request [''ghost''] None None)))
       (fresh_job (manual_request [''ghost''] None None))"

definition partial_tag_run :: exec where
  "partial_tag_run =
     run_job (calm_env gpu_fleet) [''m1'']
       (config (fresh_job (manual_request [''m1''] (Some [''gpu'', ''nvme'']) None)))
       (fresh_job (manual_request [''m1''] (Some [''gpu'', ''nvme'']) None))"

text \<open>An outside world in which the first deploy request raises and the later ones succeed.\<close>

definition flaky_env :: "machine list \<Rightarrow> env" where
  "flaky_env fleet =
     \<lparr>env_fetch = Inr fleet,
      env_deploy = (\<lambda>k sid d. if k = 0 then Inl ''500: MAAS API Error'' else Inr ''ok''),
      env_now = (\<lambda>k. ''t''), env_dump = (\<lambda>y. ''doc'')\<rparr>"

definition flaky_run :: exec where
  "flaky_run =
     run_job (flaky_env gpu_fleet) [''m1'', ''m4'']
       (config (fresh_job (manual_request [''m1'', ''m4''] None (Some ''- ls''))))
       (fresh_job (manual_request [''m1'', ''m4''] None (Some ''- ls'')))"

text \<open>
  A run command that names none of the tools that create or change a user account:
  \<open>useradd\<close>, \<open>chpasswd\<close>, \<open>usermod\<close>, \<open>adduser\<close>.
\<close>

definition no_account_command :: "string \<Rightarrow> bool" where
  "no_account_command c =
     (\<not> contains ''useradd'' c \<and> \<not> contains ''chpasswd'' c \<and> \<not> contains ''usermod'' c \<and>
      \<not> contains ''adduser'' c)"

subsection \<open>Configuration generation\<close>

text \<open>
  The commands that the merge takes from a user snippet, in the words of the amended
  claim: the snippet is cut at its newlines, each piece loses the white space at both
  ends, and a piece is kept when it starts with the list-item prefix \<open>'- '\<close> and
  contains neither \<open>echo\<close> nor \<open>systemctl\<close> anywhere; a kept piece becomes a command by
  losing the two characters of the prefix.
\<close>

definition kept_commands :: "string \<Rightarrow> string list" where
  "kept_commands t =
     map (drop 2)
       (filter (\<lambda>l. take 2 l = ''- '' \<and> \<not> contains ''echo'' l \<and> \<not> contains ''systemctl'' l)
          (map strip (split (CHR 0x0A) t)))"

text \<open>What the merge appends to the run commands for a snippet.\<close>

definition snippet_part :: "string \<Rightarrow> string list" where
  "snippet_part t =
     (if kept_commands t = [] then [] else ''# User-provided commands:'' # kept_commands t)"

text \<open>
  A user snippet of four lines: free text, a list item with \<open>echo\<close>, an indented list
  item, and a list item behind a no-break space.
\<close>

definition sample_snippet :: string where
  "sample_snippet =
     ''reboot now'' @ [CHR 0x0A] @ ''- echo hi'' @ [CHR 0x0A] @ ''  - apt-get update'' @
     [CHR 0x0A, CHR 0xA0] @ ''- mkdir /opt/data''"

text \<open>A Rocky machine and a configured credential.\<close>

definition rocky_node :: machine where
  "rocky_node = mk_machine ''r1'' ''node-1'' ''Ready'' []"

definition admin_credentials :: credentials where
  "admin_credentials =
     \<lparr>configured = Some True, username = Some ''admin'', password = Some ''secret''\<rparr>"

text \<open>The keys of a YAML mapping.\<close>

fun yaml_keys :: "yaml \<Rightarrow> string list" where
  "yaml_keys (YMap entries) = map fst entries"
| "yaml_keys (YStr s) = []"
| "yaml_keys (YBool b) = []"
| "yaml_keys (YSeq ys) = []"

text \<open>
  The run commands that the generator itself writes into a document rendered without a
  credential, before and after the commands of the snippet: the base commands of the
  OS family with the branch for no user, and the commands of the tag rules; then the
  completion lines.
\<close>

definition commands_before_snippet :: "machine \<Rightarrow> string \<Rightarrow> string list" where
  "commands_before_snippet m os =
     base_commands (is_rocky_os os) @
     (if is_rocky_os os then rocky_nouser_commands else ubuntu_nouser_commands) @
     enh_runcmd (generate_tag_based_enhancements (tag_names m) os)"

definition commands_after_snippet :: "string list" where
  "commands_after_snippet = completion_commands @ [no_user_command]"

text \<open>\<open>s.endswith(p)\<close>, and the shape of a line that logs a text to both log files.\<close>

definition endswith :: "string \<Rightarrow> string \<Rightarrow> bool" where
  "endswith s p = startswith (rev s) (rev p)"

definition log_line :: "string \<Rightarrow> bool" where
  \<open>log_line c =
     (startswith c ''echo "'' \<and>
      endswith c ''" | tee -a /var/log/cloud-init-userdata.log /var/log/maas-deployment.log'')\<close>

text \<open>The enhancements whose run commands create no account.\<close>

definition account_free :: "enhancements \<Rightarrow> bool" where
  "account_free e = list_all no_account_command (enh_runcmd e)"

text \<open>
  A module state with a configured user credential and one stored job, whose user
  snippet creates an account, and the run of that job.
\<close>

definition eve_snippet :: string where
  "eve_snippet = ''- useradd -m eve''"

definition eve_job :: job where
  "eve_job = fresh_job (manual_request [''m1''] None (Some eve_snippet))"

definition eve_app :: app where
  "eve_app =
     \<lparr>maas_config = None,
      user_config = Some [''USERNAME'' \<mapsto> ''admin'', ''PASSWORD'' \<mapsto> ''secret''],
      provisioning_jobs = [(''job-0-1'', eve_job)], job_id_counter = 2\<rparr>"

definition eve_run :: exec where
  "eve_run = run_job (calm_env gpu_fleet) [''m1''] (config eve_job) eve_job"

section \<open>Explicit selection\<close>

lemma lookup_maps_ok:
  assumes "\<forall>m\<in>set ms. hostname m \<noteq> None" and "distinct (map fst h2i)" and "distinct (map fst i2h)"
  shows "\<exists>h' i'. lookup_maps ms (h2i, i2h) = Inr (h', i') \<and>
           distinct (map fst h') \<and> distinct (map fst i') \<and>
           set (map fst h') = set (map fst h2i) \<union> fst ` set (host_pairs ms) \<and>
           set (map fst i') = set (map fst i2h) \<union> system_id ` set ms \<and>
           map_of h' = map_of h2i ++ map_of (rev (host_pairs ms))"
  using assms
proof (induction ms arbitrary: h2i i2h)
  case Nil
  then show ?case by (simp add: host_pairs_def)
next
  case (Cons m ms)
  from Cons.prems obtain h where h: "hostname m = Some h" by auto
  let ?h2 = "AList.update h (system_id m) h2i"
  let ?i2 = "AList.update (system_id m) h i2h"
  have d1: "distinct (map fst ?h2)" and d2: "distinct (map fst ?i2)"
    using Cons.prems by (simp_all add: distinct_update)
  from Cons.IH [OF _ d1 d2] Cons.prems(1)
  obtain h' i' where r: "lookup_maps ms (?h2, ?i2) = Inr (h', i')"
    and p: "distinct (map fst h')" "distinct (map fst i')"
      "set (map fst h') = set (map fst ?h2) \<union> fst ` set (host_pairs ms)"
      "set (map fst i') = set (map fst ?i2) \<union> system_id ` set ms"
      "map_of h' = map_of ?h2 ++ map_of (rev (host_pairs ms))"
    by auto
  have m1: "map_of h' = map_of h2i ++ map_of (rev (host_pairs (m # ms)))"
    unfolding p(5)
    by (simp add: host_pairs_def h update_conv fun_eq_iff map_add_def split: option.splits)
  show ?case
    using r p(1,2,3,4) m1 by (auto simp: h host_pairs_def dom_update)
qed

lemma host_pairs_find:
  assumes "\<forall>m\<in>set xs. hostname m \<noteq> None"
  shows "map_of (host_pairs xs) t = map_option system_id (find (\<lambda>m. hostname m = Some t) xs)"
  using assms by (induction xs) (auto simp: host_pairs_def)

lemma host_pairs_rev: "rev (host_pairs xs) = host_pairs (rev xs)"
  by (simp add: host_pairs_def rev_map)

lemma host_pairs_keys:
  assumes "\<forall>m\<in>set xs. hostname m \<noteq> None"
  shows "fst ` set (host_pairs xs) = set (List.map_filter hostname xs)"
  using assms by (induction xs) (auto simp: host_pairs_def)

lemma resolve_loop_eq:
  "resolve_loop h2i i2h ids (r, u) =
     (r @ List.map_filter (token_lookup h2i i2h) ids,
      u @ filter (\<lambda>t. token_lookup h2i i2h t = None) ids)"
  by (induction ids arbitrary: r u) (auto simp: token_lookup_def split: option.splits)

lemma those_map_filter:
  "those (map f xs) =
     (if filter (\<lambda>t. f t = None) xs = [] then Some (List.map_filter f xs) else None)"
  by (induction xs) (auto split: option.splits)

lemma sort_keys_eq:
  assumes "distinct xs" and "set xs = set ys"
  shows "sort xs = sort (remdups ys)"
  using assms by (intro sorted_distinct_set_unique) simp_all

text \<open>
  On a snapshot whose machines all carry a host name, the resolution maps every token
  through \<open>resolve_token\<close> (system identifier first, host name second) and keeps the
  order of the input. When every token resolves the result is that list; when some
  token does not, the result is one 400 error that holds all unresolved tokens in input
  order, the sorted known host names and the sorted known system identifiers, and no
  resolved identifier at all.
\<close>

lemma resolve_named_snapshot:
  assumes "\<forall>m\<in>set fleet. hostname m \<noteq> None"
  shows "resolve_machine_identifiers (Inr fleet) identifiers =
     (case those (map (resolve_token fleet) identifiers) of
        Some ids \<Rightarrow> Inr ids
      | None \<Rightarrow>
          Inl (HTTPException 400
                 (CannotResolve (filter (\<lambda>tok. resolve_token fleet tok = None) identifiers)
                    (sort (remdups (List.map_filter hostname fleet)))
                    (sort (remdups (map system_id fleet))))))"
proof -
  from lookup_maps_ok [OF assms, of "[]" "[]"]
  obtain h' i' where r: "lookup_maps fleet ([], []) = Inr (h', i')"
    and d: "distinct (map fst h')" "distinct (map fst i')"
    and k: "set (map fst h') = fst ` set (host_pairs fleet)"
           "set (map fst i') = system_id ` set fleet"
    and m: "map_of h' = map_of (rev (host_pairs fleet))"
    by auto
  have rv: "\<forall>m\<in>set (rev fleet). hostname m \<noteq> None" using assms by simp
  have tl: "token_lookup h' i' = resolve_token fleet"
    using k(2) by (auto simp: token_lookup_def resolve_token_def fun_eq_iff m host_pairs_rev
        host_pairs_find [OF rv])
  have s1: "sort (map fst h') = sort (remdups (List.map_filter hostname fleet))"
    using d(1) k(1) by (intro sort_keys_eq) (simp_all add: host_pairs_keys [OF assms])
  have s2: "sort (map fst i') = sort (remdups (map system_id fleet))"
    using d(2) k(2) by (intro sort_keys_eq) simp_all
  show ?thesis
    by (simp add: resolve_machine_identifiers_def resolve_body_def r resolve_loop_eq tl
        those_map_filter s1 s2)
qed

lemma resolve_named_snapshot_example:
  "resolve_machine_identifiers (Inr two_hosts) [''host-1'', ''def456''] =
     Inr [''abc123'', ''def456''] \<and>
   resolve_machine_identifiers (Inr two_hosts) [''host-1'', ''unknown-host''] =
     Inl (HTTPException 400
            (CannotResolve [''unknown-host''] [''host-1'', ''host-2''] [''abc123'', ''def456'']))"
proof -
  have h: "\<forall>m\<in>set two_hosts. hostname m \<noteq> None"
    by (simp add: two_hosts_def mk_machine_def)
  show ?thesis
    using resolve_named_snapshot [OF h, of "[''host-1'', ''def456'']"]
      resolve_named_snapshot [OF h, of "[''host-1'', ''unknown-host'']"]
    by (simp add: two_hosts_def mk_machine_def resolve_token_def)
qed

text \<open>
  A single machine without a host name anywhere in the snapshot makes every resolution
  fail, whatever the request names.
\<close>

lemma lookup_maps_missing_hostname:
  "\<exists>m\<in>set ms. hostname m = None \<Longrightarrow>
   lookup_maps ms acc = Inl (Exception (CHR 0x27 # ''hostname'' @ [CHR 0x27]))"
proof (induction ms arbitrary: acc)
  case Nil
  then show ?case by simp
next
  case (Cons m ms)
  obtain h2i i2h where acc: "acc = (h2i, i2h)" by (cases acc)
  show ?case
  proof (cases "hostname m")
    case None
    then show ?thesis by (simp add: acc)
  next
    case (Some h)
    with Cons.prems have "\<exists>m\<in>set ms. hostname m = None" by auto
    then show ?thesis using Cons.IH by (simp add: acc Some)
  qed
qed

lemma resolution_fails_without_hostname:
  assumes "\<exists>m\<in>set fleet. hostname m = None"
  shows "resolve_machine_identifiers (Inr fleet) identifiers =
           Inl (HTTPException 500 (ResolveFailed (CHR 0x27 # ''hostname'' @ [CHR 0x27])))"
  using lookup_maps_missing_hostname [OF assms, of "([], [])"]
  by (simp add: resolve_machine_identifiers_def resolve_body_def)

text \<open>
  Claim C4 at the failing input. The snapshot holds the machine \<open>abc123\<close> with the host
  name \<open>host-1\<close> and the machine \<open>def456\<close> without a host name; the request names
  \<open>abc123\<close>, which is the system identifier of a machine of the snapshot and resolves
  to itself. The first loop reads \<open>machine['hostname']\<close> on every machine of the
  snapshot, so the resolution ends in the 500 error made from the \<open>KeyError\<close>. The
  result entry of a skipped machine reads the same key with the system identifier as
  default.
\<close>

theorem missing_hostname_fails_resolution:
  "resolve_token nameless_fleet ''abc123'' = Some ''abc123'' \<and>
   resolve_machine_identifiers (Inr nameless_fleet) [''abc123''] =
     Inl (HTTPException 500 (ResolveFailed (CHR 0x27 # ''hostname'' @ [CHR 0x27]))) \<and>
   map res_hostname (map skipped_entry nameless_fleet) = [''host-1'', ''def456'']"
  by (simp add: resolve_token_def nameless_fleet_def mk_machine_def
      resolve_machine_identifiers_def resolve_body_def skipped_entry_def)

section \<open>Automatic selection\<close>

text \<open>The three filters of the code are the three filters of the specification.\<close>

lemma pool_filter_spec:
  "machine_pool m \<in> set (configured_pools a) \<longleftrightarrow> pool_of m \<in> allowed_pools a"
  by (auto simp: machine_pool_def configured_pools_def pool_of_def allowed_pools_def Let_def
      split: option.splits)

lemma request_pool_spec:
  "(truthy (req_pool r) \<longrightarrow> Some (machine_pool m) = req_pool r) \<longleftrightarrow>
   (case req_pool r of None \<Rightarrow> True | Some p \<Rightarrow> p = [] \<or> pool_of m = p)"
  by (auto simp: truthy_def machine_pool_def pool_of_def split: option.splits)

lemma tag_filter_spec:
  "tag_match (match_mode_of r) tgs m \<longleftrightarrow>
   (if req_tag_match_mode r = Some ''any''
    then set tgs \<inter> set (tag_names m) \<noteq> {}
    else set tgs \<subseteq> set (tag_names m))"
  by (auto simp: tag_match_def match_mode_of_def or_else_def list_ex_iff list_all_iff
      split: option.splits)

lemma ready_machines_eligible:
  "ready_machines a r tgs fleet = filter (eligible a r tgs) fleet"
proof -
  have "eligible a r tgs m \<longleftrightarrow>
          status_name m = ''Ready'' \<and> tag_match (match_mode_of r) tgs m \<and>
          (truthy (req_pool r) \<longrightarrow> Some (machine_pool m) = req_pool r) \<and>
          machine_pool m \<in> set (configured_pools a)" for m
    unfolding eligible_def pool_filter_spec request_pool_spec tag_filter_spec by blast
  then show ?thesis
    by (auto simp: ready_machines_def tagged_machines_def available_machines_def
        pool_filtered_machines_def intro: filter_cong)
qed

lemma candidate_of_view: "candidate_of m = candidate_view m"
  by (simp add: candidate_of_def candidate_view_def machine_pool_def pool_of_def
      split: option.splits)

text \<open>The requests for automatic selection are those the validation lets through.\<close>

lemma auto_request_validated:
  "auto_selection_request r tgs c \<longleftrightarrow>
   auto_mode r \<and> validate_request r = None \<and> req_tags r = Some tgs \<and> req_count r = Some c"
  by (auto simp: auto_selection_request_def auto_mode_def validate_request_def tags_given_def
      no_machines_def split: option.splits if_splits)

lemma validated_auto_request_has_tags:
  "auto_mode r \<Longrightarrow> validate_request r = None \<Longrightarrow> \<exists>tgs. req_tags r = Some tgs \<and> tgs \<noteq> []"
  by (auto simp: validate_request_def tags_given_def split: option.splits if_splits)

lemma auto_select_err:
  assumes "req_tags r = Some tgs" and "req_count r = Some c"
    and "int (length (filter (eligible a r tgs) fleet)) < c"
  shows "auto_select a (Inr fleet) r =
           Inl (HTTPException 409
                (NotEnoughResources c (length (filter (eligible a r tgs) fleet)) tgs
                   (or_else (req_pool r) ''any configured pool'')
                   (insufficient_message c tgs (req_pool r)
                      (length (filter (eligible a r tgs) fleet)))
                   (map candidate_view (filter (eligible a r tgs) fleet))))"
  using assms
  by (simp add: auto_select_def auto_select_body_def ready_machines_eligible Let_def
      candidate_of_view)

lemma auto_select_ok:
  assumes "req_tags r = Some tgs" and "req_count r = Some c" and "1 \<le> c"
    and "\<not> int (length (filter (eligible a r tgs) fleet)) < c"
  shows "auto_select a (Inr fleet) r =
           Inr (map system_id (take (nat c) (filter (eligible a r tgs) fleet)),
                \<lparr>rv_requested_count = c,
                 rv_available_count = length (filter (eligible a r tgs) fleet),
                 rv_selected_machines = nat c, rv_tags = tgs,
                 rv_tag_match_mode = match_mode_of r, rv_pool = req_pool r\<rparr>)"
  using assms
  by (simp add: auto_select_def auto_select_body_def ready_machines_eligible Let_def slice_to_def)

lemma provision_rejected:
  assumes "validate_request r = None"
    and "select_targets a fetched r = Inl (HTTPException code d)"
  shows "provision_machines a fetched t now r = (Inl (HTTPException code d), a)"
  using assms by (simp add: provision_machines_def provision_body_def)

lemma provision_accepted:
  assumes "validate_request r = None"
    and "select_targets a fetched r = Inr (selected, rv)"
  shows "provision_machines a fetched t now r =
     (Inr (\<lparr>resp_job_id = ''job-'' @ str_nat t @ ''-'' @ str_nat (job_id_counter a),
            resp_status = ''pending'',
            resp_message = ''Provisioning job started. Use GET /api/provision/{job_id} to track progress.'',
            machines_to_deploy = length selected,
            auto_selection = rv,
            selected_machines = (if rv = None then None else Some selected)\<rparr>,
           (''job-'' @ str_nat t @ ''-'' @ str_nat (job_id_counter a), selected,
            config (new_job (''job-'' @ str_nat t @ ''-'' @ str_nat (job_id_counter a)) now rv r))),
      a\<lparr>provisioning_jobs :=
          AList.update (''job-'' @ str_nat t @ ''-'' @ str_nat (job_id_counter a))
            (new_job (''job-'' @ str_nat t @ ''-'' @ str_nat (job_id_counter a)) now rv r)
            (provisioning_jobs a),
        job_id_counter := job_id_counter a + 1\<rparr>)"
  using assms by (simp add: provision_machines_def provision_body_def Let_def)

text \<open>
  Claim C5. For a request for automatic selection of \<open>c\<close> machines with the tags
  \<open>tgs\<close>, on a fetched snapshot: with \<open>ready\<close> the machines of the snapshot that are
  in an allowed pool, in the pool of the request, carry the tags in the mode of the
  request and are \<open>Ready\<close>, in snapshot order, a count above their number makes the
  request fail with the 409 error that carries the requested count, the available
  count, the tags, the pool and the ready candidates, and the module state (the job
  store) is unchanged; otherwise the first \<open>c\<close> machines of \<open>ready\<close> are selected,
  their number is \<open>c\<close>, each of them is a machine of the snapshot that satisfies the
  filters, and the job is stored and handed to the background task with exactly these
  targets.
\<close>

theorem auto_selection_spec:
  assumes "auto_selection_request r tgs c"
  shows "let ready = filter (eligible a r tgs) fleet;
             chosen = take (nat c) ready;
             jid = ''job-'' @ str_nat t @ ''-'' @ str_nat (job_id_counter a);
             rv = \<lparr>rv_requested_count = c, rv_available_count = length ready,
                   rv_selected_machines = nat c, rv_tags = tgs,
                   rv_tag_match_mode = or_else (req_tag_match_mode r) ''all'',
                   rv_pool = req_pool r\<rparr>
         in (int (length ready) < c \<longrightarrow>
               provision_machines a (Inr fleet) t now r =
                 (Inl (HTTPException 409
                         (NotEnoughResources c (length ready) tgs
                            (or_else (req_pool r) ''any configured pool'')
                            (insufficient_message c tgs (req_pool r) (length ready))
                            (map candidate_view ready))),
                  a)) \<and>
            (\<not> int (length ready) < c \<longrightarrow>
               length chosen = nat c \<and>
               (\<forall>m\<in>set chosen. m \<in> set fleet \<and> eligible a r tgs m) \<and>
               provision_machines a (Inr fleet) t now r =
                 (Inr (\<lparr>resp_job_id = jid, resp_status = ''pending'',
                        resp_message = ''Provisioning job started. Use GET /api/provision/{job_id} to track progress.'',
                        machines_to_deploy = nat c,
                        auto_selection = Some rv,
                        selected_machines = Some (map system_id chosen)\<rparr>,
                       (jid, map system_id chosen, config (new_job jid now (Some rv) r))),
                  a\<lparr>provisioning_jobs :=
                      AList.update jid (new_job jid now (Some rv) r) (provisioning_jobs a),
                    job_id_counter := job_id_counter a + 1\<rparr>))"
proof -
  let ?ready = "filter (eligible a r tgs) fleet"
  let ?rv = "\<lparr>rv_requested_count = c, rv_available_count = length ?ready,
               rv_selected_machines = nat c, rv_tags = tgs,
               rv_tag_match_mode = or_else (req_tag_match_mode r) ''all'',
               rv_pool = req_pool r\<rparr>"
  from assms have am: "auto_mode r" and vr: "validate_request r = None"
    and rt: "req_tags r = Some tgs" and rc: "req_count r = Some c"
    by (simp_all add: auto_request_validated)
  from assms have c1: "1 \<le> c" by (simp add: auto_selection_request_def)
  have few: "provision_machines a (Inr fleet) t now r =
                 (Inl (HTTPException 409
                         (NotEnoughResources c (length ?ready) tgs
                            (or_else (req_pool r) ''any configured pool'')
                            (insufficient_message c tgs (req_pool r) (length ?ready))
                            (map candidate_view ?ready))),
                  a)" if lt: "int (length ?ready) < c"
  proof (rule provision_rejected [OF vr])
    show "select_targets a (Inr fleet) r =
       Inl (HTTPException 409
             (NotEnoughResources c (length ?ready) tgs
               (or_else (req_pool r) ''any configured pool'')
               (insufficient_message c tgs (req_pool r) (length ?ready))
               (map candidate_view ?ready)))"
      using am by (simp add: select_targets_def auto_select_err [OF rt rc lt])
  qed
  have enough: "provision_machines a (Inr fleet) t now r =
       (Inr (\<lparr>resp_job_id = ''job-'' @ str_nat t @ ''-'' @ str_nat (job_id_counter a),
              resp_status = ''pending'',
              resp_message = ''Provisioning job started. Use GET /api/provision/{job_id} to track progress.'',
              machines_to_deploy = nat c,
              auto_selection = Some ?rv,
              selected_machines = Some (map system_id (take (nat c) ?ready))\<rparr>,
             (''job-'' @ str_nat t @ ''-'' @ str_nat (job_id_counter a),
              map system_id (take (nat c) ?ready),
              config (new_job (''job-'' @ str_nat t @ ''-'' @ str_nat (job_id_counter a)) now
                        (Some ?rv) r))),
        a\<lparr>provisioning_jobs :=
            AList.update (''job-'' @ str_nat t @ ''-'' @ str_nat (job_id_counter a))
              (new_job (''job-'' @ str_nat t @ ''-'' @ str_nat (job_id_counter a)) now (Some ?rv) r)
              (provisioning_jobs a),
          job_id_counter := job_id_counter a + 1\<rparr>)" if ge: "\<not> int (length ?ready) < c"
  proof -
    have sel: "select_targets a (Inr fleet) r =
        Inr (map system_id (take (nat c) ?ready), Some ?rv)"
      using am
      by (simp add: select_targets_def auto_select_ok [OF rt rc c1 ge] match_mode_of_def)
    have len: "length (map system_id (take (nat c) ?ready)) = nat c"
      using ge by simp
    show ?thesis
      using provision_accepted [OF vr sel, of t now] len by simp
  qed
  have len: "length (take (nat c) ?ready) = nat c" if "\<not> int (length ?ready) < c"
    using that by simp
  have sub: "\<forall>m\<in>set (take (nat c) ?ready). m \<in> set fleet \<and> eligible a r tgs m"
    by (auto dest: in_set_takeD)
  show ?thesis
    unfolding Let_def
    by (intro conjI impI few enough len sub) assumption+
qed

lemma lab_ready:
  "filter (eligible lab_app (any_tag_request c) [''gpu'', ''nvme'']) lab_fleet =
     [mk_machine ''n1'' ''gpu-1'' ''Ready'' [''gpu''],
      pooled ''lab'' (mk_machine ''n2'' ''disk-1'' ''Ready'' [''nvme'']),
      pooled ''lab'' (mk_machine ''n6'' ''gpu-4'' ''Ready'' [''gpu'', ''nvme''])]"
  by (simp add: eligible_def lab_fleet_def mk_machine_def pooled_def pool_of_def
      allowed_pools_def lab_app_def any_tag_request_def strip_def isspace_def)

theorem auto_selection_spec_witness:
  "auto_selection_request (any_tag_request 2) [''gpu'', ''nvme''] 2 \<and>
   auto_selection_request (any_tag_request 4) [''gpu'', ''nvme''] 4 \<and>
   provision_machines lab_app (Inr lab_fleet) 0 (\<lambda>k. []) (any_tag_request 4) =
     (Inl (HTTPException 409
             (NotEnoughResources 4 3 [''gpu'', ''nvme''] ''any configured pool''
                ''Requested 4 machines with tags [gpu, nvme], but only 3 ready machines available''
                [\<lparr>cand_system_id = ''n1'', cand_hostname = ''gpu-1'', cand_tags = [''gpu''],
                  cand_pool = ''default''\<rparr>,
                 \<lparr>cand_system_id = ''n2'', cand_hostname = ''disk-1'', cand_tags = [''nvme''],
                  cand_pool = ''lab''\<rparr>,
                 \<lparr>cand_system_id = ''n6'', cand_hostname = ''gpu-4'',
                  cand_tags = [''gpu'', ''nvme''], cand_pool = ''lab''\<rparr>])),
      lab_app) \<and>
   fst (provision_machines lab_app (Inr lab_fleet) 0 (\<lambda>k. []) (any_tag_request 2)) =
     Inr (\<lparr>resp_job_id = ''job-0-1'', resp_status = ''pending'',
            resp_message = ''Provisioning job started. Use GET /api/provision/{job_id} to track progress.'',
            machines_to_deploy = 2,
            auto_selection =
              Some \<lparr>rv_requested_count = 2, rv_available_count = 3, rv_selected_machines = 2,
                    rv_tags = [''gpu'', ''nvme''], rv_tag_match_mode = ''any'',
                    rv_pool = None\<rparr>,
            selected_machines = Some [''n1'', ''n2'']\<rparr>,
          (''job-0-1'', [''n1'', ''n2''],
           \<lparr>distro_series = ''jammy'', user_data = None, tags = Some [''gpu'', ''nvme''],
            pool = None, count = Some 2, auto_select = None,
            tag_match_mode = Some ''any''\<rparr>)) \<and>
   map fst (provisioning_jobs
     (snd (provision_machines lab_app (Inr lab_fleet) 0 (\<lambda>k. []) (any_tag_request 2)))) =
     [''job-0-1'']"
proof -
  have r2: "auto_selection_request (any_tag_request 2) [''gpu'', ''nvme''] 2"
    by (simp add: auto_selection_request_def any_tag_request_def)
  have r4: "auto_selection_request (any_tag_request 4) [''gpu'', ''nvme''] 4"
    by (simp add: auto_selection_request_def any_tag_request_def)
  have m: "insufficient_message 4 [''gpu'', ''nvme''] None (Suc (Suc (Suc 0))) =
     ''Requested 4 machines with tags [gpu, nvme], but only 3 ready machines available''"
    by (simp add: insufficient_message_def str_int_def str_nat.simps truthy_def)
  have p: "req_pool (any_tag_request c) = None"
    and q: "req_tag_match_mode (any_tag_request c) = Some ''any''" for c
    by (simp_all add: any_tag_request_def)
  have j: "''job-'' @ str_nat 0 @ ''-'' @ str_nat (job_id_counter lab_app) = ''job-0-1''"
    by (simp add: str_nat.simps lab_app_def)
  have few: "provision_machines lab_app (Inr lab_fleet) 0 (\<lambda>k. []) (any_tag_request 4) =
     (Inl (HTTPException 409
             (NotEnoughResources 4 3 [''gpu'', ''nvme''] ''any configured pool''
                ''Requested 4 machines with tags [gpu, nvme], but only 3 ready machines available''
                [\<lparr>cand_system_id = ''n1'', cand_hostname = ''gpu-1'', cand_tags = [''gpu''],
                  cand_pool = ''default''\<rparr>,
                 \<lparr>cand_system_id = ''n2'', cand_hostname = ''disk-1'', cand_tags = [''nvme''],
                  cand_pool = ''lab''\<rparr>,
                 \<lparr>cand_system_id = ''n6'', cand_hostname = ''gpu-4'',
                  cand_tags = [''gpu'', ''nvme''], cand_pool = ''lab''\<rparr>])),
      lab_app)"
    using auto_selection_spec [OF r4, of lab_app lab_fleet 0 "\<lambda>k. []"] m
    by (simp add: Let_def lab_ready p or_else_def candidate_view_def mk_machine_def
        pooled_def pool_of_def)
  have enough: "provision_machines lab_app (Inr lab_fleet) 0 (\<lambda>k. []) (any_tag_request 2) =
     (Inr (\<lparr>resp_job_id = ''job-0-1'', resp_status = ''pending'',
            resp_message = ''Provisioning job started. Use GET /api/provision/{job_id} to track progress.'',
            machines_to_deploy = 2,
            auto_selection =
              Some \<lparr>rv_requested_count = 2, rv_available_count = 3, rv_selected_machines = 2,
                    rv_tags = [''gpu'', ''nvme''], rv_tag_match_mode = ''any'',
                    rv_pool = None\<rparr>,
            selected_machines = Some [''n1'', ''n2'']\<rparr>,
          (''job-0-1'', [''n1'', ''n2''],
           config (new_job ''job-0-1'' (\<lambda>k. [])
             (Some \<lparr>rv_requested_count = 2, rv_available_count = 3, rv_selected_machines = 2,
                    rv_tags = [''gpu'', ''nvme''], rv_tag_match_mode = ''any'',
                    rv_pool = None\<rparr>) (any_tag_request 2)))),
      lab_app\<lparr>provisioning_jobs :=
          AList.update ''job-0-1''
            (new_job ''job-0-1'' (\<lambda>k. [])
               (Some \<lparr>rv_requested_count = 2, rv_available_count = 3, rv_selected_machines = 2,
                      rv_tags = [''gpu'', ''nvme''], rv_tag_match_mode = ''any'',
                      rv_pool = None\<rparr>) (any_tag_request 2))
            (provisioning_jobs lab_app),
        job_id_counter := job_id_counter lab_app + 1\<rparr>)"
    using auto_selection_spec [OF r2, of lab_app lab_fleet 0 "\<lambda>k. []", unfolded Let_def lab_ready j]
    by (simp add: p q or_else_def mk_machine_def pooled_def numeral_3_eq_3)
  show ?thesis
    using r2 r4 unfolding few enough
    by (simp add: new_job_def any_tag_request_def or_else_def lab_app_def)
qed

text \<open>
  On an empty tag set the two modes differ the other way round: \<open>all([])\<close> holds and
  \<open>any([])\<close> does not. \<open>validate_request\<close> rejects such a request, so the tag filter
  of \<open>provision_machines\<close> never sees one.
\<close>

lemma empty_tag_set_filters:
  "tagged_machines ''all'' [] ms = ms \<and> tagged_machines ''any'' [] ms = []"
  by (simp add: tagged_machines_def tag_match_def)

text \<open>
  Claim C6. For the tag set of any automatic selection that passes validation (the
  validation rejects an empty tag set before any machine is examined) and any list of
  candidates, every machine kept by the tag filter in mode \<open>all\<close> is kept by the tag
  filter in mode \<open>any\<close>.
\<close>

theorem all_selection_subset_any_selection:
  assumes "auto_mode r" and "validate_request r = None" and "req_tags r = Some tgs"
  shows "set (tagged_machines ''all'' tgs ms) \<subseteq> set (tagged_machines ''any'' tgs ms)"
proof -
  from assms have ne: "tgs \<noteq> []"
    using validated_auto_request_has_tags by fastforce
  then obtain t ts where tgs: "tgs = t # ts" by (cases tgs) auto
  show ?thesis
    by (auto simp: tagged_machines_def tag_match_def tgs list_all_iff)
qed

theorem all_selection_subset_any_selection_witness:
  "auto_mode two_tag_request \<and> validate_request two_tag_request = None \<and>
   req_tags two_tag_request = Some [''gpu'', ''nvme''] \<and>
   tagged_machines ''all'' [''gpu'', ''nvme''] gpu_fleet =
     [mk_machine ''m4'' ''gpu-3'' ''Ready'' [''gpu'', ''nvme'']] \<and>
   set (tagged_machines ''all'' [''gpu'', ''nvme''] gpu_fleet)
     \<subseteq> set (tagged_machines ''any'' [''gpu'', ''nvme''] gpu_fleet)"
proof -
  have a: "auto_mode two_tag_request" by (simp add: auto_mode_def two_tag_request_def)
  have v: "validate_request two_tag_request = None"
    by (simp add: validate_request_def auto_mode_def tags_given_def two_tag_request_def)
  have t: "req_tags two_tag_request = Some [''gpu'', ''nvme'']"
    by (simp add: two_tag_request_def)
  have e: "tagged_machines ''all'' [''gpu'', ''nvme''] gpu_fleet =
     [mk_machine ''m4'' ''gpu-3'' ''Ready'' [''gpu'', ''nvme'']]"
    by (simp add: tagged_machines_def tag_match_def mk_machine_def gpu_fleet_def)
  show ?thesis
    using a v t e all_selection_subset_any_selection [OF a v t, of gpu_fleet] by blast
qed

section \<open>Job execution\<close>

lemma mutate_simps:
  "ex_job (mutate f st) = f (ex_job st)"
  "ex_history (mutate f st) = ex_history st @ [f (ex_job st)]"
  "ex_clock (mutate f st) = ex_clock st"
  "ex_calls (mutate f st) = ex_calls st"
  by (simp_all add: mutate_def)

lemma tick_simps:
  "ex_job (tick st) = ex_job st"
  "ex_history (tick st) = ex_history st"
  "ex_clock (tick st) = ex_clock st + 1"
  "ex_calls (tick st) = ex_calls st"
  by (simp_all add: tick_def)

lemma append_result_simps:
  "ex_job (append_result x st) = (ex_job st)\<lparr>results := results (ex_job st) @ [x]\<rparr>"
  "ex_history (append_result x st) =
     ex_history st @ [(ex_job st)\<lparr>results := results (ex_job st) @ [x]\<rparr>]"
  "ex_clock (append_result x st) = ex_clock st"
  "ex_calls (append_result x st) = ex_calls st"
  by (simp_all add: append_result_def mutate_simps)

lemma yaml_header_nonempty: "yaml_header m ts \<noteq> []"
  by (simp add: yaml_header_def)

lemma rendered_nonempty: "get_machine_cloud_init d ts m u os c \<noteq> []"
  by (simp add: get_machine_cloud_init_def generate_machine_cloud_init_def
      Let_def yaml_header_nonempty)

lemma deploy_one_ok:
  assumes "env_deploy e (length (ex_calls st)) (system_id m)
             (deploy_data_of e cfg (ex_clock st) m) = Inr res"
  shows "deploy_one e cfg m st =
     \<lparr>ex_job = (ex_job st)\<lparr>results := results (ex_job st) @
                   [deployed_entry m (distro_series cfg) (os_type_of (distro_series cfg))
                      (env_now e (clock_after_render cfg (ex_clock st))) res],
                 successful_deployments := successful_deployments (ex_job st) + 1\<rparr>,
      ex_clock = clock_after_render cfg (ex_clock st) + 1,
      ex_calls = ex_calls st @ [(system_id m, deploy_data_of e cfg (ex_clock st) m)],
      ex_history = ex_history st @
        [(ex_job st)\<lparr>results := results (ex_job st) @
                   [deployed_entry m (distro_series cfg) (os_type_of (distro_series cfg))
                      (env_now e (clock_after_render cfg (ex_clock st))) res]\<rparr>,
         (ex_job st)\<lparr>results := results (ex_job st) @
                   [deployed_entry m (distro_series cfg) (os_type_of (distro_series cfg))
                      (env_now e (clock_after_render cfg (ex_clock st))) res],
                 successful_deployments := successful_deployments (ex_job st) + 1\<rparr>]\<rparr>"
  using assms
  by (cases "truthy (user_data cfg)")
     (simp_all add: deploy_one_def deploy_data_of_def clock_after_render_def Let_def
        rendered_nonempty mutate_def tick_def append_result_def truthy_def split: option.splits)

lemma deploy_one_err:
  assumes "env_deploy e (length (ex_calls st)) (system_id m)
             (deploy_data_of e cfg (ex_clock st) m) = Inl err"
  shows "deploy_one e cfg m st =
     \<lparr>ex_job = (ex_job st)\<lparr>results := results (ex_job st) @ [failed_entry m err],
                 failed_deployments := failed_deployments (ex_job st) + 1\<rparr>,
      ex_clock = clock_after_render cfg (ex_clock st),
      ex_calls = ex_calls st @ [(system_id m, deploy_data_of e cfg (ex_clock st) m)],
      ex_history = ex_history st @
        [(ex_job st)\<lparr>results := results (ex_job st) @ [failed_entry m err]\<rparr>,
         (ex_job st)\<lparr>results := results (ex_job st) @ [failed_entry m err],
                 failed_deployments := failed_deployments (ex_job st) + 1\<rparr>]\<rparr>"
  using assms
  by (cases "truthy (user_data cfg)")
     (simp_all add: deploy_one_def deploy_data_of_def clock_after_render_def Let_def
        rendered_nonempty mutate_def tick_def append_result_def truthy_def split: option.splits)

lemma count_status_append:
  "count_status s (j\<lparr>results := results j @ [x]\<rparr>) =
     count_status s j + (if res_status x = s then 1 else 0)"
  by (simp add: count_status_def)

lemma count_status_upd [simp]:
  "count_status s (j\<lparr>successful_deployments := a\<rparr>) = count_status s j"
  "count_status s (j\<lparr>failed_deployments := b\<rparr>) = count_status s j"
  "count_status s (j\<lparr>status := c\<rparr>) = count_status s j"
  "count_status s (j\<lparr>total_machines := d\<rparr>) = count_status s j"
  "count_status s (j\<lparr>machines := g\<rparr>) = count_status s j"
  "count_status s (j\<lparr>updated_at := h\<rparr>) = count_status s j"
  "count_status s (j\<lparr>completed_at := i\<rparr>) = count_status s j"
  "count_status s (j\<lparr>job_error := k\<rparr>) = count_status s j"
  by (simp_all add: count_status_def)

lemma running_counters_ok:
  "status j = ''running'' \<Longrightarrow>
   successful_deployments j + failed_deployments j \<le> total_machines j \<Longrightarrow> counters_ok j"
  by (simp add: counters_ok_def terminal_def)

lemma deploy_loop_counters:
  assumes "\<forall>j\<in>set (ex_history st). counters_ok j"
    and "status (ex_job st) = ''running''"
    and "successful_deployments (ex_job st) + failed_deployments (ex_job st) + length ms =
         total_machines (ex_job st)"
    and "count_status ''deployed'' (ex_job st) = successful_deployments (ex_job st)"
  shows "(\<forall>j\<in>set (ex_history (deploy_loop e cfg ms st)). counters_ok j) \<and>
         status (ex_job (deploy_loop e cfg ms st)) = ''running'' \<and>
         successful_deployments (ex_job (deploy_loop e cfg ms st)) +
           failed_deployments (ex_job (deploy_loop e cfg ms st)) =
           total_machines (ex_job (deploy_loop e cfg ms st)) \<and>
         count_status ''deployed'' (ex_job (deploy_loop e cfg ms st)) =
           successful_deployments (ex_job (deploy_loop e cfg ms st)) \<and>
         count_status ''skipped'' (ex_job (deploy_loop e cfg ms st)) =
           count_status ''skipped'' (ex_job st)"
  using assms
proof (induction ms arbitrary: st)
  case Nil
  then show ?case by simp
next
  case (Cons m ms)
  let ?st' = "deploy_one e cfg m st"
  have step: "(\<forall>j\<in>set (ex_history ?st'). counters_ok j) \<and>
      status (ex_job ?st') = ''running'' \<and>
      successful_deployments (ex_job ?st') + failed_deployments (ex_job ?st') + length ms =
        total_machines (ex_job ?st') \<and>
      count_status ''deployed'' (ex_job ?st') = successful_deployments (ex_job ?st') \<and>
      count_status ''skipped'' (ex_job ?st') = count_status ''skipped'' (ex_job st)"
  proof (cases "env_deploy e (length (ex_calls st)) (system_id m)
                  (deploy_data_of e cfg (ex_clock st) m)")
    case (Inl err)
    show ?thesis
      using Cons.prems
      by (simp add: deploy_one_err [OF Inl] running_counters_ok count_status_append
          failed_entry_def)
  next
    case (Inr res)
    show ?thesis
      using Cons.prems
      by (simp add: deploy_one_ok [OF Inr] running_counters_ok count_status_append
          deployed_entry_def)
  qed
  from Cons.IH [of ?st'] step show ?case by simp
qed

lemma resolve_targets_counters:
  assumes "\<forall>j\<in>set (ex_history st). counters_ok j"
    and "status (ex_job st) = ''running''"
    and "successful_deployments (ex_job st) = 0" and "failed_deployments (ex_job st) = 0"
    and "total_machines (ex_job st) = 0" and "count_status ''deployed'' (ex_job st) = 0"
  shows "(\<forall>j\<in>set (ex_history (fst (resolve_targets fleet ids (st, acc)))). counters_ok j) \<and>
         status (ex_job (fst (resolve_targets fleet ids (st, acc)))) = ''running'' \<and>
         successful_deployments (ex_job (fst (resolve_targets fleet ids (st, acc)))) = 0 \<and>
         failed_deployments (ex_job (fst (resolve_targets fleet ids (st, acc)))) = 0 \<and>
         total_machines (ex_job (fst (resolve_targets fleet ids (st, acc)))) = 0 \<and>
         count_status ''deployed'' (ex_job (fst (resolve_targets fleet ids (st, acc)))) = 0 \<and>
         count_status ''skipped'' (ex_job (fst (resolve_targets fleet ids (st, acc)))) =
           count_status ''skipped'' (ex_job st) + length (not_ready_ids fleet ids)"
  using assms
proof (induction ids arbitrary: st acc)
  case Nil
  then show ?case by (simp add: not_ready_ids_def)
next
  case (Cons sid rest)
  show ?case
  proof (cases "find (\<lambda>m. system_id m = sid) fleet")
    case None
    let ?st' = "append_result (not_found_entry sid) st"
    have "(\<forall>j\<in>set (ex_history ?st'). counters_ok j) \<and> status (ex_job ?st') = ''running'' \<and>
        successful_deployments (ex_job ?st') = 0 \<and> failed_deployments (ex_job ?st') = 0 \<and>
        total_machines (ex_job ?st') = 0 \<and> count_status ''deployed'' (ex_job ?st') = 0 \<and>
        count_status ''skipped'' (ex_job ?st') = count_status ''skipped'' (ex_job st)"
      using Cons.prems
      by (simp add: append_result_simps running_counters_ok count_status_append
          not_found_entry_def)
    with Cons.IH [of ?st' acc] show ?thesis
      by (simp add: None not_ready_ids_def)
  next
    case (Some m)
    show ?thesis
    proof (cases "status_name m = ''Ready''")
      case True
      with Cons.IH [of st "acc @ [m]"] Cons.prems show ?thesis
        by (simp add: Some not_ready_ids_def)
    next
      case False
      let ?st' = "append_result (skipped_entry m) st"
      have "(\<forall>j\<in>set (ex_history ?st'). counters_ok j) \<and> status (ex_job ?st') = ''running'' \<and>
          successful_deployments (ex_job ?st') = 0 \<and> failed_deployments (ex_job ?st') = 0 \<and>
          total_machines (ex_job ?st') = 0 \<and> count_status ''deployed'' (ex_job ?st') = 0 \<and>
          count_status ''skipped'' (ex_job ?st') = count_status ''skipped'' (ex_job st) + 1"
        using Cons.prems
        by (simp add: append_result_simps running_counters_ok count_status_append
            skipped_entry_def)
      with Cons.IH [of ?st' acc] False show ?thesis
        by (simp add: Some not_ready_ids_def)
    qed
  qed
qed

lemma resolve_targets_plain:
  "ex_calls (fst (resolve_targets fleet ids (st, acc))) = ex_calls st \<and>
   ex_clock (fst (resolve_targets fleet ids (st, acc))) = ex_clock st \<and>
   snd (resolve_targets fleet ids (st, acc)) = acc @ ready_targets fleet ids"
  by (induction ids arbitrary: st acc)
     (auto simp: ready_targets_def append_result_simps split: option.splits)

lemma finish_counters:
  assumes "\<forall>j\<in>set (ex_history st). counters_ok j"
    and "successful_deployments (ex_job st) + failed_deployments (ex_job st) =
         total_machines (ex_job st)"
    and "count_status ''deployed'' (ex_job st) = successful_deployments (ex_job st)"
  shows "(\<forall>j\<in>set (ex_history (finish e st)). counters_ok j) \<and>
         status (ex_job (finish e st)) \<in> {''completed'', ''completed_with_errors''} \<and>
         last (ex_history (finish e st)) = ex_job (finish e st) \<and>
         count_status ''skipped'' (ex_job (finish e st)) = count_status ''skipped'' (ex_job st)"
  using assms
  by (simp add: finish_def Let_def mutate_simps tick_simps counters_ok_def)

lemma abort_counters:
  assumes "\<forall>j\<in>set (ex_history st). counters_ok j"
    and "successful_deployments (ex_job st) = 0" and "failed_deployments (ex_job st) = 0"
    and "total_machines (ex_job st) = 0" and "count_status ''deployed'' (ex_job st) = 0"
  shows "(\<forall>j\<in>set (ex_history (abort e err st)). counters_ok j) \<and>
         status (ex_job (abort e err st)) = ''failed'' \<and>
         last (ex_history (abort e err st)) = ex_job (abort e err st)"
  using assms
  by (simp add: abort_def Let_def mutate_simps tick_simps counters_ok_def)

lemma run_job_failed:
  "env_fetch e = Inl err \<Longrightarrow> run_job e ids cfg j = abort e err (started e j)"
  by (simp add: run_job_def started_def Let_def mutate_simps)

lemma run_job_fetched:
  "env_fetch e = Inr fleet \<Longrightarrow>
   run_job e ids cfg j =
     finish e (deploy_loop e cfg (post_filters cfg (ready_targets fleet ids))
       (mutate (\<lambda>j. j\<lparr>machines := map (\<lambda>m. (system_id m, host_or_fqdn m))
                                      (post_filters cfg (ready_targets fleet ids))\<rparr>)
          (mutate (\<lambda>j. j\<lparr>total_machines :=
                            length (post_filters cfg (ready_targets fleet ids))\<rparr>)
             (fst (resolve_targets fleet ids (started e j, []))))))"
  using resolve_targets_plain [of fleet ids "started e j" "[]"]
  by (simp add: run_job_def started_def Let_def mutate_simps split_beta)

lemma started_counters:
  "(\<forall>j\<in>set (ex_history (started e (new_job jid now rv r))). counters_ok j) \<and>
   status (ex_job (started e (new_job jid now rv r))) = ''running'' \<and>
   successful_deployments (ex_job (started e (new_job jid now rv r))) = 0 \<and>
   failed_deployments (ex_job (started e (new_job jid now rv r))) = 0 \<and>
   total_machines (ex_job (started e (new_job jid now rv r))) = 0 \<and>
   count_status ''deployed'' (ex_job (started e (new_job jid now rv r))) = 0 \<and>
   count_status ''skipped'' (ex_job (started e (new_job jid now rv r))) = 0"
  by (simp add: started_def mutate_simps tick_simps new_job_def counters_ok_def terminal_def
      count_status_def)

lemma run_job_counters:
  "(\<forall>j\<in>set (ex_history (run_job e ids cfg (new_job jid now rv r))). counters_ok j) \<and>
   terminal (ex_job (run_job e ids cfg (new_job jid now rv r))) \<and>
   last (ex_history (run_job e ids cfg (new_job jid now rv r))) =
     ex_job (run_job e ids cfg (new_job jid now rv r)) \<and>
   (\<forall>fleet. env_fetch e = Inr fleet \<longrightarrow>
      count_status ''skipped'' (ex_job (run_job e ids cfg (new_job jid now rv r))) =
        length (not_ready_ids fleet ids))"
proof (cases "env_fetch e")
  case (Inl err)
  from started_counters [of e jid now rv r] abort_counters [of "started e (new_job jid now rv r)" e err]
  show ?thesis
    by (simp add: run_job_failed [OF Inl] Inl terminal_def)
next
  case (Inr fleet)
  let ?s = "started e (new_job jid now rv r)"
  let ?r = "fst (resolve_targets fleet ids (?s, []))"
  let ?T = "post_filters cfg (ready_targets fleet ids)"
  let ?m = "mutate (\<lambda>j. j\<lparr>machines := map (\<lambda>m. (system_id m, host_or_fqdn m)) ?T\<rparr>)
              (mutate (\<lambda>j. j\<lparr>total_machines := length ?T\<rparr>) ?r)"
  from started_counters [of e jid now rv r]
  have r: "(\<forall>j\<in>set (ex_history ?r). counters_ok j) \<and> status (ex_job ?r) = ''running'' \<and>
      successful_deployments (ex_job ?r) = 0 \<and> failed_deployments (ex_job ?r) = 0 \<and>
      total_machines (ex_job ?r) = 0 \<and> count_status ''deployed'' (ex_job ?r) = 0 \<and>
      count_status ''skipped'' (ex_job ?r) = length (not_ready_ids fleet ids)"
    using resolve_targets_counters [of ?s fleet ids "[]"] by simp
  have m: "(\<forall>j\<in>set (ex_history ?m). counters_ok j) \<and> status (ex_job ?m) = ''running'' \<and>
      successful_deployments (ex_job ?m) + failed_deployments (ex_job ?m) + length ?T =
        total_machines (ex_job ?m) \<and>
      count_status ''deployed'' (ex_job ?m) = successful_deployments (ex_job ?m) \<and>
      count_status ''skipped'' (ex_job ?m) = length (not_ready_ids fleet ids)"
    using r by (simp add: mutate_simps running_counters_ok)
  from m deploy_loop_counters [of ?m ?T e cfg]
  have l: "(\<forall>j\<in>set (ex_history (deploy_loop e cfg ?T ?m)). counters_ok j) \<and>
      successful_deployments (ex_job (deploy_loop e cfg ?T ?m)) +
        failed_deployments (ex_job (deploy_loop e cfg ?T ?m)) =
        total_machines (ex_job (deploy_loop e cfg ?T ?m)) \<and>
      count_status ''deployed'' (ex_job (deploy_loop e cfg ?T ?m)) =
        successful_deployments (ex_job (deploy_loop e cfg ?T ?m)) \<and>
      count_status ''skipped'' (ex_job (deploy_loop e cfg ?T ?m)) =
        length (not_ready_ids fleet ids)"
    by simp
  let ?l = "deploy_loop e cfg ?T ?m"
  from l have l1: "\<forall>j\<in>set (ex_history ?l). counters_ok j"
    and l2: "successful_deployments (ex_job ?l) + failed_deployments (ex_job ?l) =
             total_machines (ex_job ?l)"
    and l3: "count_status ''deployed'' (ex_job ?l) = successful_deployments (ex_job ?l)"
    and l4: "count_status ''skipped'' (ex_job ?l) = length (not_ready_ids fleet ids)"
    by blast+
  have rj: "run_job e ids cfg (new_job jid now rv r) = finish e ?l"
    by (rule run_job_fetched [OF Inr])
  from finish_counters [OF l1 l2 l3, of e] l4
  show ?thesis
    unfolding rj by (auto simp: terminal_def Inr)
qed

lemma resolve_targets_job:
  "ex_job (fst (resolve_targets fleet ids (st, acc))) =
     (ex_job st)\<lparr>results := results (ex_job st) @ pre_entries fleet ids\<rparr>"
  by (induction ids arbitrary: st acc)
     (auto simp: pre_entries_def append_result_simps split: option.splits)

lemma deploy_loop_run:
  "ex_job (deploy_loop e cfg ms st) =
     (ex_job st)\<lparr>results := results (ex_job st) @
                    loop_entries e cfg (ex_clock st) (length (ex_calls st)) ms,
                 successful_deployments := successful_deployments (ex_job st) +
                    count_entries ''deployed''
                      (loop_entries e cfg (ex_clock st) (length (ex_calls st)) ms),
                 failed_deployments := failed_deployments (ex_job st) +
                    count_entries ''failed''
                      (loop_entries e cfg (ex_clock st) (length (ex_calls st)) ms)\<rparr> \<and>
   ex_calls (deploy_loop e cfg ms st) =
     ex_calls st @ loop_calls e cfg (ex_clock st) (length (ex_calls st)) ms \<and>
   ex_clock (deploy_loop e cfg ms st) =
     loop_clock e cfg (ex_clock st) (length (ex_calls st)) ms"
proof (induction ms arbitrary: st)
  case Nil
  show ?case by (simp add: count_entries_def)
next
  case (Cons m ms)
  show ?case
  proof (cases "env_deploy e (length (ex_calls st)) (system_id m)
                  (deploy_data_of e cfg (ex_clock st) m)")
    case (Inl err)
    show ?thesis
      using Cons.IH [of "deploy_one e cfg m st"]
      by (simp add: deploy_one_err [OF Inl] Inl count_entries_def failed_entry_def)
  next
    case (Inr res)
    show ?thesis
      using Cons.IH [of "deploy_one e cfg m st"]
      by (simp add: deploy_one_ok [OF Inr] Inr count_entries_def deployed_entry_def)
  qed
qed

lemma finish_job:
  "ex_job (finish e st) =
     (ex_job st)\<lparr>status := (if failed_deployments (ex_job st) = 0 then ''completed''
                             else ''completed_with_errors''),
                 completed_at := Some (env_now e (ex_clock st)),
                 updated_at := env_now e (ex_clock st + 1)\<rparr> \<and>
   ex_calls (finish e st) = ex_calls st"
  by (simp add: finish_def Let_def mutate_simps tick_simps)

lemma started_job:
  "ex_job (started e j) = j\<lparr>status := ''running'', updated_at := env_now e 0\<rparr> \<and>
   ex_clock (started e j) = 1 \<and> ex_calls (started e j) = []"
  by (simp add: started_def mutate_simps tick_simps)

text \<open>The job record and the deploy requests at the end of a run whose snapshot was fetched.\<close>

lemma run_job_result:
  assumes "env_fetch e = Inr fleet"
  shows "ex_job (run_job e ids cfg j) =
     j\<lparr>status := (if failed_deployments j +
                      count_entries ''failed''
                        (loop_entries e cfg 1 0 (post_filters cfg (ready_targets fleet ids))) = 0
                   then ''completed'' else ''completed_with_errors''),
       updated_at := env_now e
          (loop_clock e cfg 1 0 (post_filters cfg (ready_targets fleet ids)) + 1),
       completed_at := Some (env_now e
          (loop_clock e cfg 1 0 (post_filters cfg (ready_targets fleet ids)))),
       machines := map (\<lambda>m. (system_id m, host_or_fqdn m))
                     (post_filters cfg (ready_targets fleet ids)),
       total_machines := length (post_filters cfg (ready_targets fleet ids)),
       successful_deployments := successful_deployments j +
          count_entries ''deployed''
            (loop_entries e cfg 1 0 (post_filters cfg (ready_targets fleet ids))),
       failed_deployments := failed_deployments j +
          count_entries ''failed''
            (loop_entries e cfg 1 0 (post_filters cfg (ready_targets fleet ids))),
       results := results j @ pre_entries fleet ids @
          loop_entries e cfg 1 0 (post_filters cfg (ready_targets fleet ids))\<rparr> \<and>
   ex_calls (run_job e ids cfg j) =
     loop_calls e cfg 1 0 (post_filters cfg (ready_targets fleet ids))"
proof -
  let ?T = "post_filters cfg (ready_targets fleet ids)"
  let ?m = "mutate (\<lambda>j. j\<lparr>machines := map (\<lambda>m. (system_id m, host_or_fqdn m)) ?T\<rparr>)
              (mutate (\<lambda>j. j\<lparr>total_machines := length ?T\<rparr>)
                 (fst (resolve_targets fleet ids (started e j, []))))"
  have c: "ex_clock ?m = 1" "ex_calls ?m = []"
    using resolve_targets_plain [of fleet ids "started e j" "[]"]
    by (simp_all add: mutate_simps started_job)
  have j: "ex_job ?m =
     j\<lparr>status := ''running'', updated_at := env_now e 0,
       results := results j @ pre_entries fleet ids,
       total_machines := length ?T,
       machines := map (\<lambda>m. (system_id m, host_or_fqdn m)) ?T\<rparr>"
    by (simp add: mutate_simps resolve_targets_job started_job)
  show ?thesis
    unfolding run_job_fetched [OF assms]
    using deploy_loop_run [of e cfg ?T ?m]
    by (simp add: finish_job c j)
qed

lemma calm_fetch: "env_fetch (calm_env fleet) = Inr fleet"
  by (simp add: calm_env_def)

lemma calm_deploy: "env_deploy (calm_env fleet) k sid d = Inr ''ok''"
  by (simp add: calm_env_def)

lemma manual_config:
  "config (fresh_job (manual_request ids tgs snippet)) =
     \<lparr>distro_series = ''jammy'', user_data = snippet, tags = tgs, pool = None, count = None,
      auto_select = Some False, tag_match_mode = Some ''all''\<rparr>"
  by (simp add: fresh_job_def new_job_def manual_request_def or_else_def)

lemma fresh_job_fields:
  "results (fresh_job r) = []" "successful_deployments (fresh_job r) = 0"
  "failed_deployments (fresh_job r) = 0"
  by (simp_all add: fresh_job_def new_job_def)

lemma find_gpu_fleet:
  "find (\<lambda>m. system_id m = ''m1'') gpu_fleet = Some (mk_machine ''m1'' ''gpu-1'' ''Ready'' [''gpu''])"
  "find (\<lambda>m. system_id m = ''m3'') gpu_fleet = Some (mk_machine ''m3'' ''gpu-2'' ''Deployed'' [''gpu''])"
  "find (\<lambda>m. system_id m = ''ghost'') gpu_fleet = None"
  by (simp_all add: gpu_fleet_def mk_machine_def)

lemma mk_machine_fields:
  "system_id (mk_machine sid h st tgs) = sid" "status_name (mk_machine sid h st tgs) = st"
  "tag_names (mk_machine sid h st tgs) = tgs" "hostname (mk_machine sid h st tgs) = Some h"
  "pool_name (mk_machine sid h st tgs) = None"
  by (simp_all add: mk_machine_def)

lemma post_filters_plain:
  "post_filters \<lparr>distro_series = s, user_data = u, tags = None, pool = None, count = None,
      auto_select = a, tag_match_mode = t\<rparr> ms = ms"
  by (simp add: post_filters_def filter_tags_def filter_pool_def limit_count_def truthy_def)

lemma skipped_run_job:
  "status (ex_job skipped_run) = ''completed'' \<and>
   total_machines (ex_job skipped_run) = 0 \<and>
   successful_deployments (ex_job skipped_run) = 0 \<and>
   failed_deployments (ex_job skipped_run) = 0 \<and>
   results (ex_job skipped_run) =
     [skipped_entry (mk_machine ''m3'' ''gpu-2'' ''Deployed'' [''gpu''])]"
  unfolding skipped_run_def
  by (simp add: run_job_result [OF calm_fetch] manual_config fresh_job_fields
      ready_targets_def pre_entries_def find_gpu_fleet mk_machine_fields post_filters_plain
      count_entries_def)

text \<open>
  Claim C1, as stated, fails: a job whose only target is the deployed machine \<open>m3\<close>
  ends \<open>completed\<close> with one \<open>skipped\<close> entry and \<open>total_machines = 0\<close>, so the
  entries outnumber the total.
\<close>

theorem job_total_counterexample:
  "status (ex_job skipped_run) = ''completed'' \<and>
   total_machines (ex_job skipped_run) = 0 \<and>
   map res_status (results (ex_job skipped_run)) = [''skipped''] \<and>
   count_status ''deployed'' (ex_job skipped_run) + count_status ''failed'' (ex_job skipped_run) +
     count_status ''skipped'' (ex_job skipped_run) = 1"
  by (simp add: skipped_run_job count_status_def skipped_entry_def)

text \<open>
  Claim C1, amended. In every run of a newly created job, at every moment
  \<open>successful_deployments + failed_deployments \<le> total_machines\<close>; once the status is
  terminal the two counters add up to \<open>total_machines\<close> and the \<open>deployed\<close> entries
  number \<open>successful_deployments\<close>; the run ends in a terminal status; and the
  \<open>skipped\<close> entries, one for each target that is present but not \<open>Ready\<close>, are
  recorded outside \<open>total_machines\<close>.
\<close>

theorem job_counters_invariant:
  "(\<forall>j\<in>set (ex_history (run_job e ids cfg (new_job jid now rv r))).
      successful_deployments j + failed_deployments j \<le> total_machines j \<and>
      (status j \<in> {''completed'', ''completed_with_errors'', ''failed''} \<longrightarrow>
         successful_deployments j + failed_deployments j = total_machines j \<and>
         count_status ''deployed'' j = successful_deployments j)) \<and>
   status (ex_job (run_job e ids cfg (new_job jid now rv r)))
     \<in> {''completed'', ''completed_with_errors'', ''failed''} \<and>
   last (ex_history (run_job e ids cfg (new_job jid now rv r))) =
     ex_job (run_job e ids cfg (new_job jid now rv r)) \<and>
   (\<forall>fleet. env_fetch e = Inr fleet \<longrightarrow>
      count_status ''skipped'' (ex_job (run_job e ids cfg (new_job jid now rv r))) =
        length (not_ready_ids fleet ids))"
  using run_job_counters [of e ids cfg jid now rv r]
  unfolding counters_ok_def terminal_def by blast

lemma mixed_run_job:
  "status (ex_job mixed_run) = ''completed'' \<and>
   total_machines (ex_job mixed_run) = 1 \<and>
   successful_deployments (ex_job mixed_run) = 1 \<and>
   failed_deployments (ex_job mixed_run) = 0 \<and>
   map res_status (results (ex_job mixed_run)) = [''skipped'', ''deployed'']"
  unfolding mixed_run_def
  by (simp add: run_job_result [OF calm_fetch] manual_config fresh_job_fields
      ready_targets_def pre_entries_def find_gpu_fleet mk_machine_fields post_filters_plain
      count_entries_def calm_deploy skipped_entry_def deployed_entry_def)

lemma run_history_nonempty: "ex_history (run_job e ids cfg j) \<noteq> []"
  by (cases "env_fetch e")
     (simp_all add: run_job_failed run_job_fetched abort_def finish_def Let_def mutate_simps
        tick_simps)

theorem job_counters_invariant_witness:
  "ex_job mixed_run \<in> set (ex_history mixed_run) \<and>
   status (ex_job mixed_run) = ''completed'' \<and>
   successful_deployments (ex_job mixed_run) + failed_deployments (ex_job mixed_run) =
     total_machines (ex_job mixed_run) \<and>
   total_machines (ex_job mixed_run) = 1 \<and>
   count_status ''deployed'' (ex_job mixed_run) = successful_deployments (ex_job mixed_run) \<and>
   count_status ''skipped'' (ex_job mixed_run) = 1 \<and>
   map res_status (results (ex_job mixed_run)) = [''skipped'', ''deployed'']"
proof -
  have m: "mixed_run = run_job (calm_env gpu_fleet) [''m1'', ''m3'']
       (config (fresh_job (manual_request [''m1'', ''m3''] None None)))
       (new_job ''job-0-1'' (\<lambda>k. ''t'') None (manual_request [''m1'', ''m3''] None None))"
    by (simp add: mixed_run_def fresh_job_def)
  note inv = job_counters_invariant [of "calm_env gpu_fleet" "[''m1'', ''m3'']"
      "config (fresh_job (manual_request [''m1'', ''m3''] None None))"
      "''job-0-1''" "\<lambda>k. ''t''" None "manual_request [''m1'', ''m3''] None None", folded m]
  have ne: "ex_history mixed_run \<noteq> []"
    unfolding mixed_run_def by (rule run_history_nonempty)
  have h: "ex_job mixed_run \<in> set (ex_history mixed_run)"
    using inv ne last_in_set [OF ne] by simp
  have n: "length (not_ready_ids gpu_fleet [''m1'', ''m3'']) = 1"
    by (simp add: not_ready_ids_def find_gpu_fleet mk_machine_fields)
  have sk: "count_status ''skipped'' (ex_job mixed_run) = 1"
    using inv n calm_fetch [of gpu_fleet] by simp
  show ?thesis
    using inv h sk mixed_run_job by simp
qed

text \<open>
  Claim C2 at the failing input: a job whose only target \<open>ghost\<close> is not in the
  snapshot records the outcome \<open>failed\<close> (\<open>Machine not found\<close>), leaves
  \<open>failed_deployments\<close> at zero and ends \<open>completed\<close>, where the claim requires
  \<open>completed_with_errors\<close>.
\<close>

theorem not_found_leaves_job_completed:
  "map res_status (results (ex_job ghost_run)) = [''failed''] \<and>
   map reason (results (ex_job ghost_run)) = [Some ''Machine not found''] \<and>
   failed_deployments (ex_job ghost_run) = 0 \<and>
   status (ex_job ghost_run) = ''completed''"
  unfolding ghost_run_def
  by (simp add: run_job_result [OF calm_fetch] manual_config fresh_job_fields
      ready_targets_def pre_entries_def find_gpu_fleet mk_machine_fields post_filters_plain
      count_entries_def not_found_entry_def)

text \<open>
  Claim C7 at the failing input: the job configuration carries the tags \<open>gpu\<close> and
  \<open>nvme\<close> with match mode \<open>all\<close>; the selection filter in mode \<open>all\<close> rejects the
  machine \<open>m1\<close>, which has the tag \<open>gpu\<close> only, while the filters of the execution
  keep it, and the run deploys it.
\<close>

theorem execution_tag_filter_ignores_match_mode:
  "tag_match_mode (config (fresh_job (manual_request [''m1''] (Some [''gpu'', ''nvme'']) None))) =
     Some ''all'' \<and>
   tagged_machines ''all'' [''gpu'', ''nvme''] [mk_machine ''m1'' ''gpu-1'' ''Ready'' [''gpu'']] = [] \<and>
   post_filters (config (fresh_job (manual_request [''m1''] (Some [''gpu'', ''nvme'']) None)))
     [mk_machine ''m1'' ''gpu-1'' ''Ready'' [''gpu'']] =
     [mk_machine ''m1'' ''gpu-1'' ''Ready'' [''gpu'']] \<and>
   map fst (ex_calls partial_tag_run) = [''m1''] \<and>
   map res_status (results (ex_job partial_tag_run)) = [''deployed'']"
proof -
  have p: "post_filters (config (fresh_job (manual_request [''m1''] (Some [''gpu'', ''nvme'']) None)))
     [mk_machine ''m1'' ''gpu-1'' ''Ready'' [''gpu'']] =
     [mk_machine ''m1'' ''gpu-1'' ''Ready'' [''gpu'']]"
    by (simp add: manual_config post_filters_def filter_tags_def filter_pool_def
        limit_count_def truthy_def mk_machine_fields)
  have r: "ready_targets gpu_fleet [''m1''] = [mk_machine ''m1'' ''gpu-1'' ''Ready'' [''gpu'']]"
    by (simp add: ready_targets_def find_gpu_fleet mk_machine_fields)
  have t: "tagged_machines ''all'' [''gpu'', ''nvme''] [mk_machine ''m1'' ''gpu-1'' ''Ready'' [''gpu'']] = []"
    by (simp add: tagged_machines_def tag_match_def mk_machine_fields)
  have c: "map fst (ex_calls partial_tag_run) = [''m1''] \<and>
           map res_status (results (ex_job partial_tag_run)) = [''deployed'']"
    unfolding partial_tag_run_def
    by (simp add: run_job_result [OF calm_fetch] r p fresh_job_fields pre_entries_def
        find_gpu_fleet mk_machine_fields calm_deploy deployed_entry_def)
  show ?thesis
    using p t c by (simp add: manual_config)
qed

lemma loop_calls_ids: "map fst (loop_calls e cfg clk k ms) = map system_id ms"
  by (induction ms arbitrary: clk k) (auto split: sum.splits)

lemma loop_entries_ids: "map machine_id (loop_entries e cfg clk k ms) = map system_id ms"
  by (induction ms arbitrary: clk k)
     (auto simp: deployed_entry_def failed_entry_def split: sum.splits)

text \<open>
  Claim C9, as stated, fails: a job without a user snippet deploys its ready target
  \<open>m1\<close> without calling the generator, and the deploy request carries no configuration.
\<close>

theorem deploy_without_render_counterexample:
  "user_data (config (fresh_job (manual_request [''m1'', ''m3''] None None))) = None \<and>
   ex_calls mixed_run =
     [(''m1'', \<lparr>op = ''deploy'', dd_distro_series = ''jammy'', dd_user_data = None\<rparr>)]"
  unfolding mixed_run_def
  by (simp add: run_job_result [OF calm_fetch] manual_config
      ready_targets_def find_gpu_fleet mk_machine_fields post_filters_plain
      calm_deploy deploy_data_of_def truthy_def)

text \<open>
  Claim C9, amended. After a successful fetch, with \<open>targets\<close> the machines named by the
  job that are present and \<open>Ready\<close> and pass the filters of the job, in order: the deploy
  requests of the run are exactly \<open>loop_calls\<close> on the targets, one request for each
  target, carrying the configuration rendered by the generator when the job has a
  non-empty user snippet and none otherwise; the entries written by the loop are exactly
  \<open>loop_entries\<close> on the targets, one entry for each target, \<open>deployed\<close> with series, OS
  family, time stamp and result when the request succeeds, \<open>failed\<close> with the error text
  when it raises; and an error does not stop the loop.
\<close>

theorem deploy_loop_spec:
  assumes "env_fetch e = Inr fleet"
  shows "ex_calls (run_job e ids cfg j) =
           loop_calls e cfg 1 0 (post_filters cfg (ready_targets fleet ids)) \<and>
         results (ex_job (run_job e ids cfg j)) =
           results j @ pre_entries fleet ids @
           loop_entries e cfg 1 0 (post_filters cfg (ready_targets fleet ids)) \<and>
         map fst (ex_calls (run_job e ids cfg j)) =
           map system_id (post_filters cfg (ready_targets fleet ids)) \<and>
         map machine_id (loop_entries e cfg 1 0 (post_filters cfg (ready_targets fleet ids))) =
           map system_id (post_filters cfg (ready_targets fleet ids))"
  using run_job_result [OF assms, of ids cfg j]
  by (simp add: loop_calls_ids loop_entries_ids)

lemma flaky_fetch: "env_fetch (flaky_env fleet) = Inr fleet"
  by (simp add: flaky_env_def)

theorem deploy_loop_spec_witness:
  "env_fetch (flaky_env gpu_fleet) = Inr gpu_fleet \<and>
   ex_calls flaky_run =
     [(''m1'', \<lparr>op = ''deploy'', dd_distro_series = ''jammy'',
               dd_user_data = Some (get_machine_cloud_init (env_dump (flaky_env gpu_fleet)) ''t''
                 (mk_machine ''m1'' ''gpu-1'' ''Ready'' [''gpu'']) ''- ls'' ''ubuntu'' None)\<rparr>),
      (''m4'', \<lparr>op = ''deploy'', dd_distro_series = ''jammy'',
               dd_user_data = Some (get_machine_cloud_init (env_dump (flaky_env gpu_fleet)) ''t''
                 (mk_machine ''m4'' ''gpu-3'' ''Ready'' [''gpu'', ''nvme'']) ''- ls'' ''ubuntu''
                 None)\<rparr>)] \<and>
   results (ex_job flaky_run) =
     [failed_entry (mk_machine ''m1'' ''gpu-1'' ''Ready'' [''gpu'']) ''500: MAAS API Error'',
      deployed_entry (mk_machine ''m4'' ''gpu-3'' ''Ready'' [''gpu'', ''nvme'']) ''jammy''
        ''ubuntu'' ''t'' ''ok'']"
proof -
  have f: "env_fetch (flaky_env gpu_fleet) = Inr gpu_fleet" by (rule flaky_fetch)
  have r: "post_filters (config (fresh_job (manual_request [''m1'', ''m4''] None (Some ''- ls''))))
             (ready_targets gpu_fleet [''m1'', ''m4'']) =
           [mk_machine ''m1'' ''gpu-1'' ''Ready'' [''gpu''],
            mk_machine ''m4'' ''gpu-3'' ''Ready'' [''gpu'', ''nvme'']]"
    by (simp add: manual_config post_filters_plain ready_targets_def gpu_fleet_def
        mk_machine_def)
  have p: "pre_entries gpu_fleet [''m1'', ''m4''] = []"
    by (simp add: pre_entries_def gpu_fleet_def mk_machine_def)
  have o: "os_type_of ''jammy'' = ''ubuntu''"
    by (simp add: os_type_of_def is_rocky_os_def lower_def lower_char_def upper_letters_def
        lower_letters_def)
  let ?cfg = "config (fresh_job (manual_request [''m1'', ''m4''] None (Some ''- ls'')))"
  note spec = deploy_loop_spec [OF f, of "[''m1'', ''m4'']" ?cfg
      "fresh_job (manual_request [''m1'', ''m4''] None (Some ''- ls''))",
      folded flaky_run_def, unfolded r p]
  have c: "loop_calls (flaky_env gpu_fleet) ?cfg 1 0
             [mk_machine ''m1'' ''gpu-1'' ''Ready'' [''gpu''],
              mk_machine ''m4'' ''gpu-3'' ''Ready'' [''gpu'', ''nvme'']] =
     [(''m1'', \<lparr>op = ''deploy'', dd_distro_series = ''jammy'',
               dd_user_data = Some (get_machine_cloud_init (env_dump (flaky_env gpu_fleet)) ''t''
                 (mk_machine ''m1'' ''gpu-1'' ''Ready'' [''gpu'']) ''- ls'' ''ubuntu'' None)\<rparr>),
      (''m4'', \<lparr>op = ''deploy'', dd_distro_series = ''jammy'',
               dd_user_data = Some (get_machine_cloud_init (env_dump (flaky_env gpu_fleet)) ''t''
                 (mk_machine ''m4'' ''gpu-3'' ''Ready'' [''gpu'', ''nvme'']) ''- ls'' ''ubuntu''
                 None)\<rparr>)]"
    by (simp add: manual_config deploy_data_of_def clock_after_render_def truthy_def
        or_else_def flaky_env_def mk_machine_fields o)
  have e: "loop_entries (flaky_env gpu_fleet) ?cfg 1 0
             [mk_machine ''m1'' ''gpu-1'' ''Ready'' [''gpu''],
              mk_machine ''m4'' ''gpu-3'' ''Ready'' [''gpu'', ''nvme'']] =
     [failed_entry (mk_machine ''m1'' ''gpu-1'' ''Ready'' [''gpu'']) ''500: MAAS API Error'',
      deployed_entry (mk_machine ''m4'' ''gpu-3'' ''Ready'' [''gpu'', ''nvme'']) ''jammy''
        ''ubuntu'' ''t'' ''ok'']"
    by (simp add: manual_config deploy_data_of_def clock_after_render_def truthy_def
        or_else_def flaky_env_def mk_machine_fields o)
  show ?thesis
    using spec [unfolded c e] f by (simp add: fresh_job_fields)
qed

section \<open>Configuration generation\<close>

lemma py_replace1_list_item:
  "startswith l ''- '' \<Longrightarrow> py_replace1 ''- '' [] l = drop 2 l"
  by (cases l) auto

lemma foldl_append_each: "foldl (\<lambda>rc cmd. rc @ [f cmd]) acc xs = acc @ map f xs"
  by (induction xs arbitrary: acc) auto

lemma dropWhile_all: "(\<forall>c\<in>set s. P c) \<Longrightarrow> dropWhile P s = []"
  by (induction s) auto

lemma dropWhile_none: "dropWhile P s = [] \<Longrightarrow> (\<forall>c\<in>set s. P c)"
  by (induction s) (auto split: if_splits)

lemma dropWhile_rev_dropWhile:
  assumes "dropWhile P (rev (dropWhile P s)) = []"
  shows "dropWhile P s = []"
proof (cases "dropWhile P s")
  case Nil
  then show ?thesis .
next
  case (Cons x xs)
  have nx: "\<not> P x"
    using Cons by (simp add: dropWhile_eq_Cons_conv)
  have "x \<in> set (rev (dropWhile P s))"
    by (simp add: Cons)
  with dropWhile_none [OF assms] have "P x" by blast
  with nx show ?thesis by contradiction
qed

lemma strip_empty_iff: "strip s = [] \<longleftrightarrow> (\<forall>c\<in>set s. isspace c)"
proof
  assume "strip s = []"
  then have "dropWhile isspace (rev (dropWhile isspace s)) = []"
    by (simp add: strip_def)
  then have "dropWhile isspace s = []"
    by (rule dropWhile_rev_dropWhile)
  then show "\<forall>c\<in>set s. isspace c"
    by (rule dropWhile_none)
next
  assume "\<forall>c\<in>set s. isspace c"
  then have d: "dropWhile isspace s = []"
    by (rule dropWhile_all)
  show "strip s = []"
    unfolding strip_def d by simp
qed

lemma split_chars: "l \<in> set (split sep s) \<Longrightarrow> set l \<subseteq> set s"
proof (induction s arbitrary: l)
  case Nil
  then show ?case by simp
next
  case (Cons c cs)
  show ?case
  proof (cases "c = sep")
    case True
    with Cons show ?thesis by auto
  next
    case False
    show ?thesis
    proof (cases "split sep cs")
      case Nil
      with Cons.prems False show ?thesis by simp
    next
      case (Cons w ws)
      from Cons.prems False Cons have "l = c # w \<or> l \<in> set ws" by simp
      then show ?thesis
      proof
        assume "l = c # w"
        moreover have "set w \<subseteq> set cs" using Cons.IH [of w] Cons by simp
        ultimately show ?thesis by auto
      next
        assume "l \<in> set ws"
        then have "set l \<subseteq> set cs" using Cons.IH [of l] Cons by simp
        then show ?thesis by auto
      qed
    qed
  qed
qed

lemma blank_snippet_has_no_lines: "strip t = [] \<Longrightarrow> user_lines t = []"
  using split_chars [of _ "CHR 0x0A" t]
  by (auto simp: user_lines_def strip_empty_iff filter_empty_conv)

lemma blank_snippet_has_no_commands: "strip t = [] \<Longrightarrow> user_commands t = []"
  by (simp add: user_commands_def blank_snippet_has_no_lines)

lemma user_commands_list_items: "l \<in> set (user_commands t) \<Longrightarrow> startswith l ''- ''"
  by (simp add: user_commands_def)

text \<open>\<open>startswith\<close> and \<open>contains\<close> are the prefix and the substring test.\<close>

lemma startswith_iff: "startswith s p \<longleftrightarrow> (\<exists>rest. s = p @ rest)"
  by (induction s p rule: startswith.induct) auto

lemma contains_iff: "contains p s \<longleftrightarrow> (\<exists>before after. s = before @ p @ after)"
proof (induction s)
  case Nil
  then show ?case by auto
next
  case (Cons c cs)
  have "(\<exists>before after. c # cs = before @ p @ after) \<longleftrightarrow>
        (\<exists>after. c # cs = p @ after) \<or> (\<exists>before after. cs = before @ p @ after)"
  proof
    assume "\<exists>before after. c # cs = before @ p @ after"
    then obtain before after where e: "c # cs = before @ p @ after" by blast
    show "(\<exists>after. c # cs = p @ after) \<or> (\<exists>before after. cs = before @ p @ after)"
    proof (cases before)
      case Nil
      with e show ?thesis by auto
    next
      case (Cons b bs)
      with e have "cs = bs @ p @ after" by simp
      then show ?thesis by blast
    qed
  next
    assume "(\<exists>after. c # cs = p @ after) \<or> (\<exists>before after. cs = before @ p @ after)"
    then show "\<exists>before after. c # cs = before @ p @ after"
    proof
      assume "\<exists>after. c # cs = p @ after"
      then obtain after where "c # cs = [] @ p @ after" by auto
      then show ?thesis by blast
    next
      assume "\<exists>before after. cs = before @ p @ after"
      then obtain before after where "c # cs = (c # before) @ p @ after" by auto
      then show ?thesis by blast
    qed
  qed
  then show ?case by (simp add: Cons.IH startswith_iff)
qed

lemma list_item_prefix: "startswith l ''- '' \<longleftrightarrow> take 2 l = ''- ''"
proof (cases l)
  case Nil
  then show ?thesis by simp
next
  case (Cons a l')
  then show ?thesis by (cases l') (auto simp: numeral_2_eq_2)
qed

text \<open>The commands the code appends are the commands \<open>kept_commands\<close> describes.\<close>

lemma appended_commands:
  "map (py_replace1 ''- '' []) (user_commands t) = kept_commands t"
proof -
  have m: "map (py_replace1 ''- '' []) (user_commands t) = map (drop 2) (user_commands t)"
    by (rule map_cong) (simp_all add: py_replace1_list_item user_commands_list_items)
  have f: "user_commands t =
     filter (\<lambda>l. take 2 l = ''- '' \<and> \<not> contains ''echo'' l \<and> \<not> contains ''systemctl'' l)
       (map strip (split (CHR 0x0A) t))"
    unfolding user_commands_def user_lines_def filter_filter
    by (rule filter_cong) (auto simp: list_item_prefix)
  show ?thesis
    by (subst m, subst f) (simp add: kept_commands_def)
qed

lemma no_commands_iff: "user_commands t = [] \<longleftrightarrow> kept_commands t = []"
  using appended_commands [of t] by (metis map_is_Nil_conv)

lemma merge_runcmd:
  "runcmd (merge_configurations base enh t) = runcmd base @ enh_runcmd enh @ snippet_part t"
  using blank_snippet_has_no_commands [of t] no_commands_iff [of t]
  by (auto simp: merge_configurations_def Let_def foldl_append_each appended_commands
      snippet_part_def)

text \<open>
  Claim C8, as stated, fails: the snippet \<open>reboot now\<close> has one non-empty line, which is
  not a list item; the merged configuration is the base configuration, with no comment
  line for the dropped line.
\<close>

theorem dropped_line_leaves_no_comment_counterexample:
  "filter (\<lambda>l. l \<noteq> []) (map strip (split (CHR 0x0A) ''reboot now'')) = [''reboot now''] \<and>
   merge_configurations (generate_base_cloud_init ''ubuntu'' None)
     (generate_tag_based_enhancements [] ''ubuntu'') ''reboot now'' =
     generate_base_cloud_init ''ubuntu'' None"
proof -
  have l: "user_lines ''reboot now'' = [''reboot now'']"
    by (simp add: user_lines_def strip_def isspace_def)
  have c: "user_commands ''reboot now'' = []"
    by (simp add: user_commands_def l)
  have e: "generate_tag_based_enhancements [] ''ubuntu'' =
             \<lparr>enh_packages = [], enh_runcmd = [], enh_write_files = []\<rparr>"
    by (simp add: generate_tag_based_enhancements_def)
  show ?thesis
    using l by (simp add: user_lines_def c e merge_configurations_def Let_def)
qed

text \<open>
  Claim C8, amended. The merged configuration is the base configuration with the
  packages and files of the enhancements appended to its own, and with run commands
  that are the base commands, then the enhancement commands, then, when the snippet has
  lines to keep, the header comment \<open># User-provided commands:\<close> followed by the kept
  lines without their list prefix, in snippet order. A line of the snippet is kept when,
  taken without the white space around it, it starts with \<open>'- '\<close> and contains neither
  \<open>echo\<close> nor \<open>systemctl\<close> anywhere. Every other line is dropped and nothing is written
  for it: no other part of the configuration changes.
\<close>

theorem merge_user_commands:
  "merge_configurations base enh t =
     base\<lparr>packages := packages base @ enh_packages enh,
          write_files := write_files base @ enh_write_files enh,
          runcmd := runcmd base @ enh_runcmd enh @
            (if kept_commands t = [] then []
             else ''# User-provided commands:'' # kept_commands t)\<rparr>"
proof -
  have r: "runcmd (merge_configurations base enh t) =
     runcmd base @ enh_runcmd enh @
     (if kept_commands t = [] then [] else ''# User-provided commands:'' # kept_commands t)"
    by (simp add: merge_runcmd snippet_part_def)
  have o: "merge_configurations base enh t =
     base\<lparr>packages := packages base @ enh_packages enh,
          write_files := write_files base @ enh_write_files enh,
          runcmd := runcmd (merge_configurations base enh t)\<rparr>"
    by (simp add: merge_configurations_def Let_def)
  show ?thesis
    using o unfolding r .
qed

lemma sample_snippet_commands:
  "kept_commands sample_snippet = [''apt-get update'', ''mkdir /opt/data'']"
  by (simp add: kept_commands_def sample_snippet_def strip_def isspace_def)

theorem merge_user_commands_witness:
  "kept_commands sample_snippet = [''apt-get update'', ''mkdir /opt/data''] \<and>
   merge_configurations (generate_base_cloud_init ''ubuntu'' None)
     (generate_tag_based_enhancements [] ''ubuntu'') sample_snippet =
     (generate_base_cloud_init ''ubuntu'' None)
       \<lparr>runcmd := runcmd (generate_base_cloud_init ''ubuntu'' None) @
          [''# User-provided commands:'', ''apt-get update'', ''mkdir /opt/data'']\<rparr>"
proof -
  have e: "generate_tag_based_enhancements [] ''ubuntu'' =
             \<lparr>enh_packages = [], enh_runcmd = [], enh_write_files = []\<rparr>"
    by (simp add: generate_tag_based_enhancements_def)
  show ?thesis
    using merge_user_commands [of "generate_base_cloud_init ''ubuntu'' None"
        "generate_tag_based_enhancements [] ''ubuntu''" sample_snippet]
    by (simp add: sample_snippet_commands e)
qed

lemma rocky_is_rocky: "is_rocky_os ''rocky''"
  by (simp add: is_rocky_os_def lower_def lower_char_def upper_letters_def lower_letters_def)

lemma admin_wants_commands: "wants_user_commands (Some admin_credentials)"
  by (simp add: wants_user_commands_def admin_credentials_def truthy_def)

lemma base_runcmd_with_credentials:
  "runcmd (generate_base_cloud_init ''rocky'' (Some admin_credentials)) =
     base_commands True @ rocky_user_commands ''admin'' ''secret''"
  using admin_wants_commands
  by (simp add: generate_base_cloud_init_def Let_def rocky_is_rocky user_specific_commands_def
      admin_credentials_def fmt_def)

lemma chpasswd_in_rocky_commands:
  \<open>''  echo "admin:secret" | chpasswd 2>&1 | tee -a /var/log/cloud-init-userdata.log''
     \<in> set (rocky_user_commands ''admin'' ''secret'')\<close>
  by (simp add: rocky_user_commands_def)

lemma runcmd_merge_keeps_base:
  "set (runcmd b) \<subseteq> set (runcmd (merge_configurations b enh t))"
  by (auto simp: merge_configurations_def Let_def foldl_append_each)

lemma runcmd_final_keeps_base:
  "set (runcmd (generate_base_cloud_init os c)) \<subseteq> set (runcmd (final_config_of m t os c))"
  using runcmd_merge_keeps_base
    [of "generate_base_cloud_init os c" "generate_tag_based_enhancements (tag_names m) os" t]
  by (auto simp: final_config_of_def Let_def)

text \<open>
  Claim C3 at the failing input: for a Rocky machine and the credential \<open>admin\<close> /
  \<open>secret\<close>, the rendered document holds the password in an account-creation command
  outside the \<open>users\<close> section, and the display string is the deploy string with only
  the text \<open>plain_text_passwd: secret\<close> replaced; whatever \<open>yaml.dump\<close> writes for that
  command stays in the display string as it is.
\<close>

theorem display_keeps_password_in_commands:
  \<open>''  echo "admin:secret" | chpasswd 2>&1 | tee -a /var/log/cloud-init-userdata.log''
     \<in> set (runcmd (final_config_of rocky_node [] ''rocky'' (Some admin_credentials))) \<and>
   gen_config (generate_cloud_init dump set_order now [rocky_node] [] ''rocky''
                 (Some admin_credentials)) =
     yaml_header rocky_node (now 0) @
     dump (config_yaml (final_config_of rocky_node [] ''rocky'' (Some admin_credentials))) \<and>
   displayConfig (generate_cloud_init dump set_order now [rocky_node] [] ''rocky''
                    (Some admin_credentials)) =
     py_replace ''plain_text_passwd: secret'' hidden_marker
       (gen_config (generate_cloud_init dump set_order now [rocky_node] [] ''rocky''
                      (Some admin_credentials)))\<close>
proof -
  have a: \<open>''  echo "admin:secret" | chpasswd 2>&1 | tee -a /var/log/cloud-init-userdata.log''
     \<in> set (runcmd (final_config_of rocky_node [] ''rocky'' (Some admin_credentials)))\<close>
    using runcmd_final_keeps_base [of "''rocky''" "Some admin_credentials" rocky_node "[]"]
      chpasswd_in_rocky_commands
    by (auto simp: base_runcmd_with_credentials)
  have b: "sanitized_yaml_string (Some admin_credentials) x =
             py_replace ''plain_text_passwd: secret'' hidden_marker x" for x
    by (simp add: sanitized_yaml_string_def admin_credentials_def truthy_def or_else_def)
  show ?thesis
    using a
    by (simp add: generate_cloud_init_def generate_machine_cloud_init_def Let_def b)
qed

section \<open>Rendering without a credential\<close>

lemma users_merge: "users (merge_configurations b enh t) = users b"
  by (simp add: merge_configurations_def Let_def)

lemma users_without_credentials: "users (generate_base_cloud_init os None) = None"
  by (simp add: generate_base_cloud_init_def Let_def)

lemma users_final_without_credentials: "users (final_config_of m t os None) = None"
  by (simp add: final_config_of_def Let_def users_merge users_without_credentials)

lemma base_commands_no_account: "list_all no_account_command (base_commands b)"
  by (cases b) (simp_all add: base_commands_def no_account_command_def)

lemma nouser_commands_no_account:
  "list_all no_account_command rocky_nouser_commands"
  "list_all no_account_command ubuntu_nouser_commands"
  by (simp_all add: rocky_nouser_commands_def ubuntu_nouser_commands_def no_account_command_def)

lemma completion_no_account: "list_all no_account_command commands_after_snippet"
  by (simp add: commands_after_snippet_def completion_commands_def no_user_command_def
      no_account_command_def)

lemma rule_commands_no_account:
  "list_all no_account_command high_cpu_commands"
  "list_all no_account_command high_memory_commands"
  "list_all no_account_command bcm57508_commands"
  "list_all no_account_command amd64_commands"
  "list_all no_account_command virtual_commands"
  "list_all no_account_command serial_console_commands"
  "list_all no_account_command nvme_commands"
  "list_all no_account_command connectx_commands"
  "list_all no_account_command doca_commands"
  "list_all no_account_command intel_nic_commands"
  "list_all no_account_command broadcom_commands"
  by (simp_all add: high_cpu_commands_def high_memory_commands_def bcm57508_commands_def
      amd64_commands_def virtual_commands_def serial_console_commands_def nvme_commands_def
      connectx_commands_def doca_commands_def intel_nic_commands_def broadcom_commands_def
      no_account_command_def)

lemma account_free_let: "account_free e \<Longrightarrow> (\<And>x. account_free x \<Longrightarrow> account_free (f x)) \<Longrightarrow> account_free (Let e f)"
  by simp

lemma account_free_let_other: "(\<And>x. account_free (f x)) \<Longrightarrow> account_free (Let v f)"
  by simp

lemma account_free_if:
  "(c \<Longrightarrow> account_free a) \<Longrightarrow> (\<not> c \<Longrightarrow> account_free b) \<Longrightarrow> account_free (if c then a else b)"
  by simp

lemma account_free_add:
  "account_free e \<Longrightarrow> list_all no_account_command cs \<Longrightarrow> account_free (add_runcmd cs e)"
  "account_free e \<Longrightarrow> account_free (add_packages ps e)"
  "account_free e \<Longrightarrow> account_free (add_file f e)"
  by (simp_all add: account_free_def add_runcmd_def add_packages_def add_file_def)

lemma account_free_empty:
  "account_free \<lparr>enh_packages = [], enh_runcmd = [], enh_write_files = []\<rparr>"
  by (simp add: account_free_def)

lemma enhancements_account_free: "account_free (generate_tag_based_enhancements tgs os)"
  unfolding generate_tag_based_enhancements_def
  by (intro account_free_let account_free_if account_free_add account_free_empty
      rule_commands_no_account account_free_let_other) assumption+

lemma runcmd_without_credentials:
  "runcmd (final_config_of m t os None) =
     machine_specific_cmds m @ commands_before_snippet m os @ snippet_part t @
     commands_after_snippet"
  by (simp add: final_config_of_def Let_def merge_runcmd users_merge users_without_credentials
      generate_base_cloud_init_def user_specific_commands_def commands_before_snippet_def
      commands_after_snippet_def)

lemma commands_before_no_account: "list_all no_account_command (commands_before_snippet m os)"
  using enhancements_account_free [of "tag_names m" os]
  by (simp add: commands_before_snippet_def base_commands_no_account
      nouser_commands_no_account account_free_def)

lemma machine_lines_log: "list_all log_line (machine_specific_cmds m)"
  by (simp add: machine_specific_cmds_def log_line_def endswith_def)

lemma no_users_key: "''users'' \<notin> set (yaml_keys (config_yaml (final_config_of m t os None)))"
  by (auto simp: config_yaml_def users_final_without_credentials split: option.splits)

lemma loop_calls_render:
  "call \<in> set (loop_calls e cfg clk k ms) \<Longrightarrow>
   \<exists>m ts. fst call = system_id m \<and>
     dd_user_data (snd call) =
       (if truthy (user_data cfg)
        then Some (yaml_header m ts @
                   env_dump e (config_yaml (final_config_of m (or_else (user_data cfg) [])
                                              (os_type_of (distro_series cfg)) None)))
        else None)"
proof (induction ms arbitrary: clk k)
  case Nil
  then show ?case by simp
next
  case (Cons m ms)
  from Cons.prems consider
    (here) "call = (system_id m, deploy_data_of e cfg clk m)"
    | (later) clk' k' where "call \<in> set (loop_calls e cfg clk' k' ms)"
    by (auto split: sum.splits)
  then show ?case
  proof cases
    case here
    then show ?thesis
      by (auto simp: deploy_data_of_def get_machine_cloud_init_def
          generate_machine_cloud_init_def Let_def)
  next
    case later
    then show ?thesis by (rule Cons.IH)
  qed
qed

lemma abort_calls: "ex_calls (abort e err st) = ex_calls st"
  by (simp add: abort_def Let_def mutate_simps tick_simps)

lemma run_job_calls_render:
  assumes "call \<in> set (ex_calls (run_job e ids cfg j))"
  shows "\<exists>m ts. fst call = system_id m \<and>
     dd_user_data (snd call) =
       (if truthy (user_data cfg)
        then Some (yaml_header m ts @
                   env_dump e (config_yaml (final_config_of m (or_else (user_data cfg) [])
                                              (os_type_of (distro_series cfg)) None)))
        else None)"
proof (cases "env_fetch e")
  case (Inl err)
  with assms show ?thesis by (simp add: run_job_failed abort_calls started_job)
next
  case (Inr fleet)
  with assms have "call \<in> set (loop_calls e cfg 1 0 (post_filters cfg (ready_targets fleet ids)))"
    using run_job_result [OF Inr, of ids cfg j] by simp
  then show ?thesis by (rule loop_calls_render)
qed

text \<open>The generation entry point renders every machine with the credential it is given.\<close>

lemma entry_point_renders:
  "map mc_config (machineConfigs
     (generate_cloud_init dump set_order now selected t os user_credentials)) =
     map (\<lambda>(i, m). yaml_header m (now i) @
                     dump (config_yaml (final_config_of m t os user_credentials)))
       (enumerate 0 selected)"
  by (auto simp: generate_cloud_init_def generate_machine_cloud_init_def Let_def
      split: list.splits)

lemma deploy_machines_run:
  "snd (deploy_machines e a jid ids cfg) = Some st \<Longrightarrow>
   \<exists>j. map_of (provisioning_jobs a) jid = Some j \<and> st = run_job e ids cfg j"
  by (auto simp: deploy_machines_def Let_def split: option.splits)

lemma eve_job_snippet: "user_data (config eve_job) = Some ''- useradd -m eve''"
  by (simp add: eve_job_def eve_snippet_def manual_config)

lemma eve_job_series: "distro_series (config eve_job) = ''jammy''"
  by (simp add: eve_job_def manual_config)

lemma jammy_is_ubuntu: "os_type_of ''jammy'' = ''ubuntu''"
  by (simp add: os_type_of_def is_rocky_os_def lower_def lower_char_def upper_letters_def
      lower_letters_def)

lemma eve_run_calls:
  "ex_calls eve_run =
     [(''m1'', \<lparr>op = ''deploy'', dd_distro_series = ''jammy'',
               dd_user_data = Some (yaml_header (mk_machine ''m1'' ''gpu-1'' ''Ready'' [''gpu'']) ''t'' @
                 env_dump (calm_env gpu_fleet)
                   (config_yaml (final_config_of (mk_machine ''m1'' ''gpu-1'' ''Ready'' [''gpu''])
                                   ''- useradd -m eve'' ''ubuntu'' None)))\<rparr>)]"
proof -
  have r: "post_filters (config eve_job) (ready_targets gpu_fleet [''m1'']) =
             [mk_machine ''m1'' ''gpu-1'' ''Ready'' [''gpu'']]"
    by (simp add: eve_job_def manual_config post_filters_plain ready_targets_def gpu_fleet_def
        mk_machine_def)
  have "ex_calls eve_run =
          loop_calls (calm_env gpu_fleet) (config eve_job) 1 0
            (post_filters (config eve_job) (ready_targets gpu_fleet [''m1'']))"
    unfolding eve_run_def using run_job_result [OF calm_fetch] by simp
  also have "\<dots> = [(''m1'', deploy_data_of (calm_env gpu_fleet) (config eve_job) 1
                              (mk_machine ''m1'' ''gpu-1'' ''Ready'' [''gpu'']))]"
    unfolding r by (simp add: calm_deploy mk_machine_fields)
  finally show ?thesis
    by (simp add: deploy_data_of_def eve_job_snippet truthy_def or_else_def jammy_is_ubuntu
        get_machine_cloud_init_def generate_machine_cloud_init_def Let_def eve_job_def
        eve_snippet_def manual_config calm_env_def)
qed

lemma eve_kept: "kept_commands ''- useradd -m eve'' = [''useradd -m eve'']"
  by (simp add: kept_commands_def strip_def isspace_def)

text \<open>
  Claim C10, as stated, fails: the job \<open>eve_job\<close> carries the snippet
  \<open>- useradd -m eve\<close>; its run deploys \<open>m1\<close> with the document rendered for that
  snippet, and \<open>useradd -m eve\<close> is one of the run commands of the document.
\<close>

theorem snippet_account_command_counterexample:
  "user_data (config eve_job) = Some ''- useradd -m eve'' \<and>
   ex_calls eve_run =
     [(''m1'', \<lparr>op = ''deploy'', dd_distro_series = ''jammy'',
               dd_user_data = Some (yaml_header (mk_machine ''m1'' ''gpu-1'' ''Ready'' [''gpu'']) ''t'' @
                 env_dump (calm_env gpu_fleet)
                   (config_yaml (final_config_of (mk_machine ''m1'' ''gpu-1'' ''Ready'' [''gpu''])
                                   ''- useradd -m eve'' ''ubuntu'' None)))\<rparr>)] \<and>
   ''useradd -m eve'' \<in> set (runcmd (final_config_of (mk_machine ''m1'' ''gpu-1'' ''Ready'' [''gpu''])
                                       ''- useradd -m eve'' ''ubuntu'' None)) \<and>
   \<not> no_account_command ''useradd -m eve''"
proof -
  have m: "''useradd -m eve'' \<in> set (runcmd (final_config_of (mk_machine ''m1'' ''gpu-1'' ''Ready'' [''gpu''])
                                       ''- useradd -m eve'' ''ubuntu'' None))"
    by (simp add: runcmd_without_credentials snippet_part_def eve_kept)
  have n: "\<not> no_account_command ''useradd -m eve''"
    by (simp add: no_account_command_def)
  show ?thesis
    using eve_job_snippet eve_run_calls m n by blast
qed

text \<open>
  Claim C10, amended. Whatever the module state is (in particular whatever user
  credential \<open>users.conf\<close> configured), every deploy request of a job run carries no
  configuration when the job has no user snippet, and otherwise the text rendered by the
  generator for the machine of the request, the snippet and the OS family with the
  credential argument absent. A document rendered without a credential has no
  \<open>users\<close> section. Its run commands are, in this order: the lines that log the
  attributes of the machine; the base commands of the OS family and the commands of
  the tag rules; the commands taken from the snippet; the completion lines, the last
  of which reports that no user is configured. The base, tag-rule and completion
  commands name none of \<open>useradd\<close>, \<open>chpasswd\<close>, \<open>usermod\<close>, \<open>adduser\<close>; the commands of
  the snippet are the user's own. The entry point \<open>generate_cloud_init\<close> renders each
  machine with the credential it receives as argument.
\<close>

theorem batch_render_without_credentials:
  assumes "snd (deploy_machines e a jid ids cfg) = Some st"
  shows "(\<forall>call\<in>set (ex_calls st). \<exists>m ts.
            fst call = system_id m \<and>
            dd_user_data (snd call) =
              (if truthy (user_data cfg)
               then Some (yaml_header m ts @
                          env_dump e (config_yaml (final_config_of m (or_else (user_data cfg) [])
                                                     (os_type_of (distro_series cfg)) None)))
               else None)) \<and>
         users (final_config_of m t os None) = None \<and>
         ''users'' \<notin> set (yaml_keys (config_yaml (final_config_of m t os None))) \<and>
         runcmd (final_config_of m t os None) =
           machine_specific_cmds m @ commands_before_snippet m os @
           (if kept_commands t = [] then []
            else ''# User-provided commands:'' # kept_commands t) @
           commands_after_snippet \<and>
         list_all log_line (machine_specific_cmds m) \<and>
         list_all no_account_command (commands_before_snippet m os) \<and>
         list_all no_account_command commands_after_snippet \<and>
         last commands_after_snippet = no_user_command \<and>
         map mc_config (machineConfigs
           (generate_cloud_init dump set_order now selected t os user_credentials)) =
           map (\<lambda>(i, m). yaml_header m (now i) @
                           dump (config_yaml (final_config_of m t os user_credentials)))
             (enumerate 0 selected)"
proof -
  from deploy_machines_run [OF assms] obtain j where st: "st = run_job e ids cfg j" by blast
  have calls: "\<forall>call\<in>set (ex_calls st). \<exists>m ts.
            fst call = system_id m \<and>
            dd_user_data (snd call) =
              (if truthy (user_data cfg)
               then Some (yaml_header m ts @
                          env_dump e (config_yaml (final_config_of m (or_else (user_data cfg) [])
                                                     (os_type_of (distro_series cfg)) None)))
               else None)"
    unfolding st using run_job_calls_render by blast
  have cmds: "runcmd (final_config_of m t os None) =
           machine_specific_cmds m @ commands_before_snippet m os @
           (if kept_commands t = [] then []
            else ''# User-provided commands:'' # kept_commands t) @
           commands_after_snippet"
    by (simp add: runcmd_without_credentials snippet_part_def)
  have l: "last commands_after_snippet = no_user_command"
    by (simp add: commands_after_snippet_def)
  show ?thesis
    using calls cmds l users_final_without_credentials [of m t os] no_users_key [of m t os]
      machine_lines_log [of m] commands_before_no_account [of m os] completion_no_account
      entry_point_renders [of dump set_order now selected t os user_credentials]
    by blast
qed

theorem batch_render_without_credentials_witness:
  "user_config eve_app \<noteq> None \<and>
   snd (deploy_machines (calm_env gpu_fleet) eve_app ''job-0-1'' [''m1''] (config eve_job)) =
     Some eve_run \<and>
   map fst (ex_calls eve_run) = [''m1''] \<and>
   (\<exists>m ts. system_id m = ''m1'' \<and>
      dd_user_data (snd (hd (ex_calls eve_run))) =
        Some (yaml_header m ts @
              env_dump (calm_env gpu_fleet)
                (config_yaml (final_config_of m ''- useradd -m eve'' ''ubuntu'' None)))) \<and>
   runcmd (final_config_of (mk_machine ''m1'' ''gpu-1'' ''Ready'' [''gpu''])
             ''- useradd -m eve'' ''ubuntu'' None) =
     machine_specific_cmds (mk_machine ''m1'' ''gpu-1'' ''Ready'' [''gpu'']) @
     commands_before_snippet (mk_machine ''m1'' ''gpu-1'' ''Ready'' [''gpu'']) ''ubuntu'' @
     [''# User-provided commands:'', ''useradd -m eve''] @ commands_after_snippet"
proof -
  have c: "user_config eve_app \<noteq> None"
    by (simp add: eve_app_def)
  have h: "snd (deploy_machines (calm_env gpu_fleet) eve_app ''job-0-1'' [''m1''] (config eve_job)) =
             Some eve_run"
    by (simp add: deploy_machines_def eve_app_def eve_run_def Let_def)
  note spec = batch_render_without_credentials [OF h,
      of "mk_machine ''m1'' ''gpu-1'' ''Ready'' [''gpu'']" "''- useradd -m eve''" "''ubuntu''"]
  have i: "hd (ex_calls eve_run) \<in> set (ex_calls eve_run)"
    by (simp add: eve_run_calls)
  have f: "fst (hd (ex_calls eve_run)) = ''m1''"
    by (simp add: eve_run_calls)
  from spec i obtain m ts where
    "fst (hd (ex_calls eve_run)) = system_id m"
    "dd_user_data (snd (hd (ex_calls eve_run))) =
       (if truthy (user_data (config eve_job))
        then Some (yaml_header m ts @
                   env_dump (calm_env gpu_fleet)
                     (config_yaml (final_config_of m (or_else (user_data (config eve_job)) [])
                                     (os_type_of (distro_series (config eve_job))) None)))
        else None)"
    by blast
  then have e: "\<exists>m ts. system_id m = ''m1'' \<and>
      dd_user_data (snd (hd (ex_calls eve_run))) =
        Some (yaml_header m ts @
              env_dump (calm_env gpu_fleet)
                (config_yaml (final_config_of m ''- useradd -m eve'' ''ubuntu'' None)))"
    using f
    by (auto simp: eve_job_snippet eve_job_series truthy_def or_else_def jammy_is_ubuntu)
  have r: "runcmd (final_config_of (mk_machine ''m1'' ''gpu-1'' ''Ready'' [''gpu''])
             ''- useradd -m eve'' ''ubuntu'' None) =
     machine_specific_cmds (mk_machine ''m1'' ''gpu-1'' ''Ready'' [''gpu'']) @
     commands_before_snippet (mk_machine ''m1'' ''gpu-1'' ''Ready'' [''gpu'']) ''ubuntu'' @
     [''# User-provided commands:'', ''useradd -m eve''] @ commands_after_snippet"
    using spec by (simp add: eve_kept)
  have n: "map fst (ex_calls eve_run) = [''m1'']"
    by (simp add: eve_run_calls)
  show ?thesis
    using c h n e r by blast
qed

end
